theory Spec2Isabelle
  imports Main "HOL-Library.Word"
begin

section \<open>Runtime values and IR nodes\<close>

text \<open>
  The interpreter of \<^verbatim>\<open>src/interpreter.c\<close> works on the host runtime's values
  (\<^verbatim>\<open>jl_value_t*\<close>); IR nodes are such values too. The tagged variants the
  interpreter tells apart with \<^verbatim>\<open>jl_is_ssavalue\<close>, \<^verbatim>\<open>jl_is_slot\<close>,
  \<^verbatim>\<open>jl_is_expr\<close>, ... are the constructors of one datatype. Symbols and module
  names are strings; a symbol is interned, so pointer equality of symbols is
  equality of their names.
\<close>

type_synonym jl_sym = string
type_synonym jl_module = string

text \<open>
  Type descriptors, as far as the foreign-call bridge classifies them: the
  top type, primitive (bits) types with their size in bytes, \<^verbatim>\<open>Ptr{T}\<close>,
  \<^verbatim>\<open>Ref{T}\<close>, array types, and any other data type with its mutability.
\<close>

datatype jl_type =
    Any_type
  | Primitive_type jl_sym nat
  | Ptr_type jl_type
  | Ref_type jl_type
  | Array_type jl_type nat
  | Struct_type jl_sym bool

datatype jl_value =
    SSAValue int
  | SlotNumber int
  | TypedSlot int jl_value
  | Argument int
  | QuoteNode jl_value
  | GlobalRef jl_module jl_sym
  | Symbol jl_sym
  | PiNode jl_value jl_value
  | PhiNode "int list" "jl_value option list"
  | PhiCNode "jl_value list"
  | UpsilonNode "jl_value option"
  | GotoNode int
  | GotoIfNot jl_value int
  | ReturnNode "jl_value option"
  | NewvarNode jl_value
  | LineNumberNode int
  | Expr jl_sym "jl_value list"
  | Bits jl_type nat
  | Nothing
  | String_val string
  | Tuple "jl_value list"
  | SimpleVector "jl_value list"
  | TypeVar jl_sym
  | Type_val jl_type
  | MethodInstance_val nat
  | MethodTable_val nat
  | Object jl_type nat

text \<open>
  \<^verbatim>\<open>jl_code_info_t\<close>: the statement array, one name and one flag byte per slot
  (\<^verbatim>\<open>slotnames\<close> and \<^verbatim>\<open>slotflags\<close> are parallel arrays of one length, held
  here as one list of pairs), and \<^verbatim>\<open>ssavaluetypes\<close>, which is either a boxed
  count or an array with one entry per SSA value.
\<close>

datatype ssavaluetypes = SSA_count int | SSA_types "jl_value list"

record jl_code_info =
  code :: "jl_value list"
  slots :: "(jl_sym \<times> nat) list"
  ssavaluetypes :: ssavaluetypes

text \<open>
  Of a \<^verbatim>\<open>jl_method_instance_t\<close> the interpreter reads whether its definition is
  a method and whether that method's signature is a \<^verbatim>\<open>UnionAll\<close>.
\<close>

record jl_method_instance =
  mi_id :: nat
  def_is_method :: bool
  sig_is_unionall :: bool

text \<open>
  \<^verbatim>\<open>interpreter_state\<close>, the activation record. \<^verbatim>\<open>locals\<close> is a pointer to
  the flat storage array \<^verbatim>\<open>[slots..., ssavalues...]\<close>; a cell holding
  \<^verbatim>\<open>NULL\<close> is \<open>None\<close>, and the pointer itself may be \<^verbatim>\<open>NULL\<close>.
\<close>

record interpreter_state =
  src :: "jl_code_info option"
  mi :: "jl_method_instance option"
  module :: jl_module
  locals :: "jl_value option list option"
  sparam_vals :: "jl_value list option"
  ip :: nat
  preevaluation :: bool
  continue_at :: nat
  jit :: int

section \<open>Backtrace capture\<close>

text \<open>
  \<^verbatim>\<open>jl_bt_element_t\<close> is a union of a machine word and a value pointer. The
  values stored by \<^verbatim>\<open>jl_capture_interp_frame\<close> are the method instance, the
  code unit, \<^verbatim>\<open>jl_nothing\<close> or the module.
\<close>

datatype frame_ref =
    Ref_mi jl_method_instance
  | Ref_src jl_code_info
  | Ref_nothing
  | Ref_module jl_module

datatype jl_bt_element = Uintptr "64 word" | Jlvalue frame_ref

text \<open>
  \<^verbatim>\<open>JL_BT_NON_PTR_ENTRY\<close>, \<^verbatim>\<open>JL_BT_INTERP_FRAME_TAG\<close> and
  \<^verbatim>\<open>jl_bt_entry_descriptor\<close> are declared in \<^verbatim>\<open>julia_internal.h\<close>, which is not
  among the sources; they are parameters of the model.
\<close>

record bt_layout =
  JL_BT_NON_PTR_ENTRY :: "64 word"
  JL_BT_INTERP_FRAME_TAG :: nat
  jl_bt_entry_descriptor :: "nat \<Rightarrow> nat \<Rightarrow> nat \<Rightarrow> 64 word \<Rightarrow> 64 word"

text \<open>The frame-descriptor size: \<^verbatim>\<open>need_module ? 4 : 3\<close> with \<^verbatim>\<open>need_module = !s->mi\<close>.\<close>

definition required_space :: "interpreter_state \<Rightarrow> nat" where
  "required_space s = (if mi s = None then 4 else 3)"

text \<open>
  The buffer \<^verbatim>\<open>bt_entry\<close> is the memory from the pointer on, indexed from 0.
  The function returns the buffer as written and the number of entries used.
\<close>

definition jl_capture_interp_frame ::
  "bt_layout \<Rightarrow> (nat \<Rightarrow> jl_bt_element) \<Rightarrow> interpreter_state \<Rightarrow> nat \<Rightarrow> (nat \<Rightarrow> jl_bt_element) \<times> nat"
where
  "jl_capture_interp_frame L bt_entry s space_remaining =
    (let need_module = (mi s = None)
     in if space_remaining < required_space s then (bt_entry, 0)
        else
          let njlvalues = (if need_module then 2 else 1 :: nat);
              entry_tags = jl_bt_entry_descriptor L njlvalues 0 (JL_BT_INTERP_FRAME_TAG L) (of_nat (ip s));
              bt1 = bt_entry(0 := Uintptr (JL_BT_NON_PTR_ENTRY L));
              bt2 = bt1(1 := Uintptr entry_tags);
              bt3 = bt2(2 := Jlvalue (case mi s of Some m \<Rightarrow> Ref_mi m
                                      | None \<Rightarrow> (case src s of Some c \<Rightarrow> Ref_src c | None \<Rightarrow> Ref_nothing)));
              bt4 = (if need_module then bt3(3 := Jlvalue (Ref_module (module s))) else bt3)
          in (bt4, required_space s))"

section \<open>Errors\<close>

text \<open>
  Every way an evaluation can fail to return is a value. A raise
  (\<^verbatim>\<open>jl_error\<close>, \<^verbatim>\<open>jl_undefined_var_error\<close>, \<^verbatim>\<open>jl_type_error\<close>, \<^verbatim>\<open>jl_throw\<close>,
  or whatever a collaborator throws) is \<open>Throw\<close>; a failed \<^verbatim>\<open>assert\<close> (the
  model is the build with assertions on), \<^verbatim>\<open>exit(1)\<close> and \<^verbatim>\<open>abort()\<close> end the
  process; \<open>Undefined\<close> marks what C leaves undefined (a read or write outside
  an array, a \<^verbatim>\<open>NULL\<close> dereference).
\<close>

datatype jl_exception =
    ErrorException string
  | UndefVarError jl_sym
  | UndefRefError
  | TypeError string jl_type "jl_value option"
  | ArgumentError string
  | UnresolvedSymbol string
  | Host_exception jl_value

datatype fault =
    Throw jl_exception
  | Assertion_failed string
  | Exit int
  | Abort
  | Undefined string

text \<open>The error kinds of the specification, as the code raises them.\<close>

definition InvalidReference_slot :: fault where
  "InvalidReference_slot = Throw (ErrorException ''access to invalid slot number'')"

definition InvalidReference_ssa :: fault where
  "InvalidReference_ssa = Throw (ErrorException ''access to invalid SSAValue'')"

definition UndefinedVariable :: "jl_sym \<Rightarrow> fault" where
  "UndefinedVariable name = Throw (UndefVarError name)"

definition NullFunctionPointer :: fault where
  "NullFunctionPointer = Throw (ErrorException ''Try to call a null pointer'')"

definition UnsupportedCallingConvention :: fault where
  "UnsupportedCallingConvention = Throw (ErrorException ''vararg doesn't support'')"

section \<open>The host runtime\<close>

text \<open>
  The interned symbols the interpreter compares expression heads with
  (\<^verbatim>\<open>jl_call_sym\<close>, ...) are created in the front end, which is not among the
  sources; each is the symbol of the name the front end gives it.
\<close>

definition jl_call_sym :: jl_sym where "jl_call_sym = ''call''"
definition jl_invoke_sym :: jl_sym where "jl_invoke_sym = ''invoke''"
definition jl_invoke_modify_sym :: jl_sym where "jl_invoke_modify_sym = ''invoke_modify''"
definition jl_isdefined_sym :: jl_sym where "jl_isdefined_sym = ''isdefined''"
definition jl_throw_undef_if_not_sym :: jl_sym where "jl_throw_undef_if_not_sym = ''throw_undef_if_not''"
definition jl_getfield_undefref_sym :: jl_sym where "jl_getfield_undefref_sym = ''##getfield##''"
definition jl_new_sym :: jl_sym where "jl_new_sym = ''new''"
definition jl_splatnew_sym :: jl_sym where "jl_splatnew_sym = ''splatnew''"
definition jl_new_opaque_closure_sym :: jl_sym where "jl_new_opaque_closure_sym = ''new_opaque_closure''"
definition jl_static_parameter_sym :: jl_sym where "jl_static_parameter_sym = ''static_parameter''"
definition jl_copyast_sym :: jl_sym where "jl_copyast_sym = ''copyast''"
definition jl_exc_sym :: jl_sym where "jl_exc_sym = ''the_exception''"
definition jl_boundscheck_sym :: jl_sym where "jl_boundscheck_sym = ''boundscheck''"
definition jl_meta_sym :: jl_sym where "jl_meta_sym = ''meta''"
definition jl_coverageeffect_sym :: jl_sym where "jl_coverageeffect_sym = ''code_coverage_effect''"
definition jl_inbounds_sym :: jl_sym where "jl_inbounds_sym = ''inbounds''"
definition jl_loopinfo_sym :: jl_sym where "jl_loopinfo_sym = ''loopinfo''"
definition jl_aliasscope_sym :: jl_sym where "jl_aliasscope_sym = ''aliasscope''"
definition jl_popaliasscope_sym :: jl_sym where "jl_popaliasscope_sym = ''popaliasscope''"
definition jl_inline_sym :: jl_sym where "jl_inline_sym = ''inline''"
definition jl_noinline_sym :: jl_sym where "jl_noinline_sym = ''noinline''"
definition jl_gc_preserve_begin_sym :: jl_sym where "jl_gc_preserve_begin_sym = ''gc_preserve_begin''"
definition jl_gc_preserve_end_sym :: jl_sym where "jl_gc_preserve_end_sym = ''gc_preserve_end''"
definition jl_method_sym :: jl_sym where "jl_method_sym = ''method''"
definition jl_foreigncall_sym :: jl_sym where "jl_foreigncall_sym = ''foreigncall''"
definition jl_cfunction_sym :: jl_sym where "jl_cfunction_sym = ''cfunction''"
definition jl_assign_sym :: jl_sym where "jl_assign_sym = ''=''"
definition jl_enter_sym :: jl_sym where "jl_enter_sym = ''enter''"
definition jl_leave_sym :: jl_sym where "jl_leave_sym = ''leave''"
definition jl_pop_exception_sym :: jl_sym where "jl_pop_exception_sym = ''pop_exception''"
definition jl_toplevel_sym :: jl_sym where "jl_toplevel_sym = ''toplevel''"
definition jl_nospecialize_sym :: jl_sym where "jl_nospecialize_sym = ''nospecialize''"
definition jl_specialize_sym :: jl_sym where "jl_specialize_sym = ''specialize''"
definition jl_optlevel_sym :: jl_sym where "jl_optlevel_sym = ''optlevel''"
definition jl_compile_sym :: jl_sym where "jl_compile_sym = ''compile''"
definition jl_infer_sym :: jl_sym where "jl_infer_sym = ''infer''"

lemmas jl_sym_defs =
  jl_call_sym_def jl_invoke_sym_def jl_invoke_modify_sym_def jl_isdefined_sym_def
  jl_throw_undef_if_not_sym_def jl_getfield_undefref_sym_def jl_new_sym_def jl_splatnew_sym_def
  jl_new_opaque_closure_sym_def jl_static_parameter_sym_def jl_copyast_sym_def jl_exc_sym_def
  jl_boundscheck_sym_def jl_meta_sym_def jl_coverageeffect_sym_def jl_inbounds_sym_def
  jl_loopinfo_sym_def jl_aliasscope_sym_def jl_popaliasscope_sym_def jl_inline_sym_def
  jl_noinline_sym_def jl_gc_preserve_begin_sym_def jl_gc_preserve_end_sym_def jl_method_sym_def
  jl_foreigncall_sym_def jl_cfunction_sym_def jl_assign_sym_def jl_enter_sym_def jl_leave_sym_def
  jl_pop_exception_sym_def jl_toplevel_sym_def jl_nospecialize_sym_def jl_specialize_sym_def
  jl_optlevel_sym_def jl_compile_sym_def jl_infer_sym_def

text \<open>The well-known types and the two booleans.\<close>

definition jl_any_type :: jl_type where "jl_any_type = Any_type"
definition jl_bool_type :: jl_type where "jl_bool_type = Primitive_type ''Bool'' 1"
definition jl_int32_type :: jl_type where "jl_int32_type = Primitive_type ''Int32'' 4"
definition jl_uint32_type :: jl_type where "jl_uint32_type = Primitive_type ''UInt32'' 4"
definition jl_int64_type :: jl_type where "jl_int64_type = Primitive_type ''Int64'' 8"
definition jl_uint64_type :: jl_type where "jl_uint64_type = Primitive_type ''UInt64'' 8"
definition jl_float16_type :: jl_type where "jl_float16_type = Primitive_type ''Float16'' 2"
definition jl_float32_type :: jl_type where "jl_float32_type = Primitive_type ''Float32'' 4"
definition jl_float64_type :: jl_type where "jl_float64_type = Primitive_type ''Float64'' 8"
definition jl_nothing_type :: jl_type where "jl_nothing_type = Struct_type ''Nothing'' False"
definition jl_symbol_type :: jl_type where "jl_symbol_type = Struct_type ''Symbol'' True"
definition jl_module_type :: jl_type where "jl_module_type = Struct_type ''Module'' True"

lemmas jl_type_defs =
  jl_any_type_def jl_bool_type_def jl_int32_type_def jl_uint32_type_def jl_int64_type_def
  jl_uint64_type_def jl_float16_type_def jl_float32_type_def jl_float64_type_def
  jl_nothing_type_def jl_symbol_type_def jl_module_type_def

definition jl_true :: jl_value where "jl_true = Bits jl_bool_type 1"
definition jl_false :: jl_value where "jl_false = Bits jl_bool_type 0"
definition jl_nothing :: jl_value where "jl_nothing = Nothing"

text \<open>A branch condition that is not one of the two booleans.\<close>

definition TypeMismatch :: "jl_value option \<Rightarrow> fault" where
  "TypeMismatch got = Throw (TypeError ''if'' jl_bool_type got)"

text \<open>
  The services of the host runtime that take effect or may throw are one
  oracle over a datatype of requests; \<open>'w\<close> is the state of everything outside
  the activation record (global bindings, method tables, the exception stack,
  the native heap).
\<close>

datatype host_op =
    Jl_apply "jl_value option list"
  | Jl_typeassert "jl_value option" jl_value
  | Jl_new_structv "jl_value option list"
  | Jl_new_structt "jl_value option" "jl_value option"
  | Jl_new_opaque_closure "jl_value option list"
  | Jl_copy_ast "jl_value option"
  | Jl_current_exception
  | Jl_generic_function_def jl_module jl_sym
  | Jl_method_def "jl_value option" "jl_value option" "jl_value option" jl_module
  | Jl_instantiate_type_in_env "jl_value option" "jl_value list option"
  | Jl_convert "jl_value option"
  | Intrinsic jl_sym "jl_value option list"
  | Jl_get_cfunction_ptr "jl_value option list" "jl_value option"
  | Jl_checked_assignment jl_module jl_sym "jl_value option"
  | Jl_toplevel_eval jl_module jl_value
  | Jl_set_module_nospecialize jl_module int
  | Jl_set_module_optlevel jl_module int
  | Jl_set_module_compile jl_module int
  | Jl_set_module_infer jl_module int
  | Set_jl_lineno int
  | Set_world_age
  | Jl_enter_handler
  | Jl_eh_restore_state nat
  | Jl_restore_excstack nat
  | Jl_printf string

datatype lib_handle = Jl_libjulia_internal_handle | Jl_RTLD_DEFAULT_handle | Library nat

text \<open>
  The \<^verbatim>\<open>dyncall\<close> library is not among the sources. Its call frame is the list
  of arguments pushed, each with the class it was pushed as; a native call
  leaves a result in the integer return register and one in the floating-point
  return register, and \<^verbatim>\<open>dcCallChar\<close>, ..., \<^verbatim>\<open>dcCallPointer\<close> read the former
  in their width.
\<close>

datatype dcarg =
    DCchar "8 word"
  | DCshort "16 word"
  | DCint "32 word"
  | DClong "64 word"
  | DClonglong "64 word"
  | DCfloat "32 word"
  | DCdouble "64 word"
  | DCpointer "64 word"

record native_result =
  int_reg :: "64 word"
  float_reg :: "64 word"

record 'w runtime =
  jl_get_global :: "'w \<Rightarrow> jl_module \<Rightarrow> jl_sym \<Rightarrow> jl_value option"
  jl_boundp :: "'w \<Rightarrow> jl_module \<Rightarrow> jl_sym \<Rightarrow> bool"
  jl_excstack_state :: "'w \<Rightarrow> nat"
  jl_is_toplevel_only_expr :: "jl_value \<Rightarrow> bool"
  host :: "host_op \<Rightarrow> 'w \<Rightarrow> (fault + jl_value option) \<times> 'w"
  reeval :: "interpreter_state \<Rightarrow> jl_value option \<Rightarrow> 'w \<Rightarrow> (fault + jl_value option) \<times> 'w"
  jl_get_library :: "string \<Rightarrow> 'w \<Rightarrow> (fault + lib_handle) \<times> 'w"
  dlsym :: "'w \<Rightarrow> lib_handle \<Rightarrow> string \<Rightarrow> 64 word"
  native :: "64 word \<Rightarrow> dcarg list \<Rightarrow> 'w \<Rightarrow> (fault + native_result) \<times> 'w"
  address_of :: "'w \<Rightarrow> jl_value \<Rightarrow> 64 word"
  value_at :: "'w \<Rightarrow> 64 word \<Rightarrow> jl_value option"
  first_word :: "'w \<Rightarrow> jl_value \<Rightarrow> 64 word"
  dead_local :: "'w \<Rightarrow> nat \<Rightarrow> nat \<Rightarrow> nat"

text \<open>Sequencing of steps that may fail and that thread the outside state.\<close>

definition bindr ::
  "(fault + 'a) \<times> 'w \<Rightarrow> ('a \<Rightarrow> 'w \<Rightarrow> (fault + 'b) \<times> 'w) \<Rightarrow> (fault + 'b) \<times> 'w"
where
  "bindr m k = (case m of (Inl f, w) \<Rightarrow> (Inl f, w) | (Inr x, w) \<Rightarrow> k x w)"

definition jl_error :: "string \<Rightarrow> fault" where
  "jl_error msg = Throw (ErrorException msg)"

definition jl_undefined_var_error :: "jl_sym \<Rightarrow> fault" where
  "jl_undefined_var_error var = Throw (UndefVarError var)"

text \<open>
  Type predicates and boxes of \<^verbatim>\<open>julia.h\<close> and \<^verbatim>\<open>datatype.c\<close> (not among the
  sources), on the value datatype. A primitive value \<open>Bits t n\<close> holds its bytes
  as the little-endian number \<open>n\<close>. \<^verbatim>\<open>jl_unbox_<T>\<close> asserts that its argument
  is of a primitive type of the size of \<^verbatim>\<open><T>\<close> and reads that many bytes;
  \<^verbatim>\<open>jl_new_bits\<close> copies as many bytes as the type has, and gives one of the two
  booleans for \<^verbatim>\<open>Bool\<close>.
\<close>

definition jl_is_slot :: "jl_value \<Rightarrow> bool" where
  "jl_is_slot e = (case e of SlotNumber n \<Rightarrow> True | TypedSlot n t \<Rightarrow> True | _ \<Rightarrow> False)"

definition jl_is_argument :: "jl_value \<Rightarrow> bool" where
  "jl_is_argument e = (case e of Argument n \<Rightarrow> True | _ \<Rightarrow> False)"

definition jl_slot_number :: "jl_value \<Rightarrow> int" where
  "jl_slot_number e = (case e of SlotNumber n \<Rightarrow> n | TypedSlot n t \<Rightarrow> n | Argument n \<Rightarrow> n | _ \<Rightarrow> 0)"

definition jl_is_phinode :: "jl_value \<Rightarrow> bool" where
  "jl_is_phinode e = (case e of PhiNode edges vals \<Rightarrow> True | _ \<Rightarrow> False)"

definition jl_is_phicnode :: "jl_value \<Rightarrow> bool" where
  "jl_is_phicnode e = (case e of PhiCNode vals \<Rightarrow> True | _ \<Rightarrow> False)"

definition jl_is_upsilonnode :: "jl_value \<Rightarrow> bool" where
  "jl_is_upsilonnode e = (case e of UpsilonNode v \<Rightarrow> True | _ \<Rightarrow> False)"

definition jl_is_typevar :: "jl_value \<Rightarrow> bool" where
  "jl_is_typevar e = (case e of TypeVar n \<Rightarrow> True | _ \<Rightarrow> False)"

definition jl_is_primitivetype :: "jl_type \<Rightarrow> bool" where
  "jl_is_primitivetype t = (case t of Primitive_type n sz \<Rightarrow> True | Ptr_type p \<Rightarrow> True | _ \<Rightarrow> False)"

definition jl_datatype_size :: "jl_type \<Rightarrow> nat" where
  "jl_datatype_size t = (case t of Primitive_type n sz \<Rightarrow> sz | Ptr_type p \<Rightarrow> 8 | _ \<Rightarrow> 0)"

definition jl_is_cpointer_type :: "jl_type \<Rightarrow> bool" where
  "jl_is_cpointer_type t = (case t of Ptr_type p \<Rightarrow> True | _ \<Rightarrow> False)"

definition jl_is_abstract_ref_type :: "jl_type \<Rightarrow> bool" where
  "jl_is_abstract_ref_type t = (case t of Ref_type p \<Rightarrow> True | _ \<Rightarrow> False)"

definition jl_is_array_type :: "jl_type \<Rightarrow> bool" where
  "jl_is_array_type t = (case t of Array_type p n \<Rightarrow> True | _ \<Rightarrow> False)"

definition jl_is_immutable_datatype :: "jl_type \<Rightarrow> bool" where
  "jl_is_immutable_datatype t = (case t of Struct_type n mutabl \<Rightarrow> \<not> mutabl | Array_type p n \<Rightarrow> False | _ \<Rightarrow> True)"

fun jl_typeof :: "jl_value \<Rightarrow> jl_type" where
  "jl_typeof (Bits t n) = t"
| "jl_typeof (Object t n) = t"
| "jl_typeof Nothing = jl_nothing_type"
| "jl_typeof (Symbol n) = jl_symbol_type"
| "jl_typeof (String_val str) = Struct_type ''String'' True"
| "jl_typeof (Tuple xs) = Struct_type ''Tuple'' False"
| "jl_typeof (SimpleVector xs) = Struct_type ''SimpleVector'' True"
| "jl_typeof (Expr h args) = Struct_type ''Expr'' True"
| "jl_typeof (Type_val t) = Struct_type ''DataType'' True"
| "jl_typeof (TypeVar n) = Struct_type ''TypeVar'' True"
| "jl_typeof (MethodInstance_val n) = Struct_type ''MethodInstance'' True"
| "jl_typeof (MethodTable_val n) = Struct_type ''MethodTable'' True"
| "jl_typeof e = Struct_type ''IRNode'' False"

definition jl_unbox :: "nat \<Rightarrow> jl_value option \<Rightarrow> fault + nat" where
  "jl_unbox sz e =
    (case e of
       None \<Rightarrow> Inl (Undefined ''unbox of NULL'')
     | Some (Bits t n) \<Rightarrow>
         if jl_is_primitivetype t \<and> jl_datatype_size t = sz then Inr (n mod 2 ^ (8 * sz))
         else Inl (Assertion_failed ''jl_datatype_size(jl_typeof(v)) == sizeof(c_type)'')
     | Some v \<Rightarrow> Inl (Assertion_failed ''jl_is_primitivetype(jl_typeof(v))''))"

text \<open>\<^verbatim>\<open>jl_unbox_long\<close>: the eight bytes read as a signed number.\<close>

definition jl_unbox_long :: "jl_value option \<Rightarrow> fault + int" where
  "jl_unbox_long e =
    (case jl_unbox 8 e of Inl f \<Rightarrow> Inl f
     | Inr n \<Rightarrow> Inr (if n < 2 ^ 63 then int n else int n - 2 ^ 64))"

definition jl_box_long :: "int \<Rightarrow> jl_value" where
  "jl_box_long i = Bits jl_int64_type (nat (i mod 2 ^ 64))"

definition jl_box_ssavalue :: "nat \<Rightarrow> jl_value" where
  "jl_box_ssavalue n = SSAValue (int n)"

definition jl_new_bits :: "jl_type \<Rightarrow> nat \<Rightarrow> jl_value" where
  "jl_new_bits t n =
    (if t = jl_bool_type then (if odd n then jl_true else jl_false)
     else Bits t (n mod 2 ^ (8 * jl_datatype_size t)))"

definition jl_box_bool :: "8 word \<Rightarrow> jl_value" where
  "jl_box_bool x = (if x \<noteq> 0 then jl_true else jl_false)"

text \<open>An index into an array of the C code; outside the array the read is undefined.\<close>

definition array_ref :: "'a list \<Rightarrow> nat \<Rightarrow> fault + 'a" where
  "array_ref xs k = (if k < length xs then Inr (xs ! k) else Inl (Undefined ''read outside an array''))"

section \<open>Foreign-call bridge\<close>

definition type_is :: "(jl_type \<Rightarrow> bool) \<Rightarrow> jl_value \<Rightarrow> bool" where
  "type_is P v = (case v of Type_val t \<Rightarrow> P t | _ \<Rightarrow> False)"

definition size_of_type :: "jl_value \<Rightarrow> nat" where
  "size_of_type v = (case v of Type_val t \<Rightarrow> jl_datatype_size t | _ \<Rightarrow> 0)"

definition jl_types_equal :: "jl_type \<Rightarrow> jl_value \<Rightarrow> bool" where
  "jl_types_equal a b = (b = Type_val a)"

definition pointer_to :: "'w runtime \<Rightarrow> 'w \<Rightarrow> jl_value option \<Rightarrow> 64 word" where
  "pointer_to R w e = (case e of None \<Rightarrow> 0 | Some v \<Rightarrow> address_of R w v)"

text \<open>\<^verbatim>\<open>*(uint64_t*)e\<close>: the first eight bytes of an object.\<close>

definition load_word :: "'w runtime \<Rightarrow> 'w \<Rightarrow> jl_value \<Rightarrow> 64 word" where
  "load_word R w v = (case v of Bits t n \<Rightarrow> of_nat n | _ \<Rightarrow> first_word R w v)"

definition jl_safe_printf :: "'w runtime \<Rightarrow> string \<Rightarrow> 'w \<Rightarrow> 'w" where
  "jl_safe_printf R msg w = snd (host R (Jl_printf msg) w)"

text \<open>
  \<^verbatim>\<open>setInputParameter\<close>, lines 198 to 240: the pointer classes and the
  fixed-size primitives. The 16-byte case reads the object as a
  \<^verbatim>\<open>long long\<close>, which is its first eight bytes.
\<close>

definition setInputParameter_nonfloat ::
  "'w runtime \<Rightarrow> dcarg list \<Rightarrow> jl_value \<Rightarrow> jl_value option \<Rightarrow> 'w \<Rightarrow> (fault + dcarg list) \<times> 'w"
where
  "setInputParameter_nonfloat R vm dt e w =
    (if dt = Type_val jl_any_type then (Inr (vm @ [DCpointer (pointer_to R w e)]), w)
     else if type_is jl_is_abstract_ref_type dt then
       (case e of None \<Rightarrow> (Inl (Undefined ''read through NULL''), w)
        | Some v \<Rightarrow> (Inr (vm @ [DCpointer (load_word R w v)]), w))
     else if type_is jl_is_cpointer_type dt then
       (case e of None \<Rightarrow> (Inl (Undefined ''read through NULL''), w)
        | Some v \<Rightarrow> (Inr (vm @ [DCpointer (load_word R w v)]), w))
     else if type_is jl_is_primitivetype dt then
       (let size = size_of_type dt in
        if size = 0 then (Inr vm, w)
        else if size = 1 then
          (case jl_unbox 1 e of Inl f \<Rightarrow> (Inl f, w) | Inr n \<Rightarrow> (Inr (vm @ [DCchar (of_nat n)]), w))
        else if size = 2 then
          (case jl_unbox 2 e of Inl f \<Rightarrow> (Inl f, w) | Inr n \<Rightarrow> (Inr (vm @ [DCshort (of_nat n)]), w))
        else if size = 4 then
          (case jl_unbox 4 e of Inl f \<Rightarrow> (Inl f, w) | Inr n \<Rightarrow> (Inr (vm @ [DCint (of_nat n)]), w))
        else if size = 8 then
          (case jl_unbox 8 e of Inl f \<Rightarrow> (Inl f, w) | Inr n \<Rightarrow> (Inr (vm @ [DClong (of_nat n)]), w))
        else if size = 16 then
          (case e of None \<Rightarrow> (Inl (Undefined ''read through NULL''), w)
           | Some v \<Rightarrow> (Inr (vm @ [DClonglong (load_word R w v)]), w))
        else (Inl (Exit 1), jl_safe_printf R ''Might be unsupported primitive input type'' w))
     else (Inr (vm @ [DCpointer (pointer_to R w e)]),
           jl_safe_printf R ''Might be unsupported primitive input type'' w))"

text \<open>
  \<^verbatim>\<open>setInputParameter\<close>. For \<^verbatim>\<open>Float16\<close> the body of the first branch is
  \<^verbatim>\<open>assert("Float16 is not supported!")\<close>, which always holds, and control goes on
  to the pointer classes.
\<close>

definition setInputParameter ::
  "'w runtime \<Rightarrow> dcarg list \<Rightarrow> jl_value \<Rightarrow> jl_value option \<Rightarrow> 'w \<Rightarrow> (fault + dcarg list) \<times> 'w"
where
  "setInputParameter R vm dt e w =
    (if dt = Type_val jl_float16_type then setInputParameter_nonfloat R vm dt e w
     else if dt = Type_val jl_float32_type then
       (case jl_unbox 4 e of Inl f \<Rightarrow> (Inl f, w) | Inr n \<Rightarrow> (Inr (vm @ [DCfloat (of_nat n)]), w))
     else if dt = Type_val jl_float64_type then
       (case jl_unbox 8 e of Inl f \<Rightarrow> (Inl f, w) | Inr n \<Rightarrow> (Inr (vm @ [DCdouble (of_nat n)]), w))
     else setInputParameter_nonfloat R vm dt e w)"

text \<open>The loop of lines 605 to 609 over the declared parameter types.\<close>

fun push_inputs ::
  "'w runtime \<Rightarrow> jl_value list \<Rightarrow> nat \<Rightarrow> jl_value option list \<Rightarrow> dcarg list \<Rightarrow> 'w \<Rightarrow> (fault + dcarg list) \<times> 'w"
where
  "push_inputs R [] k argv vm w = (Inr vm, w)"
| "push_inputs R (inputtype # ats) k argv vm w =
    (case array_ref argv (5 + k) of
       Inl f \<Rightarrow> (Inl f, w)
     | Inr input_value \<Rightarrow>
        (case setInputParameter R vm inputtype input_value w of
           (Inl f, w') \<Rightarrow> (Inl f, w')
         | (Inr vm', w') \<Rightarrow> push_inputs R ats (Suc k) argv vm' w'))"

text \<open>
  The conversion of a \<^verbatim>\<open>long\<close> to a \<^verbatim>\<open>double\<close> that C makes where line 633
  hands a \<^verbatim>\<open>long\<close> to \<^verbatim>\<open>jl_box_float64\<close>: the bit pattern of the IEEE 754 double
  nearest to the number, ties going to the even significand.
\<close>

fun bit_width :: "nat \<Rightarrow> nat" where
  "bit_width n = (if n = 0 then 0 else Suc (bit_width (n div 2)))"

definition round_to_even :: "nat \<Rightarrow> nat \<Rightarrow> nat" where
  "round_to_even m k =
    (let q = m div 2 ^ k; r = m mod 2 ^ k
     in if 2 ^ k < 2 * r \<or> (2 * r = 2 ^ k \<and> odd q) then q + 1 else q)"

definition double_of_long :: "64 word \<Rightarrow> 64 word" where
  "double_of_long x =
    (let m = nat (abs (sint x)) in
     if m = 0 then 0
     else
       (let e = bit_width m - 1;
            significand = (if e \<le> 52 then m * 2 ^ (52 - e) else round_to_even m (e - 52))
        in of_nat ((if sint x < 0 then 2 ^ 63 else 0) + (e + 1022) * 2 ^ 52 + significand)))"

text \<open>
  The return decoding of lines 610 to 711. Each \<^verbatim>\<open>dcCall...\<close> invokes the
  native function. For \<^verbatim>\<open>Float64\<close> the code calls \<^verbatim>\<open>dcCallLong\<close> and converts
  the long to a double. A primitive of 1, 2, 4, 8 or 16 bytes is put into a
  local of the \<^verbatim>\<open>switch\<close> block (of eight bytes in the 16-byte case), and
  \<^verbatim>\<open>jl_new_bits\<close> reads it through \<^verbatim>\<open>ptr\<close> after the block has ended: what such a
  read finds is not defined by C and depends on the build. It is the
  parameter \<open>dead_local\<close>, given the outside state, the number of bytes read
  and the number the local held.
\<close>

definition decode_return ::
  "'w runtime \<Rightarrow> jl_value \<Rightarrow> 64 word \<Rightarrow> dcarg list \<Rightarrow> 'w \<Rightarrow> (fault + jl_value option) \<times> 'w"
where
  "decode_return R rt fptr vm w =
    (if rt = Type_val jl_any_type \<or> type_is jl_is_array_type rt then
       bindr (native R fptr vm w) (\<lambda>res w'. (Inr (value_at R w' (int_reg res)), w'))
     else if rt = Type_val jl_int64_type then
       bindr (native R fptr vm w) (\<lambda>res w'. (Inr (Some (Bits jl_int64_type (unat (int_reg res)))), w'))
     else if rt = Type_val jl_uint64_type then
       bindr (native R fptr vm w) (\<lambda>res w'. (Inr (Some (Bits jl_uint64_type (unat (int_reg res)))), w'))
     else if rt = Type_val jl_int32_type then
       bindr (native R fptr vm w)
         (\<lambda>res w'. (Inr (Some (Bits jl_int32_type (unat (ucast (int_reg res) :: 32 word)))), w'))
     else if rt = Type_val jl_uint32_type then
       bindr (native R fptr vm w)
         (\<lambda>res w'. (Inr (Some (Bits jl_uint32_type (unat (ucast (int_reg res) :: 32 word)))), w'))
     else if rt = Type_val jl_nothing_type then
       bindr (native R fptr vm w) (\<lambda>res w'. (Inr (Some jl_nothing), w'))
     else if rt = Type_val jl_bool_type then
       bindr (native R fptr vm w) (\<lambda>res w'. (Inr (Some (jl_box_bool (ucast (int_reg res)))), w'))
     else if rt = Type_val jl_float64_type then
       bindr (native R fptr vm w)
         (\<lambda>res w'. (Inr (Some (Bits jl_float64_type (unat (double_of_long (int_reg res))))), w'))
     else if type_is jl_is_cpointer_type rt then
       bindr (native R fptr vm w)
         (\<lambda>res w'. (Inr (Some (case rt of Type_val t \<Rightarrow> jl_new_bits t (unat (int_reg res)) | _ \<Rightarrow> rt)), w'))
     else if type_is jl_is_abstract_ref_type rt then
       (case rt of
          Type_val (Ref_type params) \<Rightarrow>
            bindr (if params = jl_symbol_type \<or> params = jl_module_type
                   then bindr (native R fptr vm w) (\<lambda>res w'. (Inr (value_at R w' (int_reg res)), w'))
                   else (Inr None, w))
              (\<lambda>r w1.
                 if \<not> jl_is_immutable_datatype params then
                   bindr (native R fptr vm w1) (\<lambda>res w'. (Inr (value_at R w' (int_reg res)), w'))
                 else (Inl (jl_error ''Shouldn't be here!''),
                       jl_safe_printf R ''Not a Ref{Symbol}, you might be bad luck!'' w1))
        | _ \<Rightarrow> (Inl (Undefined ''not a Ref type''), w))
     else if type_is jl_is_primitivetype rt then
       (case rt of
          Type_val t \<Rightarrow>
            (let size = jl_datatype_size t in
             if size = 0 then bindr (native R fptr vm w) (\<lambda>res w'. (Inr (Some (Bits t 0)), w'))
             else if size = 1 then
               bindr (native R fptr vm w)
                 (\<lambda>res w'. (Inr (Some (jl_new_bits t (dead_local R w' 1 (unat (ucast (int_reg res) :: 8 word))))), w'))
             else if size = 2 then
               bindr (native R fptr vm w)
                 (\<lambda>res w'. (Inr (Some (jl_new_bits t (dead_local R w' 2 (unat (ucast (int_reg res) :: 16 word))))), w'))
             else if size = 4 then
               bindr (native R fptr vm w)
                 (\<lambda>res w'. (Inr (Some (jl_new_bits t (dead_local R w' 4 (unat (ucast (int_reg res) :: 32 word))))), w'))
             else if size = 8 then
               bindr (native R fptr vm w)
                 (\<lambda>res w'. (Inr (Some (jl_new_bits t (dead_local R w' 8 (unat (int_reg res))))), w'))
             else if size = 16 then
               bindr (native R fptr vm w)
                 (\<lambda>res w'. (Inr (Some (jl_new_bits t (dead_local R w' 16 (unat (int_reg res))))), w'))
             else
               bindr (native R fptr vm w)
                 (\<lambda>res w'. (Inr (value_at R w' (int_reg res)),
                            jl_safe_printf R ''Might be unsupported primitive return type'' w')))
        | _ \<Rightarrow> (Inl (Undefined ''not a type''), w))
     else
       bindr (native R fptr vm w)
         (\<lambda>res w'. (Inr (value_at R w' (int_reg res)),
                    jl_safe_printf R ''Might be unsupported return non-primitive type'' w')))"

text \<open>
  The call target, lines 416 to 462: a symbol or a string names the function; a
  \<^verbatim>\<open>Ptr\<close>, \<^verbatim>\<open>UInt64\<close> or \<^verbatim>\<open>Int64\<close> is its address, which must not be zero;
  a pair names the function and its library. The result is
  \<^verbatim>\<open>(fname, flib, fptr)\<close>, each \<^verbatim>\<open>NULL\<close> when not given.
\<close>

definition c_string :: "string \<Rightarrow> string" where
  "c_string str = takeWhile (\<lambda>c. c \<noteq> CHR 0x00) str"

definition call_target :: "jl_value option \<Rightarrow> fault + (jl_sym option \<times> jl_sym option \<times> 64 word)" where
  "call_target might_f =
    (case might_f of
       None \<Rightarrow> Inl (Undefined ''read through NULL'')
     | Some (Symbol name) \<Rightarrow> Inr (Some name, None, 0)
     | Some (String_val str) \<Rightarrow> Inr (Some str, None, 0)
     | Some v \<Rightarrow>
        if jl_is_cpointer_type (jl_typeof v) \<or> jl_typeof v = jl_uint64_type \<or> jl_typeof v = jl_int64_type then
          (case v of
             Bits t n \<Rightarrow>
               (let fptr = (of_nat n :: 64 word) in
                if fptr = 0 then Inl (jl_error ''Try to call a null pointer'')
                else Inr (None, None, fptr))
           | _ \<Rightarrow> Inl (Undefined ''not a bits value''))
        else
          (case v of
             Tuple elems \<Rightarrow>
               if length elems \<noteq> 2 then Inl (Assertion_failed ''jl_nfields(might_f) == 2'')
               else
                 (case (case elems ! 0 of Symbol name \<Rightarrow> Inr name
                        | String_val str \<Rightarrow> Inr (c_string str)
                        | _ \<Rightarrow> Inl (Exit 1)) of
                    Inl f \<Rightarrow> Inl f
                  | Inr fname \<Rightarrow>
                     (case (case elems ! 1 of Symbol name \<Rightarrow> Inr name
                            | String_val str \<Rightarrow> Inr (c_string str)
                            | _ \<Rightarrow> Inl (Exit 1)) of
                        Inl f \<Rightarrow> Inl f
                      | Inr flib \<Rightarrow> Inr (Some fname, Some flib, 0)))
           | _ \<Rightarrow> Inl (Exit 1)))"

text \<open>
  Modelled from the spec: \<^verbatim>\<open>jl_dlsym\<close> (in \<^verbatim>\<open>dlload.c\<close>, not among the sources)
  looks a symbol up in a library and gives its address, or \<^verbatim>\<open>NULL\<close>; when it is
  asked to throw, a symbol that is not found fails with \<open>UnresolvedSymbol\<close>.
\<close>

definition jl_dlsym :: "'w runtime \<Rightarrow> 'w \<Rightarrow> lib_handle \<Rightarrow> string \<Rightarrow> bool \<Rightarrow> fault + 64 word" where
  "jl_dlsym R w handle name throw_err =
    (let p = dlsym R w handle name
     in if p = 0 \<and> throw_err then Inl (Throw (UnresolvedSymbol name)) else Inr p)"

text \<open>
  Lines 571 to 601, run when no address was given: the name prefixed with
  \<^verbatim>\<open>i\<close>, then the name itself, both in the library named (or the runtime's
  internal library), then the name in the default handle, which throws.
\<close>

definition resolve_symbol ::
  "'w runtime \<Rightarrow> jl_sym \<Rightarrow> jl_sym option \<Rightarrow> 'w \<Rightarrow> (fault + 64 word) \<times> 'w"
where
  "resolve_symbol R fname flib w =
    (let ifname = CHR ''i'' # fname in
     bindr (case flib of None \<Rightarrow> (Inr Jl_libjulia_internal_handle, w)
            | Some lib \<Rightarrow> jl_get_library R lib w)
       (\<lambda>libhandle w1.
          case jl_dlsym R w1 libhandle ifname False of
            Inl f \<Rightarrow> (Inl f, w1)
          | Inr p1 \<Rightarrow>
             (case (if p1 = 0 then jl_dlsym R w1 libhandle fname False else Inr p1) of
                Inl f \<Rightarrow> (Inl f, w1)
              | Inr p2 \<Rightarrow>
                 (case (if p2 = 0 then jl_dlsym R w1 Jl_RTLD_DEFAULT_handle fname True else Inr p2) of
                    Inl f \<Rightarrow> (Inl f, w1)
                  | Inr p3 \<Rightarrow> (Inr p3, w1)))))"

text \<open>
  Lines 471 to 487: when the method's signature is a \<^verbatim>\<open>UnionAll\<close>, the return
  type and each parameter type are instantiated with the static parameters
  bound in the activation record.
\<close>

definition instantiate_type ::
  "'w runtime \<Rightarrow> interpreter_state \<Rightarrow> jl_value option \<Rightarrow> 'w \<Rightarrow> (fault + jl_value) \<times> 'w"
where
  "instantiate_type R s t w =
    (case host R (Jl_instantiate_type_in_env t (sparam_vals s)) w of
       (Inl f, w') \<Rightarrow> (Inl f, w')
     | (Inr None, w') \<Rightarrow> (Inl (Undefined ''no type''), w')
     | (Inr (Some t'), w') \<Rightarrow> (Inr t', w'))"

fun instantiate_types ::
  "'w runtime \<Rightarrow> interpreter_state \<Rightarrow> jl_value list \<Rightarrow> 'w \<Rightarrow> (fault + jl_value list) \<times> 'w"
where
  "instantiate_types R s [] w = (Inr [], w)"
| "instantiate_types R s (t # ts) w =
    (case instantiate_type R s (Some t) w of
       (Inl f, w') \<Rightarrow> (Inl f, w')
     | (Inr t', w') \<Rightarrow>
        (case instantiate_types R s ts w' of
           (Inl f, w'') \<Rightarrow> (Inl f, w'')
         | (Inr ts', w'') \<Rightarrow> (Inr (t' # ts'), w'')))"

text \<open>
  Lines 489 to 502: an argument whose type is not the declared one is
  converted when both types are primitive.
\<close>

fun convert_inputs ::
  "'w runtime \<Rightarrow> jl_value list \<Rightarrow> nat \<Rightarrow> jl_value option list \<Rightarrow> 'w \<Rightarrow> (fault + jl_value option list) \<times> 'w"
where
  "convert_inputs R [] k argv w = (Inr argv, w)"
| "convert_inputs R (inputtype # ats) k argv w =
    (case array_ref argv (5 + k) of
       Inl f \<Rightarrow> (Inl f, w)
     | Inr None \<Rightarrow> (Inl (Undefined ''jl_typeof of NULL''), w)
     | Inr (Some input_value) \<Rightarrow>
        if \<not> jl_types_equal (jl_typeof input_value) inputtype
           \<and> type_is jl_is_primitivetype inputtype \<and> jl_is_primitivetype (jl_typeof input_value)
        then
          (case host R (Jl_convert (Some input_value)) w of
             (Inl f, w') \<Rightarrow> (Inl f, w')
           | (Inr r, w') \<Rightarrow> convert_inputs R ats (Suc k) (argv[5 + k := r]) w')
        else convert_inputs R ats (Suc k) argv w)"

text \<open>
  The names of line 505 to 569 that bypass the native call: their pointer
  coercions are a service of the host.
\<close>

definition intrinsic_names :: "jl_sym list" where
  "intrinsic_names = [''jl_value_ptr'', ''jl_symbol_n'', ''jl_symbol_name'', ''jl_dlsym'']"

text \<open>
  Line 468: the method's signature, when the activation record is of a method
  whose signature is a \<^verbatim>\<open>UnionAll\<close>.
\<close>

definition unionall :: "interpreter_state \<Rightarrow> bool" where
  "unionall s = (case mi s of None \<Rightarrow> False | Some m \<Rightarrow> def_is_method m \<and> sig_is_unionall m)"

text \<open>
  Lines 471 to 487: the return type and the parameter types as the call uses
  them, with \<^verbatim>\<open>argv[1]\<close> and \<^verbatim>\<open>argv[2]\<close> overwritten when they were instantiated.
\<close>

definition instantiate_signature ::
  "'w runtime \<Rightarrow> interpreter_state \<Rightarrow> jl_value option list \<Rightarrow> jl_value list \<Rightarrow> 'w \<Rightarrow>
   (fault + jl_value option \<times> jl_value list \<times> jl_value option list) \<times> 'w"
where
  "instantiate_signature R s argv at0 w =
    (if unionall s
     then bindr (instantiate_type R s (argv ! 1) w)
            (\<lambda>rt' w1. bindr (instantiate_types R s at0 w1)
               (\<lambda>at' w2. (Inr (Some rt', at', argv[1 := Some rt', 2 := Some (SimpleVector at')]), w2)))
     else (Inr (argv ! 1, at0, argv), w))"

text \<open>
  The \<^verbatim>\<open>foreigncall\<close> branch of \<^verbatim>\<open>eval_value\<close> from line 412 on, after all
  operands have been evaluated into \<^verbatim>\<open>argv\<close>.
\<close>

definition foreigncall_invoke ::
  "'w runtime \<Rightarrow> jl_value option \<Rightarrow> jl_value list \<Rightarrow> jl_value option list \<Rightarrow>
   jl_sym option \<Rightarrow> jl_sym option \<Rightarrow> 64 word \<Rightarrow> 'w \<Rightarrow> (fault + jl_value option) \<times> 'w"
where
  "foreigncall_invoke R rt at argv0 fname flib fptr0 w0 =
    bindr (convert_inputs R at 0 argv0 w0)
      (\<lambda>argv w.
         if fname \<noteq> None \<and> the fname \<in> set intrinsic_names then host R (Intrinsic (the fname) argv) w
         else
           bindr (if fptr0 = 0
                  then (case fname of None \<Rightarrow> (Inl (Undefined ''read through NULL''), w)
                        | Some name \<Rightarrow> resolve_symbol R name flib w)
                  else (Inr fptr0, w))
             (\<lambda>fptr w1.
                bindr (push_inputs R at 0 argv [] w1)
                  (\<lambda>vm w2.
                     case rt of
                       None \<Rightarrow> (Inl (Undefined ''read through NULL''), w2)
                     | Some rtv \<Rightarrow> decode_return R rtv fptr vm w2)))"

definition eval_foreigncall ::
  "'w runtime \<Rightarrow> interpreter_state \<Rightarrow> jl_value option list \<Rightarrow> 'w \<Rightarrow> (fault + jl_value option) \<times> 'w"
where
  "eval_foreigncall R s argv w =
    (case array_ref argv 3 of
       Inl f \<Rightarrow> (Inl f, w)
     | Inr a3 \<Rightarrow>
    (case jl_unbox_long a3 of
       Inl f \<Rightarrow> (Inl f, w)
     | Inr vararg \<Rightarrow>
    if vararg \<noteq> 0 then (Inl (jl_error ''vararg doesn't support''), w)
    else
    (case call_target (argv ! 0) of
       Inl f \<Rightarrow> (Inl f, w)
     | Inr (fname, flib, fptr) \<Rightarrow>
    (case argv ! 2 of
       None \<Rightarrow> (Inl (Undefined ''read through NULL''), w)
     | Some (SimpleVector at0) \<Rightarrow>
        bindr (instantiate_signature R s argv at0 w)
          (\<lambda>(rt, at, argv') w'.
             case array_ref argv' 4 of
               Inl f \<Rightarrow> (Inl f, w')
             | Inr (Some (Symbol cc_sym)) \<Rightarrow> foreigncall_invoke R rt at argv' fname flib fptr w'
             | Inr _ \<Rightarrow> (Inl (Assertion_failed ''jl_is_symbol(argv[4])''), w'))
     | Some _ \<Rightarrow> (Inl (Assertion_failed ''jl_is_svec(argv[2])''), w)))))"

section \<open>Expression evaluator\<close>

text \<open>
  \<^verbatim>\<open>jl_source_nslots\<close> and \<^verbatim>\<open>jl_source_nssavalues\<close> return an \<^verbatim>\<open>int\<close>: the length
  of the array, or the boxed count, is cut to 32 bits and read as signed.
\<close>

definition c_int :: "int \<Rightarrow> int" where
  "c_int x = (x + 2 ^ 31) mod 2 ^ 32 - 2 ^ 31"

definition jl_source_nslots :: "jl_code_info \<Rightarrow> int" where
  "jl_source_nslots c = c_int (int (length (slots c)))"

definition jl_source_nssavalues :: "jl_code_info \<Rightarrow> int" where
  "jl_source_nssavalues c =
    c_int (case ssavaluetypes c of SSA_count n \<Rightarrow> n | SSA_types ts \<Rightarrow> int (length ts))"

text \<open>
  \<^verbatim>\<open>jl_source_nslots(src) + k\<close> as an index into the storage array. The sum is
  made in 64 bits; a negative one is an index above every array.
\<close>

definition locals_index :: "jl_code_info \<Rightarrow> int \<Rightarrow> nat" where
  "locals_index c k = nat ((jl_source_nslots c + k) mod 2 ^ 64)"

definition jl_eval_global_var ::
  "'w runtime \<Rightarrow> jl_module \<Rightarrow> jl_sym \<Rightarrow> 'w \<Rightarrow> (fault + jl_value option) \<times> 'w"
where
  "jl_eval_global_var R m e w =
    (case jl_get_global R w m e of
       None \<Rightarrow> (Inl (jl_undefined_var_error e), w)
     | Some v \<Rightarrow> (Inr (Some v), w))"

text \<open>Lines 246 to 252: the read of an SSA value.\<close>

definition eval_ssavalue :: "interpreter_state \<Rightarrow> int \<Rightarrow> fault + jl_value option" where
  "eval_ssavalue s i =
    (let ssa_id = i - 1 in
     case src s of
       None \<Rightarrow> Inl (jl_error ''access to invalid SSAValue'')
     | Some c \<Rightarrow>
        if ssa_id \<ge> jl_source_nssavalues c \<or> ssa_id < 0 \<or> locals s = None
        then Inl (jl_error ''access to invalid SSAValue'')
        else array_ref (the (locals s)) (locals_index c ssa_id))"

text \<open>Lines 253 to 261: the read of a slot or an argument.\<close>

definition eval_slot :: "interpreter_state \<Rightarrow> int \<Rightarrow> fault + jl_value option" where
  "eval_slot s n =
    (case src s of
       None \<Rightarrow> Inl (jl_error ''access to invalid slot number'')
     | Some c \<Rightarrow>
        if n > jl_source_nslots c \<or> n < 1 \<or> locals s = None
        then Inl (jl_error ''access to invalid slot number'')
        else
          (case array_ref (the (locals s)) (nat (n - 1)) of
             Inl f \<Rightarrow> Inl f
           | Inr None \<Rightarrow> Inl (jl_undefined_var_error (fst (slots c ! nat (n - 1))))
           | Inr (Some v) \<Rightarrow> Inr (Some v)))"

text \<open>Lines 296 to 327: \<^verbatim>\<open>isdefined\<close>.\<close>

definition eval_isdefined ::
  "'w runtime \<Rightarrow> interpreter_state \<Rightarrow> jl_value list \<Rightarrow> 'w \<Rightarrow> (fault + jl_value option) \<times> 'w"
where
  "eval_isdefined R s args w =
    (case args of
       [] \<Rightarrow> (Inl (Undefined ''read outside an array''), w)
     | symb # rest \<Rightarrow>
        if jl_is_slot symb \<or> jl_is_argument symb then
          (let n = jl_slot_number symb in
           case src s of
             None \<Rightarrow> (Inl (jl_error ''access to invalid slot number''), w)
           | Some c \<Rightarrow>
              if n > jl_source_nslots c \<or> n < 1 \<or> locals s = None
              then (Inl (jl_error ''access to invalid slot number''), w)
              else
                (case array_ref (the (locals s)) (nat (n - 1)) of
                   Inl f \<Rightarrow> (Inl f, w)
                 | Inr v \<Rightarrow> (Inr (Some (if v \<noteq> None then jl_true else jl_false)), w)))
        else
          (case symb of
             GlobalRef m name \<Rightarrow> (Inr (Some (if jl_boundp R w m name then jl_true else jl_false)), w)
           | Symbol name \<Rightarrow> (Inr (Some (if jl_boundp R w (module s) name then jl_true else jl_false)), w)
           | Expr h sargs \<Rightarrow>
              if h = jl_static_parameter_sym then
                (case array_ref sargs 0 of
                   Inl f \<Rightarrow> (Inl f, w)
                 | Inr a \<Rightarrow>
                    (case jl_unbox_long (Some a) of
                       Inl f \<Rightarrow> (Inl f, w)
                     | Inr n \<Rightarrow>
                        if \<not> n > 0 then (Inl (Assertion_failed ''n > 0''), w)
                        else
                          (case sparam_vals s of
                             None \<Rightarrow> (Inl (jl_error ''could not determine static parameter value''), w)
                           | Some sp \<Rightarrow>
                              if n \<le> int (length sp)
                              then (Inr (Some (if \<not> jl_is_typevar (sp ! nat (n - 1)) then jl_true else jl_false)), w)
                              else (Inl (jl_error ''could not determine static parameter value''), w))))
              else (Inl (Assertion_failed ''malformed isdefined expression''), w)
           | _ \<Rightarrow> (Inl (Assertion_failed ''malformed isdefined expression''), w)))"

text \<open>Lines 369 to 380: \<^verbatim>\<open>static_parameter\<close>.\<close>

definition eval_static_parameter ::
  "interpreter_state \<Rightarrow> jl_value list \<Rightarrow> fault + jl_value option"
where
  "eval_static_parameter s args =
    (case array_ref args 0 of
       Inl f \<Rightarrow> Inl f
     | Inr a \<Rightarrow>
        (case jl_unbox_long (Some a) of
           Inl f \<Rightarrow> Inl f
         | Inr n \<Rightarrow>
            if \<not> n > 0 then Inl (Assertion_failed ''n > 0'')
            else
              (case sparam_vals s of
                 None \<Rightarrow> Inl (jl_error ''could not determine static parameter value'')
               | Some sp \<Rightarrow>
                  if n \<le> int (length sp) then
                    (case sp ! nat (n - 1) of
                       TypeVar name \<Rightarrow>
                         if \<not> preevaluation s then Inl (jl_undefined_var_error name)
                         else Inr (Some (TypeVar name))
                     | v \<Rightarrow> Inr (Some v))
                  else Inl (jl_error ''could not determine static parameter value''))))"

text \<open>
  \<^verbatim>\<open>eval_methoddef\<close>, the one-operand form of lines 85 to 101: the name, with
  its module when it is a global reference, must be a symbol.
\<close>

definition eval_methoddef_decl ::
  "'w runtime \<Rightarrow> interpreter_state \<Rightarrow> jl_value \<Rightarrow> 'w \<Rightarrow> (fault + jl_value option) \<times> 'w"
where
  "eval_methoddef_decl R s fname w =
    (case fname of
       GlobalRef m name \<Rightarrow> host R (Jl_generic_function_def m name) w
     | Symbol name \<Rightarrow> host R (Jl_generic_function_def (module s) name) w
     | _ \<Rightarrow> (Inl (jl_error ''method: invalid declaration''), w))"

text \<open>What follows the evaluation of the operands of a call, lines 137 to 140.\<close>

definition finish_call ::
  "'w runtime \<Rightarrow> (fault + jl_value option list) \<times> 'w \<Rightarrow> (fault + jl_value option) \<times> 'w"
where
  "finish_call R r = bindr r (\<lambda>argv w. host R (Jl_apply argv) w)"

text \<open>
  \<^verbatim>\<open>do_invoke\<close> roots \<^verbatim>\<open>nargs - 1\<close> cells and stores the operands evaluated
  at indices 1 to \<^verbatim>\<open>nargs - 1\<close>: the last store is outside the array.
\<close>

definition finish_invoke ::
  "(fault + jl_value option list) \<times> 'w \<Rightarrow> (fault + jl_value option) \<times> 'w"
where
  "finish_invoke r = bindr r (\<lambda>argv w. (Inl (Undefined ''write outside an array''), w))"

text \<open>Lines 718 to 748, after the operands have been evaluated.\<close>

definition finish_cfunction ::
  "'w runtime \<Rightarrow> interpreter_state \<Rightarrow> (fault + jl_value option list) \<times> 'w \<Rightarrow> (fault + jl_value option) \<times> 'w"
where
  "finish_cfunction R s r =
    bindr r
      (\<lambda>argv w.
         if length argv \<noteq> 5 then (Inl (Assertion_failed ''nargs == 5''), w)
         else
           (case argv ! 0 of
              None \<Rightarrow> (Inl (Undefined ''read through NULL''), w)
            | Some cfuncType \<Rightarrow>
               if \<not> type_is jl_is_cpointer_type cfuncType
               then (Inl (Assertion_failed ''jl_is_cpointer_type(cfuncType)''), w)
               else
                 bindr (reeval R s (argv ! 1) w)
                   (\<lambda>func w'.
                      if func = None then (Inl (Assertion_failed ''func != NULL''), w')
                      else host R (Jl_get_cfunction_ptr argv func) w')))"

text \<open>
  \<^verbatim>\<open>eval_value\<close>. The operands of an expression are evaluated from left to
  right by \<open>eval_args\<close>, which is the loop \<^verbatim>\<open>argv[i] = eval_value(args[i], s)\<close>;
  the first failure ends it. The activation record is read, never written. The
  second evaluation of the callee in \<^verbatim>\<open>cfunction\<close> (line 729) is of a value
  already evaluated, and is the parameter \<open>reeval\<close>.
\<close>

fun eval_value ::
  "'w runtime \<Rightarrow> interpreter_state \<Rightarrow> jl_value \<Rightarrow> 'w \<Rightarrow> (fault + jl_value option) \<times> 'w"
and eval_args ::
  "'w runtime \<Rightarrow> interpreter_state \<Rightarrow> jl_value list \<Rightarrow> 'w \<Rightarrow> (fault + jl_value option list) \<times> 'w"
where
  "eval_value R s (SSAValue i) w = (eval_ssavalue s i, w)"
| "eval_value R s (SlotNumber n) w = (eval_slot s n, w)"
| "eval_value R s (TypedSlot n t) w = (eval_slot s n, w)"
| "eval_value R s (Argument n) w = (eval_slot s n, w)"
| "eval_value R s (QuoteNode v) w = (Inr (Some v), w)"
| "eval_value R s (GlobalRef m name) w = jl_eval_global_var R m name w"
| "eval_value R s (Symbol name) w = jl_eval_global_var R (module s) name w"
| "eval_value R s (PiNode v t) w =
    (case eval_value R s v w of
       (Inl f, w') \<Rightarrow> (Inl f, w')
     | (Inr val, w') \<Rightarrow>
        (case host R (Jl_typeassert val t) w' of
           (Inl f, w'') \<Rightarrow> (Inl f, w'')
         | (Inr r, w'') \<Rightarrow> (Inr val, w'')))"
| "eval_value R s (PhiNode edges vals) w = (Inl (Assertion_failed ''malformed IR''), w)"
| "eval_value R s (PhiCNode vals) w = (Inl (Assertion_failed ''malformed IR''), w)"
| "eval_value R s (UpsilonNode v) w = (Inl (Assertion_failed ''malformed IR''), w)"
| "eval_value R s (Expr head args) w =
    (if head = jl_call_sym then
       (if length args \<ge> 1 then finish_call R (eval_args R s args w)
        else (Inl (Assertion_failed ''nargs >= 1''), w))
     else if head = jl_invoke_sym then
       (case args of
          meth # a1 # rest \<Rightarrow> finish_invoke (eval_args R s (a1 # rest) w)
        | _ \<Rightarrow> (Inl (Assertion_failed ''nargs >= 2''), w))
     else if head = jl_invoke_modify_sym then
       (case args of
          [] \<Rightarrow> (Inl (Undefined ''read outside an array''), w)
        | [a0] \<Rightarrow> (Inl (Assertion_failed ''nargs >= 1''), w)
        | a0 # a1 # rest \<Rightarrow> finish_call R (eval_args R s (a1 # rest) w))
     else if head = jl_isdefined_sym then eval_isdefined R s args w
     else if head = jl_throw_undef_if_not_sym then
       (case args of
          var # c # rest \<Rightarrow>
            (case eval_value R s c w of
               (Inl f, w') \<Rightarrow> (Inl f, w')
             | (Inr None, w') \<Rightarrow> (Inl (Undefined ''read through NULL''), w')
             | (Inr (Some cond), w') \<Rightarrow>
                if jl_typeof cond \<noteq> jl_bool_type then (Inl (Assertion_failed ''jl_is_bool(cond)''), w')
                else if cond = jl_false then
                  (if var = Symbol jl_getfield_undefref_sym then (Inl (Throw UndefRefError), w')
                   else (case var of Symbol name \<Rightarrow> (Inl (jl_undefined_var_error name), w')
                         | _ \<Rightarrow> (Inl (Undefined ''not a symbol''), w')))
                else (Inr (Some jl_nothing), w'))
        | _ \<Rightarrow> (Inl (Undefined ''read outside an array''), w))
     else if head = jl_new_sym then
       (if args = [] then (Inl (Undefined ''read outside an array''), w)
        else bindr (eval_args R s args w) (\<lambda>argv w'. host R (Jl_new_structv argv) w'))
     else if head = jl_splatnew_sym then
       (case args of
          a0 # a1 # rest \<Rightarrow>
            (case eval_value R s a0 w of
               (Inl f, w') \<Rightarrow> (Inl f, w')
             | (Inr v0, w') \<Rightarrow>
                (case eval_value R s a1 w' of
                   (Inl f, w'') \<Rightarrow> (Inl f, w'')
                 | (Inr v1, w'') \<Rightarrow> host R (Jl_new_structt v0 v1) w''))
        | _ \<Rightarrow> (Inl (Undefined ''read outside an array''), w))
     else if head = jl_new_opaque_closure_sym then
       bindr (eval_args R s args w)
         (\<lambda>argv w'.
            if length argv < 5
            then (Inl (Throw (ArgumentError ''new_opaque_closure: too few arguments (expected 5)'')), w')
            else host R (Jl_new_opaque_closure argv) w')
     else if head = jl_static_parameter_sym then (eval_static_parameter s args, w)
     else if head = jl_copyast_sym then
       (case args of
          a0 # rest \<Rightarrow>
            (case eval_value R s a0 w of
               (Inl f, w') \<Rightarrow> (Inl f, w')
             | (Inr v0, w') \<Rightarrow> host R (Jl_copy_ast v0) w')
        | _ \<Rightarrow> (Inl (Undefined ''read outside an array''), w))
     else if head = jl_exc_sym then host R Jl_current_exception w
     else if head = jl_boundscheck_sym then (Inr (Some jl_true), w)
     else if head = jl_meta_sym \<or> head = jl_coverageeffect_sym \<or> head = jl_inbounds_sym
             \<or> head = jl_loopinfo_sym \<or> head = jl_aliasscope_sym \<or> head = jl_popaliasscope_sym
             \<or> head = jl_inline_sym \<or> head = jl_noinline_sym then (Inr (Some jl_nothing), w)
     else if head = jl_gc_preserve_begin_sym \<or> head = jl_gc_preserve_end_sym then (Inr (Some jl_nothing), w)
     else if head = jl_method_sym \<and> length args = 1 then eval_methoddef_decl R s (args ! 0) w
     else if head = jl_foreigncall_sym then
       bindr (eval_args R s args w) (\<lambda>argv w'. eval_foreigncall R s argv w')
     else if head = jl_cfunction_sym then finish_cfunction R s (eval_args R s args w)
     else (Inl (jl_error (''unsupported or misplaced expression '' @ head)), w))"
| "eval_value R s e w = (Inr (Some e), w)"
| "eval_args R s [] w = (Inr [], w)"
| "eval_args R s (a # as) w =
    (case eval_value R s a w of
       (Inl f, w') \<Rightarrow> (Inl f, w')
     | (Inr v, w') \<Rightarrow>
        (case eval_args R s as w' of
           (Inl f, w'') \<Rightarrow> (Inl f, w'')
         | (Inr vs, w'') \<Rightarrow> (Inr (v # vs), w'')))"

section \<open>Resolution of phi nodes\<close>

text \<open>
  Statement indices and counts are natural numbers: they index arrays held in
  memory, so the additions of \<^verbatim>\<open>eval_phi\<close> do not wrap. An entry of an edge
  array is an \<^verbatim>\<open>int32_t\<close>, converted to \<^verbatim>\<open>size_t\<close> when it is read: a
  negative entry becomes a number above every index.
\<close>

definition size_t_of :: "int \<Rightarrow> nat" where
  "size_t_of x = nat (x mod 2 ^ 64)"

text \<open>
  Lines 780 to 793, the loop over the edges of one phi node. \<open>bound\<close> is
  \<^verbatim>\<open>to + i + 1\<close>; \<open>edge\<close> is \<open>-1\<close> as long as no edge is chosen.
\<close>

fun scan_edges :: "nat \<Rightarrow> nat \<Rightarrow> int list \<Rightarrow> nat \<Rightarrow> int \<times> nat \<Rightarrow> int \<times> nat" where
  "scan_edges from bound [] j (edge, closest) = (edge, closest)"
| "scan_edges from bound (e # es) j (edge, closest) =
    (let edge_from = size_t_of e in
     if edge_from = from + 1 then
       scan_edges from bound es (Suc j) (if edge = -1 then int j else edge, closest)
     else if closest < edge_from \<and> edge_from < bound then
       scan_edges from bound es (Suc j) (int j, edge_from)
     else scan_edges from bound es (Suc j) (edge, closest))"

text \<open>Lines 759 to 764: the length of the run of phi nodes from \<open>ip\<close> on.\<close>

function phi_run :: "jl_value list \<Rightarrow> nat \<Rightarrow> nat \<Rightarrow> nat \<Rightarrow> fault + nat \<times> nat" where
  "phi_run stmts ns ip' nphi =
    (if ip' < ns then
       (case array_ref stmts ip' of
          Inl f \<Rightarrow> Inl f
        | Inr e \<Rightarrow> if \<not> jl_is_phinode e then Inr (ip', nphi) else phi_run stmts ns (Suc ip') (Suc nphi))
     else Inr (ip', nphi))"
  by pat_completeness auto
termination
  by (relation "measure (\<lambda>(stmts, ns, ip', nphi). ns - ip')") auto

text \<open>A store into the storage array, and the loops \<^verbatim>\<open>dest[j] = phis[j]\<close>.\<close>

definition local_set :: "interpreter_state \<Rightarrow> nat \<Rightarrow> jl_value option \<Rightarrow> fault + interpreter_state" where
  "local_set s k v =
    (case locals s of
       None \<Rightarrow> Inl (Undefined ''write through NULL'')
     | Some ls \<Rightarrow>
        if k < length ls then Inr (s\<lparr>locals := Some (ls[k := v])\<rparr>)
        else Inl (Undefined ''write outside an array''))"

definition local_ref :: "interpreter_state \<Rightarrow> nat \<Rightarrow> fault + jl_value option" where
  "local_ref s k =
    (case locals s of
       None \<Rightarrow> Inl (Undefined ''read through NULL'')
     | Some ls \<Rightarrow> array_ref ls k)"

fun store_cells :: "interpreter_state \<Rightarrow> nat \<Rightarrow> jl_value option list \<Rightarrow> fault + interpreter_state" where
  "store_cells s dest [] = Inr s"
| "store_cells s dest (v # vs) =
    (case local_set s dest v of
       Inl f \<Rightarrow> Inl f
     | Inr s' \<Rightarrow> store_cells s' (Suc dest) vs)"

text \<open>Lines 805 to 809: the values not yet committed move to the start of \<^verbatim>\<open>phis\<close>.\<close>

definition shift_phis :: "nat \<Rightarrow> nat \<Rightarrow> jl_value option list \<Rightarrow> jl_value option list" where
  "shift_phis n_oldphi i phis =
    fold (\<lambda>j ps. (ps[j - n_oldphi := ps ! j])[j := None]) [n_oldphi..<i] phis"

text \<open>
  Lines 795 to 815: when an implicit edge was chosen, the phi nodes before it
  are committed and the block is taken to start at \<open>closest\<close>, entered from the
  statement before it.
\<close>

definition phi_promote ::
  "interpreter_state \<Rightarrow> nat \<Rightarrow> nat \<Rightarrow> nat \<Rightarrow> nat \<Rightarrow> nat \<Rightarrow> jl_value option list \<Rightarrow> nat \<Rightarrow>
   fault + (interpreter_state \<times> nat \<times> nat \<times> nat \<times> nat \<times> nat \<times> jl_value option list)"
where
  "phi_promote s from to nphi i dest phis closest =
    (let n_oldphi = closest - to in
     if n_oldphi \<noteq> 0 then
       (case store_cells s dest (take n_oldphi phis) of
          Inl f \<Rightarrow> Inl f
        | Inr s1 \<Rightarrow>
           Inr (s1, closest - 1, to + n_oldphi, nphi - n_oldphi, i - n_oldphi, dest + n_oldphi,
                shift_phis n_oldphi i phis))
     else Inr (s, from, to, nphi, i, dest, phis))"

text \<open>Lines 816 to 823: the value of the chosen edge, evaluated unless it is \<^verbatim>\<open>NULL\<close>.\<close>

definition phi_value ::
  "'w runtime \<Rightarrow> interpreter_state \<Rightarrow> jl_value option list \<Rightarrow> int \<Rightarrow> 'w \<Rightarrow> (fault + jl_value option) \<times> 'w"
where
  "phi_value R s vals edge w =
    (if edge \<noteq> -1 then
       (case array_ref vals (nat edge) of
          Inl f \<Rightarrow> (Inl f, w)
        | Inr None \<Rightarrow> (Inr None, w)
        | Inr (Some val) \<Rightarrow> eval_value R s val w)
     else (Inr None, w))"

text \<open>The loop of lines 769 to 825 and the final commit of lines 827 to 829.\<close>

function phi_loop ::
  "'w runtime \<Rightarrow> jl_value list \<Rightarrow> interpreter_state \<Rightarrow> nat \<Rightarrow> nat \<Rightarrow> nat \<Rightarrow> nat \<Rightarrow> nat \<Rightarrow>
   jl_value option list \<Rightarrow> 'w \<Rightarrow> (fault + interpreter_state) \<times> 'w"
where
  "phi_loop R stmts s from to nphi i dest phis w =
    (if i < nphi then
       (case array_ref stmts (to + i) of
          Inl f \<Rightarrow> (Inl f, w)
        | Inr (PhiNode edges vals) \<Rightarrow>
           (case phi_promote s from to nphi i dest phis (snd (scan_edges from (to + i + 1) edges 0 (-1, to))) of
              Inl f \<Rightarrow> (Inl f, w)
            | Inr (s1, from1, to1, nphi1, i1, dest1, phis1) \<Rightarrow>
               (case phi_value R s1 vals (fst (scan_edges from (to + i + 1) edges 0 (-1, to))) w of
                  (Inl f, w') \<Rightarrow> (Inl f, w')
                | (Inr val, w') \<Rightarrow>
                   phi_loop R stmts s1 from1 to1 nphi1 (Suc i1) dest1 (phis1[i1 := val]) w'))
        | Inr _ \<Rightarrow> (Inl (Assertion_failed ''jl_is_phinode(e)''), w))
     else (store_cells s dest (take nphi phis), w))"
  by pat_completeness auto
termination
  by (relation "measure (\<lambda>(R, stmts, s, from, to, nphi, i, dest, phis, w). nphi - i)")
     (auto simp: phi_promote_def Let_def split: if_splits sum.splits)

text \<open>
  \<^verbatim>\<open>eval_phi\<close>: \<open>from\<close> is the statement last executed, \<^verbatim>\<open>s->ip\<close>. The result
  is the new instruction pointer and the activation record as written.
\<close>

definition eval_phi ::
  "'w runtime \<Rightarrow> jl_value list \<Rightarrow> interpreter_state \<Rightarrow> nat \<Rightarrow> nat \<Rightarrow> 'w \<Rightarrow>
   (fault + nat \<times> interpreter_state) \<times> 'w"
where
  "eval_phi R stmts s ns to w =
    (case phi_run stmts ns to 0 of
       Inl f \<Rightarrow> (Inl f, w)
     | Inr (ip', nphi) \<Rightarrow>
        if nphi \<noteq> 0 then
          (case src s of
             None \<Rightarrow> (Inl (Undefined ''read through NULL''), w)
           | Some c \<Rightarrow>
              (case phi_loop R stmts s (ip s) to nphi 0 (locals_index c (int to)) (replicate nphi None) w of
                 (Inl f, w') \<Rightarrow> (Inl f, w')
               | (Inr s', w') \<Rightarrow> (Inr (ip', s'), w')))
        else (Inr (ip', s), w))"

section \<open>Control-flow driver\<close>

text \<open>
  One pass through the body of the loop of \<^verbatim>\<open>eval_body\<close>. What a statement
  does before \<^verbatim>\<open>eval_phi\<close> is called is \<open>eval_body_stmt\<close>: it goes on to a next
  statement, returns, fails, reaches the \<^verbatim>\<open>setjmp\<close> of an \<^verbatim>\<open>enter\<close> (the
  protected region is then run by a nested call of the driver, from
  \<open>next_ip\<close>, with the handler at \<open>catch_ip\<close>), or jumps out of a protected
  region with \<^verbatim>\<open>longjmp\<close>.
\<close>

datatype 'w step =
    Next interpreter_state 'w nat
  | Returned "jl_value option" interpreter_state 'w
  | Failed fault 'w
  | Entered interpreter_state 'w nat nat
  | Left interpreter_state 'w nat

definition host_effect :: "'w runtime \<Rightarrow> host_op \<Rightarrow> 'w \<Rightarrow> 'w" where
  "host_effect R op w = snd (host R op w)"

text \<open>\<^verbatim>\<open>eval_stmt_value\<close>: the value of the statement goes to the SSA cell of \<^verbatim>\<open>s->ip\<close>.\<close>

definition eval_stmt_value ::
  "'w runtime \<Rightarrow> interpreter_state \<Rightarrow> jl_value \<Rightarrow> 'w \<Rightarrow> 'w step"
where
  "eval_stmt_value R s stmt w =
    (case eval_value R s stmt w of
       (Inl f, w') \<Rightarrow> Failed f w'
     | (Inr res, w') \<Rightarrow>
        (case src s of
           None \<Rightarrow> Failed (Undefined ''read through NULL'') w'
         | Some c \<Rightarrow>
            (case local_set s (locals_index c (int (ip s))) res of
               Inl f \<Rightarrow> Failed f w'
             | Inr s' \<Rightarrow> Next s' w' (ip s + 1))))"

text \<open>Lines 868 to 876: an upsilon node stores into the cell its phi-c node was given.\<close>

definition eval_upsilon ::
  "'w runtime \<Rightarrow> interpreter_state \<Rightarrow> jl_value option \<Rightarrow> 'w \<Rightarrow> 'w step"
where
  "eval_upsilon R s v w =
    (case (case v of None \<Rightarrow> (Inr None, w) | Some e \<Rightarrow> eval_value R s e w) of
       (Inl f, w') \<Rightarrow> Failed f w'
     | (Inr val, w') \<Rightarrow>
        (case src s of
           None \<Rightarrow> Failed (Undefined ''read through NULL'') w'
         | Some c \<Rightarrow>
            (case local_ref s (locals_index c (int (ip s))) of
               Inl f \<Rightarrow> Failed f w'
             | Inr None \<Rightarrow> Failed (Undefined ''read through NULL'') w'
             | Inr (Some (SSAValue i)) \<Rightarrow>
                 (case local_set s (locals_index c (i - 1)) val of
                    Inl f \<Rightarrow> Failed f w'
                  | Inr s' \<Rightarrow> Next s' w' (ip s + 1))
             | Inr (Some other) \<Rightarrow> Failed (Assertion_failed ''jl_is_ssavalue(phic)'') w')))"

text \<open>Lines 880 to 905: an assignment to a slot or to a global.\<close>

definition eval_assign ::
  "'w runtime \<Rightarrow> interpreter_state \<Rightarrow> jl_value list \<Rightarrow> 'w \<Rightarrow> 'w step"
where
  "eval_assign R s args w =
    (case args of
       lhs # rhs_expr # rest \<Rightarrow>
         (case eval_value R s rhs_expr w of
            (Inl f, w') \<Rightarrow> Failed f w'
          | (Inr rhs, w') \<Rightarrow>
             if jl_is_slot lhs then
               (let n = jl_slot_number lhs in
                case src s of
                  None \<Rightarrow> Failed (Undefined ''read through NULL'') w'
                | Some c \<Rightarrow>
                   if \<not> (n \<le> jl_source_nslots c \<and> n > 0)
                   then Failed (Assertion_failed ''n <= jl_source_nslots(s->src) && n > 0'') w'
                   else
                     (case local_set s (nat (n - 1)) rhs of
                        Inl f \<Rightarrow> Failed f w'
                      | Inr s' \<Rightarrow> Next s' w' (ip s + 1)))
             else
               (case lhs of
                  GlobalRef modu name \<Rightarrow>
                    (case host R (Jl_checked_assignment modu name rhs) w' of
                       (Inl f, w'') \<Rightarrow> Failed f w''
                     | (Inr r, w'') \<Rightarrow> Next s w'' (ip s + 1))
                | Symbol name \<Rightarrow>
                    (case host R (Jl_checked_assignment (module s) name rhs) w' of
                       (Inl f, w'') \<Rightarrow> Failed f w''
                     | (Inr r, w'') \<Rightarrow> Next s w'' (ip s + 1))
                | _ \<Rightarrow> Failed (Assertion_failed ''jl_is_symbol(lhs)'') w'))
     | _ \<Rightarrow> Failed (Undefined ''read outside an array'') w)"

text \<open>
  Lines 918 to 935 of the \<^verbatim>\<open>enter\<close> branch: each upsilon node named by a
  phi-c node of the catch block is given the cell of that phi-c node, and the
  phi-c nodes' own cells are cleared.
\<close>

fun mark_upsilons ::
  "jl_value list \<Rightarrow> interpreter_state \<Rightarrow> jl_code_info \<Rightarrow> nat \<Rightarrow> jl_value list \<Rightarrow> fault + interpreter_state"
where
  "mark_upsilons stmts s c catch_ip [] = Inr s"
| "mark_upsilons stmts s c catch_ip (val # vals) =
    (case val of
       SSAValue i \<Rightarrow>
         (case array_ref stmts (size_t_of (i - 1)) of
            Inl f \<Rightarrow> Inl f
          | Inr u \<Rightarrow>
             if \<not> jl_is_upsilonnode u then Inl (Assertion_failed ''jl_is_upsilonnode'')
             else
               (case local_set s (locals_index c (int (size_t_of (i - 1)))) (Some (jl_box_ssavalue (catch_ip + 1))) of
                  Inl f \<Rightarrow> Inl f
                | Inr s' \<Rightarrow> mark_upsilons stmts s' c catch_ip vals))
     | _ \<Rightarrow> Inl (Assertion_failed ''jl_is_ssavalue(val)''))"

function scan_phic ::
  "jl_value list \<Rightarrow> nat \<Rightarrow> interpreter_state \<Rightarrow> jl_code_info \<Rightarrow> nat \<Rightarrow> fault + interpreter_state \<times> nat"
where
  "scan_phic stmts ns s c catch_ip =
    (if catch_ip < ns then
       (case array_ref stmts catch_ip of
          Inl f \<Rightarrow> Inl f
        | Inr (PhiCNode vals) \<Rightarrow>
           (case mark_upsilons stmts s c catch_ip vals of
              Inl f \<Rightarrow> Inl f
            | Inr s1 \<Rightarrow>
               (case local_set s1 (locals_index c (int catch_ip)) None of
                  Inl f \<Rightarrow> Inl f
                | Inr s2 \<Rightarrow> scan_phic stmts ns s2 c (Suc catch_ip)))
        | Inr _ \<Rightarrow> Inr (s, catch_ip))
     else Inr (s, catch_ip))"
  by pat_completeness auto
termination
  by (relation "measure (\<lambda>(stmts, ns, s, c, catch_ip). ns - catch_ip)") auto

definition eval_enter ::
  "'w runtime \<Rightarrow> jl_value list \<Rightarrow> interpreter_state \<Rightarrow> jl_value list \<Rightarrow> 'w \<Rightarrow> 'w step"
where
  "eval_enter R stmts s args w0 =
    (let w = host_effect R Jl_enter_handler w0 in
     case array_ref args 0 of
       Inl f \<Rightarrow> Failed f w
     | Inr a \<Rightarrow>
        (case jl_unbox_long (Some a) of
           Inl f \<Rightarrow> Failed f w
         | Inr l \<Rightarrow>
            (case src s of
               None \<Rightarrow> Failed (Undefined ''read through NULL'') w
             | Some c \<Rightarrow>
                (case scan_phic stmts (length stmts) s c (size_t_of (l - 1)) of
                   Inl f \<Rightarrow> Failed f w
                 | Inr (s1, catch_ip) \<Rightarrow>
                    (case local_set s1 (locals_index c (int (ip s)))
                            (Some (Bits jl_uint64_type (jl_excstack_state R w))) of
                       Inl f \<Rightarrow> Failed f w
                     | Inr s2 \<Rightarrow> Entered s2 w (ip s + 1) catch_ip)))))"

text \<open>Lines 949 to 961: \<^verbatim>\<open>leave\<close> records where to go on and jumps.\<close>

definition eval_leave ::
  "'w runtime \<Rightarrow> interpreter_state \<Rightarrow> jl_value list \<Rightarrow> 'w \<Rightarrow> 'w step"
where
  "eval_leave R s args w =
    (case array_ref args 0 of
       Inl f \<Rightarrow> Failed f w
     | Inr a \<Rightarrow>
        (case jl_unbox_long (Some a) of
           Inl f \<Rightarrow> Failed f w
         | Inr hand_n_leave \<Rightarrow>
            if \<not> hand_n_leave > 0 then Failed (Assertion_failed ''hand_n_leave > 0'') w
            else Left (s\<lparr>continue_at := ip s + 1\<rparr>)
                      (host_effect R (Jl_eh_restore_state (nat hand_n_leave)) w) (nat hand_n_leave)))"

definition eval_pop_exception ::
  "'w runtime \<Rightarrow> interpreter_state \<Rightarrow> jl_value list \<Rightarrow> 'w \<Rightarrow> 'w step"
where
  "eval_pop_exception R s args w =
    (case array_ref args 0 of
       Inl f \<Rightarrow> Failed f w
     | Inr a \<Rightarrow>
        (case eval_value R s a w of
           (Inl f, w') \<Rightarrow> Failed f w'
         | (Inr v, w') \<Rightarrow>
            (case jl_unbox 8 v of
               Inl f \<Rightarrow> Failed f w'
             | Inr prev_state \<Rightarrow> Next s (host_effect R (Jl_restore_excstack prev_state) w') (ip s + 1))))"

text \<open>\<^verbatim>\<open>eval_methoddef\<close>, the form with more than one operand, lines 103 to 115.\<close>

definition eval_methoddef_full ::
  "'w runtime \<Rightarrow> interpreter_state \<Rightarrow> jl_value list \<Rightarrow> 'w \<Rightarrow> (fault + jl_value option) \<times> 'w"
where
  "eval_methoddef_full R s args w =
    (case args of
       a0 # a1 # a2 # rest \<Rightarrow>
         bindr (eval_value R s a0 w)
           (\<lambda>fname w1.
              case fname of
                None \<Rightarrow> (Inl (Undefined ''read through NULL''), w1)
              | Some fv \<Rightarrow>
                 bindr (eval_value R s a1 w1)
                   (\<lambda>atypes w2.
                      bindr (eval_value R s a2 w2)
                        (\<lambda>meth w3.
                           bindr (host R (Jl_method_def atypes
                                            (case fv of MethodTable_val k \<Rightarrow> Some fv | _ \<Rightarrow> None)
                                            meth (module s)) w3)
                             (\<lambda>r w4. (Inr (Some jl_nothing), w4)))))
     | _ \<Rightarrow> (Inl (Undefined ''read outside an array''), w))"

text \<open>Lines 977 to 1002: compiler directives of a top-level thunk.\<close>

definition unbox_long_or_zero :: "jl_value \<Rightarrow> int" where
  "unbox_long_or_zero v = (case jl_unbox_long (Some v) of Inl f \<Rightarrow> 0 | Inr n \<Rightarrow> n)"

definition eval_toplevel_meta :: "'w runtime \<Rightarrow> interpreter_state \<Rightarrow> jl_value list \<Rightarrow> 'w \<Rightarrow> 'w" where
  "eval_toplevel_meta R s args w =
    (let w1 = (if length args = 1 \<and> args ! 0 = Symbol jl_nospecialize_sym
               then host_effect R (Jl_set_module_nospecialize (module s) 1) w else w);
         w2 = (if length args = 1 \<and> args ! 0 = Symbol jl_specialize_sym
               then host_effect R (Jl_set_module_nospecialize (module s) 0) w1 else w1)
     in if length args = 2 then
          (if args ! 0 = Symbol jl_optlevel_sym then
             (if jl_typeof (args ! 1) = jl_int64_type
              then host_effect R (Jl_set_module_optlevel (module s) (unbox_long_or_zero (args ! 1))) w2
              else w2)
           else if args ! 0 = Symbol jl_compile_sym then
             (if jl_typeof (args ! 1) = jl_int64_type
              then host_effect R (Jl_set_module_compile (module s) (unbox_long_or_zero (args ! 1))) w2
              else w2)
           else if args ! 0 = Symbol jl_infer_sym then
             (if jl_typeof (args ! 1) = jl_int64_type
              then host_effect R (Jl_set_module_infer (module s) (unbox_long_or_zero (args ! 1))) w2
              else w2)
           else w2)
        else w2)"

text \<open>The statement dispatch of lines 853 to 1023; \<^verbatim>\<open>s->ip\<close> is the statement's index.\<close>

definition eval_body_stmt ::
  "'w runtime \<Rightarrow> jl_value list \<Rightarrow> interpreter_state \<Rightarrow> jl_value \<Rightarrow> bool \<Rightarrow> 'w \<Rightarrow> 'w step"
where
  "eval_body_stmt R stmts s stmt toplevel w =
    (case stmt of
       GotoNode label \<Rightarrow> Next s w (size_t_of (label - 1))
     | GotoIfNot c label \<Rightarrow>
         (case eval_value R s c w of
            (Inl f, w') \<Rightarrow> Failed f w'
          | (Inr cond, w') \<Rightarrow>
             if cond = Some jl_false then Next s w' (size_t_of (label - 1))
             else if cond \<noteq> Some jl_true then Failed (Throw (TypeError ''if'' jl_bool_type cond)) w'
             else Next s w' (ip s + 1))
     | ReturnNode v \<Rightarrow>
         (case v of
            None \<Rightarrow> Failed (Undefined ''read through NULL'') w
          | Some e \<Rightarrow>
             (case eval_value R s e w of
                (Inl f, w') \<Rightarrow> Failed f w'
              | (Inr r, w') \<Rightarrow> Returned r s w'))
     | UpsilonNode v \<Rightarrow> eval_upsilon R s v w
     | Expr head args \<Rightarrow>
         if head = jl_assign_sym then eval_assign R s args w
         else if head = jl_enter_sym then eval_enter R stmts s args w
         else if head = jl_leave_sym then eval_leave R s args w
         else if head = jl_pop_exception_sym then eval_pop_exception R s args w
         else if toplevel then
           (if head = jl_method_sym \<and> length args > 1 then
              (case eval_methoddef_full R s args w of
                 (Inl f, w') \<Rightarrow> Failed f w'
               | (Inr r, w') \<Rightarrow> Next s w' (ip s + 1))
            else if head = jl_toplevel_sym then
              (case host R (Jl_toplevel_eval (module s) stmt) w of
                 (Inl f, w') \<Rightarrow> Failed f w'
               | (Inr res, w') \<Rightarrow>
                  (case src s of
                     None \<Rightarrow> Failed (Undefined ''read through NULL'') w'
                   | Some c \<Rightarrow>
                      (case local_set s (locals_index c (int (ip s))) res of
                         Inl f \<Rightarrow> Failed f w'
                       | Inr s' \<Rightarrow> Next s' w' (ip s + 1))))
            else if jl_is_toplevel_only_expr R stmt then
              (case host R (Jl_toplevel_eval (module s) stmt) w of
                 (Inl f, w') \<Rightarrow> Failed f w'
               | (Inr res, w') \<Rightarrow> Next s w' (ip s + 1))
            else if head = jl_meta_sym then Next s (eval_toplevel_meta R s args w) (ip s + 1)
            else eval_stmt_value R s stmt w)
         else eval_stmt_value R s stmt w
     | NewvarNode var \<Rightarrow>
         if \<not> jl_is_slot var then Failed (Assertion_failed ''jl_is_slot(var)'') w
         else
           (let n = jl_slot_number var in
            case src s of
              None \<Rightarrow> Failed (Undefined ''read through NULL'') w
            | Some c \<Rightarrow>
               if \<not> (n \<le> jl_source_nslots c \<and> n > 0)
               then Failed (Assertion_failed ''n <= jl_source_nslots(s->src) && n > 0'') w
               else
                 (case local_set s (nat (n - 1)) None of
                    Inl f \<Rightarrow> Failed f w
                  | Inr s' \<Rightarrow> Next s' w (ip s + 1)))
     | LineNumberNode line \<Rightarrow>
         if toplevel then Next s (host_effect R (Set_jl_lineno line) w) (ip s + 1)
         else eval_stmt_value R s stmt w
     | _ \<Rightarrow> eval_stmt_value R s stmt w)"

text \<open>
  Lines 844 to 852 and 1024: the pass through the loop body for the statement
  at \<open>ip0\<close>, up to the new instruction pointer that \<^verbatim>\<open>eval_phi\<close> returns.
\<close>

definition eval_body_iteration ::
  "'w runtime \<Rightarrow> jl_value list \<Rightarrow> interpreter_state \<Rightarrow> nat \<Rightarrow> bool \<Rightarrow> 'w \<Rightarrow> 'w step"
where
  "eval_body_iteration R stmts s0 ip0 toplevel w0 =
    (let ns = length stmts; s = s0\<lparr>ip := ip0\<rparr> in
     if ip0 \<ge> ns
     then Failed (jl_error ''`body` expression must terminate in `return`. Use `block` instead.'') w0
     else
       (let w = (if toplevel then host_effect R Set_world_age w0 else w0); stmt = stmts ! ip0 in
        if jl_is_phinode stmt \<or> jl_is_phicnode stmt then Failed (Assertion_failed ''malformed IR'') w
        else
          (case eval_body_stmt R stmts s stmt toplevel w of
             Next s1 w1 next_ip \<Rightarrow>
               (case eval_phi R stmts s1 ns next_ip w1 of
                  (Inl f, w2) \<Rightarrow> Failed f w2
                | (Inr (ip', s2), w2) \<Rightarrow> Next s2 w2 ip')
           | other \<Rightarrow> other)))"

section \<open>What the edges of a phi node select\<close>

text \<open>
  The notions in which the resolver's choice is stated. Relative to a block
  start \<open>lo\<close> and a predecessor \<open>from\<close>, an edge of the phi node at position
  \<open>bound\<close> (counted from 1) is implicit when its entry is not \<open>from + 1\<close> and
  lies strictly between \<open>lo\<close> and \<open>bound\<close>. \<open>first_explicit\<close> is the index of
  the first edge whose entry is \<open>from + 1\<close>, or \<open>-1\<close>. \<open>explicit_values\<close>
  evaluates, for each phi node of a run in turn, the value of that edge, and
  \<open>no_implicit_edges\<close> says that no phi node of the run has an implicit edge.
\<close>

definition implicit_edge :: "nat \<Rightarrow> nat \<Rightarrow> nat \<Rightarrow> int \<Rightarrow> bool" where
  "implicit_edge from lo bound e = (size_t_of e \<noteq> from + 1 \<and> lo < size_t_of e \<and> size_t_of e < bound)"

fun first_explicit :: "nat \<Rightarrow> int list \<Rightarrow> nat \<Rightarrow> int" where
  "first_explicit from [] j = -1"
| "first_explicit from (e # es) j =
    (if size_t_of e = from + 1 then int j else first_explicit from es (Suc j))"

fun explicit_values ::
  "'w runtime \<Rightarrow> interpreter_state \<Rightarrow> nat \<Rightarrow> jl_value list \<Rightarrow> 'w \<Rightarrow> (fault + jl_value option list) \<times> 'w"
where
  "explicit_values R s from [] w = (Inr [], w)"
| "explicit_values R s from (node # nodes) w =
    (case node of
       PhiNode edges vals \<Rightarrow>
         (case phi_value R s vals (first_explicit from edges 0) w of
            (Inl f, w') \<Rightarrow> (Inl f, w')
          | (Inr v, w') \<Rightarrow>
             (case explicit_values R s from nodes w' of
                (Inl f, w'') \<Rightarrow> (Inl f, w'')
              | (Inr vs, w'') \<Rightarrow> (Inr (v # vs), w'')))
     | _ \<Rightarrow> (Inl (Assertion_failed ''jl_is_phinode(e)''), w))"

definition no_implicit_edges :: "jl_value list \<Rightarrow> nat \<Rightarrow> nat \<Rightarrow> nat \<Rightarrow> bool" where
  "no_implicit_edges stmts from to nphi =
    (\<forall>k<nphi. \<forall>edges vals. stmts ! (to + k) = PhiNode edges vals \<longrightarrow>
       (\<forall>e\<in>set edges. \<not> implicit_edge from to (to + k + 1) e))"

section \<open>Example instances\<close>

text \<open>
  A small host runtime over a counter as outside state: every request to the
  host is counted. The global \<open>x\<close> is bound. The internal library exports
  \<open>ijl_getpid\<close> and \<open>jl_getpid\<close> at two addresses, the library every name opens
  and the default handle export \<open>identity\<close>. The function at the first
  address returns 77; every other native function hands its first argument
  back, an integer or a pointer in the integer return register, a float in the
  floating-point one. A local read after its block has ended still holds what
  was stored, with zero bytes above it, as in a build that keeps every local
  in its own stack slot.
\<close>

definition loopback :: "dcarg list \<Rightarrow> native_result" where
  "loopback args =
    (case args of
       DCchar x # rest \<Rightarrow> \<lparr> int_reg = ucast x, float_reg = 0 \<rparr>
     | DCshort x # rest \<Rightarrow> \<lparr> int_reg = ucast x, float_reg = 0 \<rparr>
     | DCint x # rest \<Rightarrow> \<lparr> int_reg = ucast x, float_reg = 0 \<rparr>
     | DClong x # rest \<Rightarrow> \<lparr> int_reg = x, float_reg = 0 \<rparr>
     | DClonglong x # rest \<Rightarrow> \<lparr> int_reg = x, float_reg = 0 \<rparr>
     | DCpointer x # rest \<Rightarrow> \<lparr> int_reg = x, float_reg = 0 \<rparr>
     | DCfloat x # rest \<Rightarrow> \<lparr> int_reg = 0, float_reg = ucast x \<rparr>
     | DCdouble x # rest \<Rightarrow> \<lparr> int_reg = 0, float_reg = x \<rparr>
     | [] \<Rightarrow> \<lparr> int_reg = 0, float_reg = 0 \<rparr>)"

definition example_runtime :: "nat runtime" where
  "example_runtime = \<lparr>
     jl_get_global = (\<lambda>w m name. if name = ''x'' then Some (Bits jl_int64_type 7) else None),
     jl_boundp = (\<lambda>w m name. name = ''x''),
     jl_excstack_state = (\<lambda>w. 0),
     jl_is_toplevel_only_expr = (\<lambda>e. False),
     host = (\<lambda>op w. (Inr (Some Nothing), Suc w)),
     reeval = (\<lambda>s v w. (Inr v, w)),
     jl_get_library = (\<lambda>name w. (Inr (Library 0), w)),
     dlsym = (\<lambda>w h name.
        if h = Jl_libjulia_internal_handle \<and> name = ''ijl_getpid'' then 4096
        else if h = Jl_libjulia_internal_handle \<and> name = ''jl_getpid'' then 4100
        else if h = Jl_RTLD_DEFAULT_handle \<and> name = ''identity'' then 8192
        else if h = Library 0 \<and> name = ''identity'' then 12288
        else 0),
     native = (\<lambda>fptr args w.
        (Inr (if fptr = 4096 then \<lparr> int_reg = 77, float_reg = 0 \<rparr> else loopback args), w)),
     address_of = (\<lambda>w v. 0),
     value_at = (\<lambda>w p. None),
     first_word = (\<lambda>w v. 0),
     dead_local = (\<lambda>w sz v. v) \<rparr>"

text \<open>
  An activation record with two slots, \<open>x\<close> holding 5 and \<open>y\<close> unset, and three
  SSA cells, of a method with one static parameter.
\<close>

definition example_code :: jl_code_info where
  "example_code = \<lparr> code = [], slots = [(''x'', 0), (''y'', 0)], ssavaluetypes = SSA_count 3 \<rparr>"

definition example_state :: interpreter_state where
  "example_state = \<lparr> src = Some example_code, mi = None, module = ''Main'',
     locals = Some [Some (Bits jl_int64_type 5), None, None, None, None],
     sparam_vals = Some [Type_val jl_int64_type], ip = 0, preevaluation = False,
     continue_at = 0, jit = 0 \<rparr>"

text \<open>
  A foreign call \<^verbatim>\<open>ccall(target, rt, (ats...), vals...)\<close> as lowered: the target,
  the return type, the parameter types, the number of required arguments of a
  variadic call (0 otherwise), the calling convention, and the arguments.
\<close>

definition example_ccall :: "jl_value \<Rightarrow> jl_type \<Rightarrow> jl_type list \<Rightarrow> nat \<Rightarrow> jl_value list \<Rightarrow> jl_value" where
  "example_ccall target rt ats nreq vals =
    Expr jl_foreigncall_sym
      ([target, Type_val rt, SimpleVector (map Type_val ats), Bits jl_int64_type nreq,
        QuoteNode (Symbol ''ccall'')] @ vals)"

text \<open>A branch over two returns.\<close>

definition branch_code :: "jl_value \<Rightarrow> jl_value list" where
  "branch_code c = [GotoIfNot c 3, ReturnNode (Some (QuoteNode (Bits jl_int64_type 1))),
                    ReturnNode (Some (QuoteNode (Bits jl_int64_type 2)))]"

definition example_layout :: bt_layout where
  "example_layout = \<lparr> JL_BT_NON_PTR_ENTRY = -1, JL_BT_INTERP_FRAME_TAG = 1,
     jl_bt_entry_descriptor = (\<lambda>ngc nptr tag header. of_nat ngc + of_nat nptr * 8 + of_nat tag * 64 + header * 1024) \<rparr>"

text \<open>
  An activation record with five SSA cells, a phi node that merges two
  branches, and the run of phi nodes of the comment in \<^verbatim>\<open>eval_phi\<close> with a
  third phi node after it.
\<close>

definition phi_state :: interpreter_state where
  "phi_state = \<lparr> src = Some \<lparr> code = [], slots = [(''x'', 0), (''y'', 0)], ssavaluetypes = SSA_count 5 \<rparr>,
     mi = None, module = ''Main'', locals = Some [None, None, None, None, None, None, None],
     sparam_vals = None, ip = 0, preevaluation = False, continue_at = 0, jit = 0 \<rparr>"

definition merge_code :: "jl_value list" where
  "merge_code =
    [GotoNode 3,
     ReturnNode (Some (QuoteNode Nothing)),
     PhiNode [1, 2] [Some (QuoteNode (Bits jl_int64_type 10)), Some (QuoteNode (Bits jl_int64_type 20))],
     ReturnNode (Some (SSAValue 3))]"

definition telescoping_code :: "jl_value list" where
  "telescoping_code =
    [GotoIfNot (QuoteNode jl_true) 3,
     PhiNode [1] [Some (QuoteNode (Bits jl_int64_type 10))],
     PhiNode [1, 2] [Some (QuoteNode (Bits jl_int64_type 20)), Some (QuoteNode (Bits jl_int64_type 21))],
     PhiNode [1] [Some (QuoteNode (Bits jl_int64_type 30))],
     ReturnNode (Some (SSAValue 4))]"

section \<open>Properties\<close>

text \<open>
  The equation of \<open>eval_value\<close> for expressions is a long chain of tests of the
  head; it is unfolded only where a head is given.
\<close>

lemmas eval_value_Expr = eval_value.simps(12)

declare eval_value.simps(12) [simp del]

subsection \<open>Metadata hints\<close>

lemma eval_value_boundscheck:
  "eval_value R s (Expr jl_boundscheck_sym args) w = (Inr (Some jl_true), w)"
  by (simp add: eval_value_Expr jl_sym_defs)

lemma eval_value_metadata:
  "eval_value R s (Expr jl_meta_sym args) w = (Inr (Some jl_nothing), w)"
  "eval_value R s (Expr jl_coverageeffect_sym args) w = (Inr (Some jl_nothing), w)"
  "eval_value R s (Expr jl_inbounds_sym args) w = (Inr (Some jl_nothing), w)"
  "eval_value R s (Expr jl_loopinfo_sym args) w = (Inr (Some jl_nothing), w)"
  "eval_value R s (Expr jl_aliasscope_sym args) w = (Inr (Some jl_nothing), w)"
  "eval_value R s (Expr jl_popaliasscope_sym args) w = (Inr (Some jl_nothing), w)"
  "eval_value R s (Expr jl_inline_sym args) w = (Inr (Some jl_nothing), w)"
  "eval_value R s (Expr jl_noinline_sym args) w = (Inr (Some jl_nothing), w)"
  by (simp_all add: eval_value_Expr jl_sym_defs)

text \<open>
  C7, as amended. For the heads \<open>meta\<close>, \<open>code_coverage_effect\<close>, \<open>inbounds\<close>,
  \<open>loopinfo\<close>, \<open>aliasscope\<close>, \<open>popaliasscope\<close>, \<open>inline\<close> and \<open>noinline\<close> the
  evaluator returns \<open>nothing\<close>; for \<open>boundscheck\<close> it returns the boolean true.
  In each case the outside state is returned as it was given, and the
  evaluator never writes the activation record.
\<close>

theorem metadata_noop:
  "(head = jl_meta_sym \<or> head = jl_coverageeffect_sym \<or> head = jl_inbounds_sym \<or> head = jl_loopinfo_sym \<or>
    head = jl_aliasscope_sym \<or> head = jl_popaliasscope_sym \<or> head = jl_inline_sym \<or> head = jl_noinline_sym \<longrightarrow>
    eval_value R s (Expr head args) w = (Inr (Some jl_nothing), w)) \<and>
   eval_value R s (Expr jl_boundscheck_sym args) w = (Inr (Some jl_true), w)"
  by (auto simp: eval_value_metadata eval_value_boundscheck)

theorem metadata_noop_witness:
  "eval_value example_runtime example_state (Expr jl_inbounds_sym [jl_true]) 3 = (Inr (Some jl_nothing), 3) \<and>
   eval_value example_runtime example_state (Expr jl_boundscheck_sym []) 3 = (Inr (Some jl_true), 3)"
  using metadata_noop [of jl_inbounds_sym example_runtime example_state "[jl_true]" 3]
        metadata_noop [of jl_inbounds_sym example_runtime example_state "[]" 3]
  by simp

text \<open>
  C7 as stated fails for the bounds-check hint: its value is the boolean true,
  not \<open>nothing\<close>.
\<close>

theorem boundscheck_not_nothing:
  "eval_value example_runtime example_state (Expr jl_boundscheck_sym []) 0 \<noteq> (Inr (Some jl_nothing), 0)"
  by (simp add: eval_value_boundscheck jl_true_def jl_nothing_def)

subsection \<open>Backtrace capture\<close>

text \<open>
  C9. The hook returns 0 and leaves the buffer alone exactly when the budget is
  below the size required, which is 3 with a method instance and 4 without;
  otherwise it returns that size, writes the entries below it (the marker, the
  descriptor, the method instance or code unit or \<open>nothing\<close>, and the module
  when there is no method instance) and no entry from it on.
\<close>

theorem capture_interp_frame_budget:
  "(snd (jl_capture_interp_frame L bt s space) = 0 \<longleftrightarrow> space < required_space s) \<and>
   required_space s = (if mi s = None then 4 else 3) \<and>
   (space < required_space s \<longrightarrow> fst (jl_capture_interp_frame L bt s space) = bt) \<and>
   (required_space s \<le> space \<longrightarrow>
      snd (jl_capture_interp_frame L bt s space) = required_space s \<and>
      (\<forall>k. required_space s \<le> k \<longrightarrow> fst (jl_capture_interp_frame L bt s space) k = bt k) \<and>
      fst (jl_capture_interp_frame L bt s space) 0 = Uintptr (JL_BT_NON_PTR_ENTRY L) \<and>
      fst (jl_capture_interp_frame L bt s space) 1 =
        Uintptr (jl_bt_entry_descriptor L (if mi s = None then 2 else 1) 0 (JL_BT_INTERP_FRAME_TAG L) (of_nat (ip s))) \<and>
      fst (jl_capture_interp_frame L bt s space) 2 =
        Jlvalue (case mi s of Some m \<Rightarrow> Ref_mi m
                 | None \<Rightarrow> (case src s of Some c \<Rightarrow> Ref_src c | None \<Rightarrow> Ref_nothing)) \<and>
      (mi s = None \<longrightarrow> fst (jl_capture_interp_frame L bt s space) 3 = Jlvalue (Ref_module (module s))))"
  by (auto simp: jl_capture_interp_frame_def required_space_def Let_def)

theorem capture_interp_frame_budget_witness:
  "snd (jl_capture_interp_frame example_layout (\<lambda>k. Uintptr 0) example_state 4) = 4 \<and>
   snd (jl_capture_interp_frame example_layout (\<lambda>k. Uintptr 0) example_state 3) = 0 \<and>
   fst (jl_capture_interp_frame example_layout (\<lambda>k. Uintptr 0) example_state 4) 3 = Jlvalue (Ref_module ''Main'') \<and>
   fst (jl_capture_interp_frame example_layout (\<lambda>k. Uintptr 0) example_state 4) 4 = Uintptr 0"
  using capture_interp_frame_budget [of example_layout "\<lambda>k. Uintptr 0" example_state 4]
        capture_interp_frame_budget [of example_layout "\<lambda>k. Uintptr 0" example_state 3]
  by (simp add: example_state_def required_space_def)

subsection \<open>Slots and SSA values\<close>

lemma eval_value_slot:
  "jl_is_slot e \<or> jl_is_argument e \<Longrightarrow> eval_value R s e w = (eval_slot s (jl_slot_number e), w)"
  by (cases e) (simp_all add: jl_is_slot_def jl_is_argument_def jl_slot_number_def)

lemma eval_slot_unset:
  "src s = Some c \<Longrightarrow> locals s = Some ls \<Longrightarrow> 1 \<le> n \<Longrightarrow> n \<le> jl_source_nslots c \<Longrightarrow>
   nat (n - 1) < length ls \<Longrightarrow> ls ! nat (n - 1) = None \<Longrightarrow>
   eval_slot s n = Inl (UndefinedVariable (fst (slots c ! nat (n - 1))))"
  by (simp add: eval_slot_def array_ref_def UndefinedVariable_def jl_undefined_var_error_def)

lemma eval_slot_invalid:
  "src s = None \<or> locals s = None \<or> n < 1 \<or> (\<exists>c. src s = Some c \<and> jl_source_nslots c < n) \<Longrightarrow>
   eval_slot s n = Inl InvalidReference_slot"
  by (auto simp: eval_slot_def InvalidReference_slot_def jl_error_def split: option.splits)

lemma eval_ssavalue_invalid:
  "src s = None \<or> locals s = None \<or> i < 1 \<or> (\<exists>c. src s = Some c \<and> jl_source_nssavalues c < i) \<Longrightarrow>
   eval_ssavalue s i = Inl InvalidReference_ssa"
  by (auto simp: eval_ssavalue_def InvalidReference_ssa_def jl_error_def Let_def split: option.splits)

lemma newvar_step:
  "jl_is_slot var \<Longrightarrow> eval_body_stmt R stmts s (NewvarNode var) toplevel w = Next s' w' nip \<Longrightarrow>
   \<exists>c ls. src s = Some c \<and> locals s = Some ls \<and> 1 \<le> jl_slot_number var \<and>
          jl_slot_number var \<le> jl_source_nslots c \<and> nat (jl_slot_number var - 1) < length ls \<and>
          s' = s\<lparr>locals := Some (ls[nat (jl_slot_number var - 1) := None])\<rparr> \<and> w' = w \<and> nip = ip s + 1"
  by (auto simp: eval_body_stmt_def local_set_def Let_def split: option.splits if_splits sum.splits)

lemma newvar_completes:
  "jl_is_slot var \<Longrightarrow> src s = Some c \<Longrightarrow> locals s = Some ls \<Longrightarrow> 1 \<le> jl_slot_number var \<Longrightarrow>
   jl_slot_number var \<le> jl_source_nslots c \<Longrightarrow> nat (jl_slot_number var - 1) < length ls \<Longrightarrow>
   eval_body_stmt R stmts s (NewvarNode var) toplevel w =
     Next (s\<lparr>locals := Some (ls[nat (jl_slot_number var - 1) := None])\<rparr>) w (ip s + 1)"
  by (simp add: eval_body_stmt_def local_set_def Let_def)

text \<open>
  C8. When a \<open>NewvarNode\<close> statement on a slot has been executed, reading that
  slot raises \<open>UndefinedVariable\<close>; the statement does complete when the slot
  number is one of the code unit's and the storage array has its cell. More
  generally, reading a slot or argument whose cell holds \<^verbatim>\<open>NULL\<close> raises
  \<open>UndefinedVariable\<close> with the slot's name; a slot number below 1 or above the
  number of slots, and an SSA number below 1 or above the number of SSA values
  (or a missing code unit or storage array) raise the invalid-reference errors.
\<close>

theorem slot_and_ssa_reads:
  "(jl_is_slot var \<and> eval_body_stmt R stmts s (NewvarNode var) toplevel w = Next s' w' nip \<longrightarrow>
      (\<exists>name. \<forall>w2. eval_value R s' var w2 = (Inl (UndefinedVariable name), w2))) \<and>
   (jl_is_slot var \<and> src s = Some c \<and> locals s = Some ls \<and> 1 \<le> jl_slot_number var \<and>
    jl_slot_number var \<le> jl_source_nslots c \<and> nat (jl_slot_number var - 1) < length ls \<longrightarrow>
      (\<exists>s1. eval_body_stmt R stmts s (NewvarNode var) toplevel w = Next s1 w (ip s + 1))) \<and>
   ((jl_is_slot e \<or> jl_is_argument e) \<and> src s = Some c \<and> locals s = Some ls \<and> 1 \<le> jl_slot_number e \<and>
    jl_slot_number e \<le> jl_source_nslots c \<and> nat (jl_slot_number e - 1) < length ls \<and>
    ls ! nat (jl_slot_number e - 1) = None \<longrightarrow>
      eval_value R s e w = (Inl (UndefinedVariable (fst (slots c ! nat (jl_slot_number e - 1)))), w)) \<and>
   ((jl_is_slot e \<or> jl_is_argument e) \<and>
    (src s = None \<or> locals s = None \<or> jl_slot_number e < 1 \<or> (\<exists>c. src s = Some c \<and> jl_source_nslots c < jl_slot_number e)) \<longrightarrow>
      eval_value R s e w = (Inl InvalidReference_slot, w)) \<and>
   ((src s = None \<or> locals s = None \<or> i < 1 \<or> (\<exists>c. src s = Some c \<and> jl_source_nssavalues c < i)) \<longrightarrow>
      eval_value R s (SSAValue i) w = (Inl InvalidReference_ssa, w))"
proof (intro conjI impI)
  assume a: "jl_is_slot var \<and> eval_body_stmt R stmts s (NewvarNode var) toplevel w = Next s' w' nip"
  then have a1: "jl_is_slot var" and a2: "eval_body_stmt R stmts s (NewvarNode var) toplevel w = Next s' w' nip"
    by simp_all
  from newvar_step [OF a1 a2]
  obtain c ls where st: "src s = Some c" "locals s = Some ls" "1 \<le> jl_slot_number var"
      "jl_slot_number var \<le> jl_source_nslots c" "nat (jl_slot_number var - 1) < length ls"
      "s' = s\<lparr>locals := Some (ls[nat (jl_slot_number var - 1) := None])\<rparr>"
    by auto
  have "eval_slot s' (jl_slot_number var) = Inl (UndefinedVariable (fst (slots c ! nat (jl_slot_number var - 1))))"
    by (rule eval_slot_unset [where ls = "ls[nat (jl_slot_number var - 1) := None]"]) (use st in simp_all)
  with a show "\<exists>name. \<forall>w2. eval_value R s' var w2 = (Inl (UndefinedVariable name), w2)"
    by (auto simp: eval_value_slot)
next
  assume "jl_is_slot var \<and> src s = Some c \<and> locals s = Some ls \<and> 1 \<le> jl_slot_number var \<and>
    jl_slot_number var \<le> jl_source_nslots c \<and> nat (jl_slot_number var - 1) < length ls"
  then show "\<exists>s1. eval_body_stmt R stmts s (NewvarNode var) toplevel w = Next s1 w (ip s + 1)"
    by (simp add: newvar_completes)
next
  assume "(jl_is_slot e \<or> jl_is_argument e) \<and> src s = Some c \<and> locals s = Some ls \<and> 1 \<le> jl_slot_number e \<and>
    jl_slot_number e \<le> jl_source_nslots c \<and> nat (jl_slot_number e - 1) < length ls \<and>
    ls ! nat (jl_slot_number e - 1) = None"
  then show "eval_value R s e w = (Inl (UndefinedVariable (fst (slots c ! nat (jl_slot_number e - 1)))), w)"
    by (simp add: eval_value_slot eval_slot_unset)
next
  assume "(jl_is_slot e \<or> jl_is_argument e) \<and>
    (src s = None \<or> locals s = None \<or> jl_slot_number e < 1 \<or> (\<exists>c. src s = Some c \<and> jl_source_nslots c < jl_slot_number e))"
  then show "eval_value R s e w = (Inl InvalidReference_slot, w)"
    by (simp add: eval_value_slot eval_slot_invalid)
next
  assume "src s = None \<or> locals s = None \<or> i < 1 \<or> (\<exists>c. src s = Some c \<and> jl_source_nssavalues c < i)"
  then show "eval_value R s (SSAValue i) w = (Inl InvalidReference_ssa, w)"
    by (simp add: eval_ssavalue_invalid)
qed


lemma newvar_example:
  "eval_body_stmt example_runtime [] example_state (NewvarNode (SlotNumber 1)) False 0 =
     Next (example_state\<lparr>locals := Some [None, None, None, None, None]\<rparr>) 0 1"
  by (simp add: eval_body_stmt_def jl_is_slot_def jl_slot_number_def example_state_def example_code_def
      jl_source_nslots_def c_int_def local_set_def)

theorem slot_and_ssa_reads_witness:
  "(\<exists>name. \<forall>w2. eval_value example_runtime (example_state\<lparr>locals := Some [None, None, None, None, None]\<rparr>)
                    (SlotNumber 1) w2 = (Inl (UndefinedVariable name), w2)) \<and>
   (\<exists>s1. eval_body_stmt example_runtime [] example_state (NewvarNode (SlotNumber 1)) False 0 = Next s1 0 1) \<and>
   eval_value example_runtime example_state (SlotNumber 2) 0 = (Inl (UndefinedVariable ''y''), 0) \<and>
   eval_value example_runtime example_state (Argument 3) 0 = (Inl InvalidReference_slot, 0) \<and>
   eval_value example_runtime example_state (SSAValue 4) 0 = (Inl InvalidReference_ssa, 0)"
  using slot_and_ssa_reads [where var = "SlotNumber 1" and R = example_runtime and stmts = "[]"
      and s = example_state and toplevel = False and w = 0
      and s' = "example_state\<lparr>locals := Some [None, None, None, None, None]\<rparr>" and w' = 0 and nip = 1
      and c = example_code and ls = "[Some (Bits jl_int64_type 5), None, None, None, None]"
      and e = "SlotNumber 2" and i = 4]
    slot_and_ssa_reads [where R = example_runtime and s = example_state and w = 0 and e = "Argument 3" and i = 4
      and var = "SlotNumber 1" and c = example_code and ls = "[]"]
    newvar_example
  by (simp add: jl_is_slot_def jl_is_argument_def jl_slot_number_def example_state_def example_code_def
      jl_source_nslots_def jl_source_nssavalues_def c_int_def)

text \<open>
  The number of SSA values is what the boxed count is as an \<^verbatim>\<open>int\<close>: with the
  count \<open>5 - 2 ^ 32\<close> the first SSA value is read from its cell.
\<close>

lemma ssa_count_as_int:
  "jl_source_nssavalues (example_code\<lparr>ssavaluetypes := SSA_count (5 - 2 ^ 32)\<rparr>) = 5 \<and>
   eval_value R (example_state\<lparr>src := Some (example_code\<lparr>ssavaluetypes := SSA_count (5 - 2 ^ 32)\<rparr>)\<rparr>)
     (SSAValue 1) w = (Inr None, w)"
  by (simp add: eval_ssavalue_def jl_source_nssavalues_def jl_source_nslots_def c_int_def locals_index_def
      example_state_def example_code_def array_ref_def)

subsection \<open>Conditional branch\<close>

lemma size_t_of_label: "1 \<le> label \<Longrightarrow> label \<le> 2 ^ 64 \<Longrightarrow> size_t_of (label - 1) = nat (label - 1)"
  by (simp add: size_t_of_def)

lemma phi_run_not_phi:
  "to < ns \<Longrightarrow> to < length stmts \<Longrightarrow> \<not> jl_is_phinode (stmts ! to) \<Longrightarrow> phi_run stmts ns to n = Inr (to, n)"
  by (simp add: array_ref_def)

lemma phi_run_past_end: "ns \<le> to \<Longrightarrow> phi_run stmts ns to n = Inr (to, n)"
  by simp

lemma eval_phi_not_phi:
  "to < ns \<Longrightarrow> to < length stmts \<Longrightarrow> \<not> jl_is_phinode (stmts ! to) \<Longrightarrow> eval_phi R stmts s ns to w = (Inr (to, s), w)"
  by (simp add: eval_phi_def phi_run_not_phi del: phi_run.simps)

lemma gotoifnot_stmt:
  "eval_body_stmt R stmts s (GotoIfNot c label) toplevel w =
    (case eval_value R s c w of
       (Inl f, w') \<Rightarrow> Failed f w'
     | (Inr cond, w') \<Rightarrow>
        if cond = Some jl_false then Next s w' (size_t_of (label - 1))
        else if cond = Some jl_true then Next s w' (ip s + 1)
        else Failed (TypeMismatch cond) w')"
  by (simp add: eval_body_stmt_def TypeMismatch_def split: prod.splits sum.splits)

lemma gotoifnot_not_phi:
  "\<not> jl_is_phinode (GotoIfNot c label)" "\<not> jl_is_phicnode (GotoIfNot c label)"
  by (simp_all add: jl_is_phinode_def jl_is_phicnode_def)

lemma true_not_false: "jl_true \<noteq> jl_false"
  by (simp add: jl_true_def jl_false_def)

text \<open>
  C4. For a \<open>GotoIfNot\<close> statement the driver evaluates the condition. When the
  value is the boolean false the next statement is the one the label names
  (the label counts from 1, the index from 0); when it is the boolean true the
  next statement is the following one; any other value, \<^verbatim>\<open>NULL\<close> included, is
  a type error. The pass through the driver's loop ends with the instruction
  pointer at that statement when it is not a phi node.
\<close>

theorem conditional_goto:
  "(eval_value R s c w = (Inr (Some jl_false), w') \<longrightarrow>
      eval_body_stmt R stmts s (GotoIfNot c label) toplevel w = Next s w' (size_t_of (label - 1))) \<and>
   (eval_value R s c w = (Inr (Some jl_true), w') \<longrightarrow>
      eval_body_stmt R stmts s (GotoIfNot c label) toplevel w = Next s w' (ip s + 1)) \<and>
   (eval_value R s c w = (Inr cond, w') \<and> cond \<noteq> Some jl_false \<and> cond \<noteq> Some jl_true \<longrightarrow>
      eval_body_stmt R stmts s (GotoIfNot c label) toplevel w = Failed (TypeMismatch cond) w') \<and>
   (1 \<le> label \<and> label \<le> 2 ^ 64 \<longrightarrow> size_t_of (label - 1) = nat (label - 1)) \<and>
   (cur < length stmts \<and> stmts ! cur = GotoIfNot c label \<and> 1 \<le> label \<and> label \<le> 2 ^ 64 \<and>
    nat (label - 1) < length stmts \<and>
    \<not> jl_is_phinode (stmts ! nat (label - 1)) \<and>
    eval_value R (st\<lparr>ip := cur\<rparr>) c w = (Inr (Some jl_false), w') \<longrightarrow>
      eval_body_iteration R stmts st cur False w = Next (st\<lparr>ip := cur\<rparr>) w' (nat (label - 1))) \<and>
   (cur < length stmts \<and> stmts ! cur = GotoIfNot c label \<and> cur + 1 < length stmts \<and>
    \<not> jl_is_phinode (stmts ! (cur + 1)) \<and>
    eval_value R (st\<lparr>ip := cur\<rparr>) c w = (Inr (Some jl_true), w') \<longrightarrow>
      eval_body_iteration R stmts st cur False w = Next (st\<lparr>ip := cur\<rparr>) w' (cur + 1))"
proof (intro conjI impI)
  assume "cur < length stmts \<and> stmts ! cur = GotoIfNot c label \<and> 1 \<le> label \<and> label \<le> 2 ^ 64 \<and>
    nat (label - 1) < length stmts \<and>
    \<not> jl_is_phinode (stmts ! nat (label - 1)) \<and>
    eval_value R (st\<lparr>ip := cur\<rparr>) c w = (Inr (Some jl_false), w')"
  then show "eval_body_iteration R stmts st cur False w = Next (st\<lparr>ip := cur\<rparr>) w' (nat (label - 1))"
    by (simp add: eval_body_iteration_def Let_def gotoifnot_stmt gotoifnot_not_phi
        size_t_of_label eval_phi_not_phi)
next
  assume "cur < length stmts \<and> stmts ! cur = GotoIfNot c label \<and> cur + 1 < length stmts \<and>
    \<not> jl_is_phinode (stmts ! (cur + 1)) \<and>
    eval_value R (st\<lparr>ip := cur\<rparr>) c w = (Inr (Some jl_true), w')"
  then show "eval_body_iteration R stmts st cur False w = Next (st\<lparr>ip := cur\<rparr>) w' (cur + 1)"
    by (simp add: eval_body_iteration_def Let_def gotoifnot_stmt gotoifnot_not_phi
        true_not_false eval_phi_not_phi)
qed (simp_all add: gotoifnot_stmt true_not_false size_t_of_label)

theorem conditional_goto_witness:
  "eval_body_iteration example_runtime (branch_code (QuoteNode jl_false)) example_state 0 False 0 =
     Next example_state 0 2 \<and>
   eval_body_iteration example_runtime (branch_code (QuoteNode jl_true)) example_state 0 False 0 =
     Next example_state 0 1 \<and>
   eval_body_stmt example_runtime (branch_code (QuoteNode Nothing)) example_state (GotoIfNot (QuoteNode Nothing) 3) False 0 =
     Failed (TypeMismatch (Some Nothing)) 0"
  using conditional_goto [where R = example_runtime and stmts = "branch_code (QuoteNode jl_false)"
      and s = example_state and c = "QuoteNode jl_false" and w = 0 and w' = 0 and label = 3 and toplevel = False
      and cur = 0 and st = example_state and cond = "Some jl_false"]
    conditional_goto [where R = example_runtime and stmts = "branch_code (QuoteNode jl_true)"
      and s = example_state and c = "QuoteNode jl_true" and w = 0 and w' = 0 and label = 3 and toplevel = False
      and cur = 0 and st = example_state and cond = "Some jl_true"]
    conditional_goto [where R = example_runtime and stmts = "branch_code (QuoteNode Nothing)"
      and s = example_state and c = "QuoteNode Nothing" and w = 0 and w' = 0 and label = 3 and toplevel = False
      and cur = 0 and st = example_state and cond = "Some Nothing"]
  by (simp add: branch_code_def jl_is_phinode_def jl_true_def jl_false_def example_state_def)

subsection \<open>Assignment to a slot\<close>

lemma assign_slot_step:
  assumes "jl_is_slot lhs"
    and "eval_body_stmt R stmts s (Expr jl_assign_sym (lhs # rhs # rest)) toplevel w = Next s' w' nip"
  shows "\<exists>c ls v. src s = Some c \<and> locals s = Some ls \<and> eval_value R s rhs w = (Inr v, w') \<and>
           1 \<le> jl_slot_number lhs \<and> jl_slot_number lhs \<le> jl_source_nslots c \<and>
           nat (jl_slot_number lhs - 1) < length ls \<and>
           s' = s\<lparr>locals := Some (ls[nat (jl_slot_number lhs - 1) := v])\<rparr> \<and> nip = ip s + 1"
  using assms
  by (auto simp: eval_body_stmt_def eval_assign_def local_set_def Let_def
      split: option.splits if_splits sum.splits prod.splits)

lemma assign_slot_completes:
  "jl_is_slot lhs \<Longrightarrow> src s = Some c \<Longrightarrow> locals s = Some ls \<Longrightarrow> eval_value R s rhs w = (Inr v, w') \<Longrightarrow>
   1 \<le> jl_slot_number lhs \<Longrightarrow> jl_slot_number lhs \<le> jl_source_nslots c \<Longrightarrow>
   nat (jl_slot_number lhs - 1) < length ls \<Longrightarrow>
   eval_body_stmt R stmts s (Expr jl_assign_sym (lhs # rhs # rest)) toplevel w =
     Next (s\<lparr>locals := Some (ls[nat (jl_slot_number lhs - 1) := v])\<rparr>) w' (ip s + 1)"
  by (simp add: eval_body_stmt_def eval_assign_def local_set_def Let_def)

text \<open>
  C10. An assignment whose left-hand side is slot \<open>n\<close>, when it completes, has
  stored the value of the right-hand side into cell \<open>n - 1\<close> of the storage
  array and changed nothing else of the activation record: every other cell,
  and so every SSA cell (all at indices from the number of slots on), holds
  what it held. It completes when the right-hand side evaluates, \<open>n\<close> is a
  slot of the code unit and the storage array has the cell.
\<close>

theorem assign_slot_frame:
  "(jl_is_slot lhs \<and>
    eval_body_stmt R stmts s (Expr jl_assign_sym (lhs # rhs # rest)) toplevel w = Next s' w' nip \<longrightarrow>
      (\<exists>c ls ls'. src s = Some c \<and> locals s = Some ls \<and> locals s' = Some ls' \<and> length ls' = length ls \<and>
         1 \<le> jl_slot_number lhs \<and> jl_slot_number lhs \<le> jl_source_nslots c \<and>
         (\<forall>k. k < length ls \<and> k \<noteq> nat (jl_slot_number lhs - 1) \<longrightarrow> ls' ! k = ls ! k) \<and>
         (\<forall>j. nat (jl_source_nslots c) + j < length ls \<longrightarrow> ls' ! (nat (jl_source_nslots c) + j) = ls ! (nat (jl_source_nslots c) + j)) \<and>
         (\<exists>v. eval_value R s rhs w = (Inr v, w') \<and> ls' ! nat (jl_slot_number lhs - 1) = v) \<and>
         s' = s\<lparr>locals := Some ls'\<rparr>)) \<and>
   (jl_is_slot lhs \<and> src s = Some c \<and> locals s = Some ls \<and> eval_value R s rhs w = (Inr v, w') \<and>
    1 \<le> jl_slot_number lhs \<and> jl_slot_number lhs \<le> jl_source_nslots c \<and>
    nat (jl_slot_number lhs - 1) < length ls \<longrightarrow>
      eval_body_stmt R stmts s (Expr jl_assign_sym (lhs # rhs # rest)) toplevel w =
        Next (s\<lparr>locals := Some (ls[nat (jl_slot_number lhs - 1) := v])\<rparr>) w' (ip s + 1))"
proof (intro conjI impI)
  assume a: "jl_is_slot lhs \<and>
    eval_body_stmt R stmts s (Expr jl_assign_sym (lhs # rhs # rest)) toplevel w = Next s' w' nip"
  then have a1: "jl_is_slot lhs"
    and a2: "eval_body_stmt R stmts s (Expr jl_assign_sym (lhs # rhs # rest)) toplevel w = Next s' w' nip"
    by simp_all
  from assign_slot_step [OF a1 a2]
  obtain c ls v where st: "src s = Some c" "locals s = Some ls" "eval_value R s rhs w = (Inr v, w')"
    "1 \<le> jl_slot_number lhs" "jl_slot_number lhs \<le> jl_source_nslots c"
    "nat (jl_slot_number lhs - 1) < length ls"
    "s' = s\<lparr>locals := Some (ls[nat (jl_slot_number lhs - 1) := v])\<rparr>"
    by auto
  have ssa: "nat (jl_source_nslots c) + j \<noteq> nat (jl_slot_number lhs - 1)" for j
    using st(4,5) by linarith
  show "\<exists>c ls ls'. src s = Some c \<and> locals s = Some ls \<and> locals s' = Some ls' \<and> length ls' = length ls \<and>
         1 \<le> jl_slot_number lhs \<and> jl_slot_number lhs \<le> jl_source_nslots c \<and>
         (\<forall>k. k < length ls \<and> k \<noteq> nat (jl_slot_number lhs - 1) \<longrightarrow> ls' ! k = ls ! k) \<and>
         (\<forall>j. nat (jl_source_nslots c) + j < length ls \<longrightarrow> ls' ! (nat (jl_source_nslots c) + j) = ls ! (nat (jl_source_nslots c) + j)) \<and>
         (\<exists>v. eval_value R s rhs w = (Inr v, w') \<and> ls' ! nat (jl_slot_number lhs - 1) = v) \<and>
         s' = s\<lparr>locals := Some ls'\<rparr>"
    apply (rule exI [where x = c])
    apply (rule exI [where x = ls])
    apply (rule exI [where x = "ls[nat (jl_slot_number lhs - 1) := v]"])
    using st ssa by simp
next
  assume "jl_is_slot lhs \<and> src s = Some c \<and> locals s = Some ls \<and> eval_value R s rhs w = (Inr v, w') \<and>
    1 \<le> jl_slot_number lhs \<and> jl_slot_number lhs \<le> jl_source_nslots c \<and>
    nat (jl_slot_number lhs - 1) < length ls"
  then show "eval_body_stmt R stmts s (Expr jl_assign_sym (lhs # rhs # rest)) toplevel w =
        Next (s\<lparr>locals := Some (ls[nat (jl_slot_number lhs - 1) := v])\<rparr>) w' (ip s + 1)"
    by (simp add: assign_slot_completes)
qed

theorem assign_slot_frame_witness:
  "eval_body_stmt example_runtime [] example_state
     (Expr jl_assign_sym [SlotNumber 2, QuoteNode (Bits jl_int64_type 9)]) False 0 =
   Next (example_state\<lparr>locals := Some [Some (Bits jl_int64_type 5), Some (Bits jl_int64_type 9), None, None, None]\<rparr>) 0 1 \<and>
   (\<exists>c ls ls'. src example_state = Some c \<and> locals example_state = Some ls \<and>
       locals (example_state\<lparr>locals := Some [Some (Bits jl_int64_type 5), Some (Bits jl_int64_type 9), None, None, None]\<rparr>) = Some ls' \<and>
       length ls' = length ls \<and>
       1 \<le> jl_slot_number (SlotNumber 2) \<and> jl_slot_number (SlotNumber 2) \<le> jl_source_nslots c \<and>
       (\<forall>k. k < length ls \<and> k \<noteq> nat (jl_slot_number (SlotNumber 2) - 1) \<longrightarrow> ls' ! k = ls ! k) \<and>
       (\<forall>j. nat (jl_source_nslots c) + j < length ls \<longrightarrow>
            ls' ! (nat (jl_source_nslots c) + j) = ls ! (nat (jl_source_nslots c) + j)) \<and>
       (\<exists>v. eval_value example_runtime example_state (QuoteNode (Bits jl_int64_type 9)) 0 = (Inr v, 0) \<and>
            ls' ! nat (jl_slot_number (SlotNumber 2) - 1) = v) \<and>
       example_state\<lparr>locals := Some [Some (Bits jl_int64_type 5), Some (Bits jl_int64_type 9), None, None, None]\<rparr> =
         example_state\<lparr>locals := Some ls'\<rparr>)"
proof -
  note T = assign_slot_frame [where lhs = "SlotNumber 2" and R = example_runtime and stmts = "[]" and s = example_state
      and rhs = "QuoteNode (Bits jl_int64_type 9)" and rest = "[]" and toplevel = False and w = 0 and w' = 0
      and c = example_code and ls = "[Some (Bits jl_int64_type 5), None, None, None, None]"
      and v = "Some (Bits jl_int64_type 9)" and nip = 1
      and s' = "example_state\<lparr>locals := Some [Some (Bits jl_int64_type 5), Some (Bits jl_int64_type 9), None, None, None]\<rparr>"]
  have slot: "jl_is_slot (SlotNumber 2)"
    by (simp add: jl_is_slot_def)
  have E: "eval_body_stmt example_runtime [] example_state
     (Expr jl_assign_sym [SlotNumber 2, QuoteNode (Bits jl_int64_type 9)]) False 0 =
   Next (example_state\<lparr>locals := Some [Some (Bits jl_int64_type 5), Some (Bits jl_int64_type 9), None, None, None]\<rparr>) 0 1"
    using T [THEN conjunct2]
    by (simp add: jl_is_slot_def jl_slot_number_def example_state_def example_code_def jl_source_nslots_def c_int_def)
  from T [THEN conjunct1] slot E show ?thesis
    by blast
qed

subsection \<open>Definedness queries\<close>

lemma eval_value_isdefined:
  "eval_value R s (Expr jl_isdefined_sym args) w = eval_isdefined R s args w"
  by (simp add: eval_value_Expr jl_sym_defs)

lemma mod_two_64:
  fixes n :: int
  assumes "- (2 ^ 63) \<le> n" and "n < 2 ^ 63"
  shows "n mod 2 ^ 64 = (if 0 \<le> n then n else n + 2 ^ 64)"
proof (cases "0 \<le> n")
  case True
  with assms show ?thesis by simp
next
  case False
  have "n mod 2 ^ 64 = (n + 2 ^ 64) mod 2 ^ 64"
    by simp
  also have "\<dots> = n + 2 ^ 64"
    using assms False by (intro mod_pos_pos_trivial) simp_all
  finally show ?thesis
    using False by simp
qed

lemma jl_unbox_box_long:
  assumes "- (2 ^ 63) \<le> n" and "n < 2 ^ 63"
  shows "jl_unbox_long (Some (jl_box_long n)) = Inr n"
proof -
  have "nat (n mod 2 ^ 64) < 2 ^ 64"
    by (simp add: nat_less_iff)
  then have m: "nat (n mod 2 ^ 64) mod 2 ^ 64 = nat (n mod 2 ^ 64)"
    by simp
  have e: "n mod 2 ^ 64 = (if 0 \<le> n then n else n + 2 ^ 64)"
    by (rule mod_two_64 [OF assms])
  show ?thesis
    using assms m e
    by (auto simp: jl_unbox_long_def jl_unbox_def jl_box_long_def jl_int64_type_def jl_is_primitivetype_def
        jl_datatype_size_def nat_less_iff)
qed

lemma isdefined_slot:
  "jl_is_slot v \<or> jl_is_argument v \<Longrightarrow> src s = Some c \<Longrightarrow> locals s = Some ls \<Longrightarrow>
   1 \<le> jl_slot_number v \<Longrightarrow> jl_slot_number v \<le> jl_source_nslots c \<Longrightarrow>
   nat (jl_slot_number v - 1) < length ls \<Longrightarrow>
   eval_isdefined R s (v # rest) w =
     (Inr (Some (if ls ! nat (jl_slot_number v - 1) \<noteq> None then jl_true else jl_false)), w)"
  by (simp add: eval_isdefined_def array_ref_def Let_def)

lemma isdefined_slot_invalid:
  "jl_is_slot v \<or> jl_is_argument v \<Longrightarrow>
   src s = None \<or> locals s = None \<or> jl_slot_number v < 1 \<or> (\<exists>c. src s = Some c \<and> jl_source_nslots c < jl_slot_number v) \<Longrightarrow>
   eval_isdefined R s (v # rest) w = (Inl InvalidReference_slot, w)"
  by (auto simp: eval_isdefined_def Let_def InvalidReference_slot_def jl_error_def split: option.splits)

lemma isdefined_global:
  "eval_isdefined R s (GlobalRef m name # rest) w =
     (Inr (Some (if jl_boundp R w m name then jl_true else jl_false)), w)"
  "eval_isdefined R s (Symbol name # rest) w =
     (Inr (Some (if jl_boundp R w (module s) name then jl_true else jl_false)), w)"
  by (simp_all add: eval_isdefined_def jl_is_slot_def jl_is_argument_def)

lemma isdefined_static_parameter:
  "sparam_vals s = Some sp \<Longrightarrow> 0 < n \<Longrightarrow> n < 2 ^ 63 \<Longrightarrow> n \<le> int (length sp) \<Longrightarrow>
   eval_isdefined R s (Expr jl_static_parameter_sym (jl_box_long n # others) # rest) w =
     (Inr (Some (if \<not> jl_is_typevar (sp ! nat (n - 1)) then jl_true else jl_false)), w)"
  by (simp add: eval_isdefined_def jl_is_slot_def jl_is_argument_def array_ref_def jl_unbox_box_long)

lemma isdefined_static_parameter_unknown:
  "0 < n \<Longrightarrow> n < 2 ^ 63 \<Longrightarrow> sparam_vals s = None \<or> (\<exists>sp. sparam_vals s = Some sp \<and> int (length sp) < n) \<Longrightarrow>
   eval_isdefined R s (Expr jl_static_parameter_sym (jl_box_long n # others) # rest) w =
     (Inl (jl_error ''could not determine static parameter value''), w)"
  by (auto simp: eval_isdefined_def jl_is_slot_def jl_is_argument_def array_ref_def jl_unbox_box_long)

lemma isdefined_other:
  "\<not> jl_is_slot v \<Longrightarrow> \<not> jl_is_argument v \<Longrightarrow> (\<forall>m name. v \<noteq> GlobalRef m name) \<Longrightarrow> (\<forall>name. v \<noteq> Symbol name) \<Longrightarrow>
   (\<forall>sargs. v \<noteq> Expr jl_static_parameter_sym sargs) \<Longrightarrow>
   eval_isdefined R s (v # rest) w = (Inl (Assertion_failed ''malformed isdefined expression''), w)"
  by (cases v) (simp_all add: eval_isdefined_def)


text \<open>
  C6, as amended. An \<open>isdefined\<close> query returns a boolean, and leaves the outside
  state as it was, for a slot or argument whose number is one of the code
  unit's slots, for a global reference, for a bare symbol (looked up in the
  current module), and for a static parameter whose index is among those
  bound. A slot number outside the code unit's slots raises the invalid-slot
  error, and a static parameter beyond those bound raises an error. An operand
  of any other kind fails the assertion.
\<close>

theorem isdefined_query:
  "((jl_is_slot v \<or> jl_is_argument v) \<and> src s = Some c \<and> locals s = Some ls \<and>
    1 \<le> jl_slot_number v \<and> jl_slot_number v \<le> jl_source_nslots c \<and> nat (jl_slot_number v - 1) < length ls \<longrightarrow>
      eval_value R s (Expr jl_isdefined_sym (v # rest)) w =
        (Inr (Some (if ls ! nat (jl_slot_number v - 1) \<noteq> None then jl_true else jl_false)), w)) \<and>
   eval_value R s (Expr jl_isdefined_sym (GlobalRef m name # rest)) w =
     (Inr (Some (if jl_boundp R w m name then jl_true else jl_false)), w) \<and>
   eval_value R s (Expr jl_isdefined_sym (Symbol name # rest)) w =
     (Inr (Some (if jl_boundp R w (module s) name then jl_true else jl_false)), w) \<and>
   (sparam_vals s = Some sp \<and> 0 < n \<and> n < 2 ^ 63 \<and> n \<le> int (length sp) \<longrightarrow>
      eval_value R s (Expr jl_isdefined_sym (Expr jl_static_parameter_sym (jl_box_long n # others) # rest)) w =
        (Inr (Some (if \<not> jl_is_typevar (sp ! nat (n - 1)) then jl_true else jl_false)), w)) \<and>
   ((jl_is_slot v \<or> jl_is_argument v) \<and>
    (src s = None \<or> locals s = None \<or> jl_slot_number v < 1 \<or>
     (\<exists>c. src s = Some c \<and> jl_source_nslots c < jl_slot_number v)) \<longrightarrow>
      eval_value R s (Expr jl_isdefined_sym (v # rest)) w = (Inl InvalidReference_slot, w)) \<and>
   (0 < n \<and> n < 2 ^ 63 \<and> (sparam_vals s = None \<or> (\<exists>sp. sparam_vals s = Some sp \<and> int (length sp) < n)) \<longrightarrow>
      eval_value R s (Expr jl_isdefined_sym (Expr jl_static_parameter_sym (jl_box_long n # others) # rest)) w =
        (Inl (jl_error ''could not determine static parameter value''), w)) \<and>
   (\<not> jl_is_slot v \<and> \<not> jl_is_argument v \<and> (\<forall>m name. v \<noteq> GlobalRef m name) \<and> (\<forall>name. v \<noteq> Symbol name) \<and>
    (\<forall>sargs. v \<noteq> Expr jl_static_parameter_sym sargs) \<longrightarrow>
      eval_value R s (Expr jl_isdefined_sym (v # rest)) w =
        (Inl (Assertion_failed ''malformed isdefined expression''), w))"
  by (intro conjI impI)
     (simp_all add: eval_value_isdefined isdefined_slot isdefined_global isdefined_static_parameter
        isdefined_slot_invalid isdefined_static_parameter_unknown isdefined_other)

theorem isdefined_query_witness:
  "eval_value example_runtime example_state (Expr jl_isdefined_sym [SlotNumber 1]) 0 = (Inr (Some jl_true), 0) \<and>
   eval_value example_runtime example_state (Expr jl_isdefined_sym [SlotNumber 2]) 0 = (Inr (Some jl_false), 0) \<and>
   eval_value example_runtime example_state (Expr jl_isdefined_sym [GlobalRef ''Main'' ''x'']) 0 = (Inr (Some jl_true), 0) \<and>
   eval_value example_runtime example_state
     (Expr jl_isdefined_sym [Expr jl_static_parameter_sym [jl_box_long 1]]) 0 = (Inr (Some jl_true), 0) \<and>
   eval_value example_runtime example_state (Expr jl_isdefined_sym [QuoteNode Nothing]) 0 =
     (Inl (Assertion_failed ''malformed isdefined expression''), 0)"
  using isdefined_query [where v = "SlotNumber 1" and R = example_runtime and s = example_state and c = example_code
      and ls = "[Some (Bits jl_int64_type 5), None, None, None, None]" and rest = "[]" and w = 0
      and m = "''Main''" and name = "''x''" and sp = "[Type_val jl_int64_type]" and n = 1 and others = "[]"]
    isdefined_query [where v = "SlotNumber 2" and R = example_runtime and s = example_state and c = example_code
      and ls = "[Some (Bits jl_int64_type 5), None, None, None, None]" and rest = "[]" and w = 0
      and m = "''Main''" and name = "''x''" and sp = "[Type_val jl_int64_type]" and n = 1 and others = "[]"]
    isdefined_query [where v = "QuoteNode Nothing" and R = example_runtime and s = example_state and c = example_code
      and ls = "[Some (Bits jl_int64_type 5), None, None, None, None]" and rest = "[]" and w = 0
      and m = "''Main''" and name = "''x''" and sp = "[Type_val jl_int64_type]" and n = 1 and others = "[]"]
  by (simp add: jl_is_slot_def jl_is_argument_def jl_slot_number_def example_state_def example_code_def
      jl_source_nslots_def c_int_def example_runtime_def jl_is_typevar_def)

text \<open>
  C6 as stated fails: a slot number outside the code unit's slots and a
  static parameter beyond those bound both raise.
\<close>

theorem isdefined_raises:
  "eval_value example_runtime example_state (Expr jl_isdefined_sym [SlotNumber 3]) 0 =
     (Inl InvalidReference_slot, 0) \<and>
   eval_value example_runtime example_state
     (Expr jl_isdefined_sym [Expr jl_static_parameter_sym [jl_box_long 2]]) 0 =
     (Inl (Throw (ErrorException ''could not determine static parameter value'')), 0)"
proof -
  have "eval_value example_runtime example_state (Expr jl_isdefined_sym [SlotNumber 3]) 0 =
     (Inl InvalidReference_slot, 0)"
    by (simp add: eval_value_isdefined isdefined_slot_invalid jl_is_slot_def jl_slot_number_def
        example_state_def example_code_def jl_source_nslots_def c_int_def)
  moreover have "eval_value example_runtime example_state
     (Expr jl_isdefined_sym [Expr jl_static_parameter_sym [jl_box_long 2]]) 0 =
     (Inl (Throw (ErrorException ''could not determine static parameter value'')), 0)"
    by (simp add: eval_value_isdefined isdefined_static_parameter_unknown example_state_def jl_error_def)
  ultimately show ?thesis by simp
qed

subsection \<open>Resolution of phi nodes\<close>

lemma first_explicit_none:
  "(first_explicit from es j = -1) = (\<forall>e\<in>set es. size_t_of e \<noteq> from + 1)"
  by (induction es arbitrary: j) auto

lemma first_explicit_some:
  "first_explicit from es j \<noteq> -1 \<Longrightarrow>
   \<exists>k<length es. first_explicit from es j = int (j + k) \<and> size_t_of (es ! k) = from + 1 \<and>
     (\<forall>k'<k. size_t_of (es ! k') \<noteq> from + 1)"
proof (induction es arbitrary: j)
  case Nil
  then show ?case by simp
next
  case (Cons e es)
  show ?case
  proof (cases "size_t_of e = from + 1")
    case True
    then show ?thesis by (intro exI [where x = 0]) simp
  next
    case False
    with Cons.prems have "first_explicit from es (Suc j) \<noteq> -1" by simp
    from Cons.IH [OF this] obtain k where k: "k < length es"
      "first_explicit from es (Suc j) = int (Suc j + k)" "size_t_of (es ! k) = from + 1"
      "\<forall>k'<k. size_t_of (es ! k') \<noteq> from + 1"
      by blast
    show ?thesis
    proof (intro exI [where x = "Suc k"] conjI allI impI)
      fix k' assume "k' < Suc k"
      then show "size_t_of ((e # es) ! k') \<noteq> from + 1"
        using False k(4) by (cases k') auto
    qed (use False k in auto)
  qed
qed

lemma scan_edges_props:
  "scan_edges from bound es j (edge0, c0) = (edge, c) \<Longrightarrow>
   c0 \<le> c \<and>
   (c \<noteq> c0 \<longrightarrow> (\<exists>k<length es. edge = int (j + k) \<and> size_t_of (es ! k) = c \<and> size_t_of (es ! k) \<noteq> from + 1 \<and>
        c < bound \<and> (\<forall>k'<k. size_t_of (es ! k') \<noteq> c))) \<and>
   (\<forall>e\<in>set es. implicit_edge from c0 bound e \<longrightarrow> size_t_of e \<le> c) \<and>
   (c = c0 \<and> edge0 \<noteq> -1 \<longrightarrow> edge = edge0) \<and>
   (c = c0 \<and> edge0 = -1 \<longrightarrow> edge = first_explicit from es j)"
proof (induction es arbitrary: j edge0 c0)
  case Nil
  then show ?case by simp
next
  case (Cons e es)
  define edge1 where "edge1 = (if size_t_of e = from + 1 then (if edge0 = -1 then int j else edge0)
     else if c0 < size_t_of e \<and> size_t_of e < bound then int j else edge0)"
  define c1 where "c1 = (if size_t_of e = from + 1 then c0
     else if c0 < size_t_of e \<and> size_t_of e < bound then size_t_of e else c0)"
  have rec: "scan_edges from bound es (Suc j) (edge1, c1) = (edge, c)"
  proof (cases "size_t_of e = from + 1")
    case True
    with Cons.prems show ?thesis by (simp add: edge1_def c1_def)
  next
    case False
    show ?thesis
    proof (cases "c0 < size_t_of e \<and> size_t_of e < bound")
      case True
      with False Cons.prems show ?thesis by (simp add: edge1_def c1_def)
    next
      case False
      with \<open>size_t_of e \<noteq> from + 1\<close> Cons.prems show ?thesis by (auto simp: edge1_def c1_def)
    qed
  qed
  note IH = Cons.IH [OF rec]
  have c01: "c0 \<le> c1" by (simp add: c1_def)
  have g1: "c0 \<le> c" using IH c01 by linarith
  have g2: "\<exists>k<length (e # es). edge = int (j + k) \<and> size_t_of ((e # es) ! k) = c \<and>
        size_t_of ((e # es) ! k) \<noteq> from + 1 \<and> c < bound \<and> (\<forall>k'<k. size_t_of ((e # es) ! k') \<noteq> c)"
    if neq: "c \<noteq> c0"
  proof (cases "c = c1")
    case True
    with neq have imp: "size_t_of e \<noteq> from + 1" "c0 < size_t_of e" "size_t_of e < bound" "c1 = size_t_of e"
      by (auto simp: c1_def split: if_splits)
    then have "edge1 = int j" by (simp add: edge1_def)
    with IH True have "edge = int j" by simp
    then show ?thesis
      using imp True by (intro exI [where x = 0]) simp
  next
    case False
    with IH obtain k where k: "k < length es" "edge = int (Suc j + k)" "size_t_of (es ! k) = c"
      "size_t_of (es ! k) \<noteq> from + 1" "c < bound" "\<forall>k'<k. size_t_of (es ! k') \<noteq> c"
      by blast
    have c1c: "c1 < c" using IH False by linarith
    have e_ne: "size_t_of e \<noteq> c"
    proof
      assume eq: "size_t_of e = c"
      then have "size_t_of e \<noteq> from + 1" using k by simp
      moreover have "c0 < size_t_of e" using eq c1c c01 by linarith
      moreover have "size_t_of e < bound" using eq k by simp
      ultimately have "c1 = size_t_of e" by (simp add: c1_def)
      with eq c1c show False by simp
    qed
    show ?thesis
    proof (intro exI [where x = "Suc k"] conjI allI impI)
      fix k' assume "k' < Suc k"
      then show "size_t_of ((e # es) ! k') \<noteq> c"
        using e_ne k(6) by (cases k') auto
    qed (use k in auto)
  qed
  have g3: "size_t_of e' \<le> c" if mem: "e' \<in> set (e # es)" and imp: "implicit_edge from c0 bound e'" for e'
  proof (cases "e' = e")
    case True
    with imp have "c1 = size_t_of e" by (simp add: c1_def implicit_edge_def)
    with IH True show ?thesis by simp
  next
    case False
    with mem have m: "e' \<in> set es" by simp
    show ?thesis
    proof (cases "implicit_edge from c1 bound e'")
      case True
      with IH m show ?thesis by blast
    next
      case False
      with imp have "size_t_of e' \<le> c1" by (simp add: implicit_edge_def)
      with IH show ?thesis by linarith
    qed
  qed
  have cc: "c1 = c0" "\<not> (size_t_of e \<noteq> from + 1 \<and> c0 < size_t_of e \<and> size_t_of e < bound)" if "c = c0"
    using that IH c01 by (auto simp: c1_def split: if_splits)
  have g5: "edge = edge0" if "c = c0" "edge0 \<noteq> -1"
  proof -
    have "edge1 = edge0" using cc [OF that(1)] that(2) by (auto simp: edge1_def)
    with IH cc [OF that(1)] that show ?thesis by simp
  qed
  have g6: "edge = first_explicit from (e # es) j" if "c = c0" "edge0 = -1"
  proof (cases "size_t_of e = from + 1")
    case True
    then have "edge1 = int j" using that by (simp add: edge1_def)
    with IH cc [OF that(1)] that True show ?thesis by simp
  next
    case False
    then have "edge1 = -1" using cc [OF that(1)] that by (auto simp: edge1_def)
    with IH cc [OF that(1)] that False show ?thesis by simp
  qed
  show ?case
    using g1 g2 g3 g5 g6 by blast
qed

lemma scan_edges_select:
  assumes "scan_edges from (to + i + 1) edges 0 (-1, to) = (edge, closest)"
  shows "to \<le> closest \<and> closest \<le> to + i \<and>
     ((closest = to) = (\<forall>e\<in>set edges. \<not> implicit_edge from to (to + i + 1) e)) \<and>
     (closest \<noteq> to \<longrightarrow>
        0 \<le> edge \<and> nat edge < length edges \<and> size_t_of (edges ! nat edge) = closest \<and>
        implicit_edge from to (to + i + 1) (edges ! nat edge) \<and>
        (\<forall>e\<in>set edges. implicit_edge from to (to + i + 1) e \<longrightarrow> size_t_of e \<le> closest) \<and>
        (\<forall>k<nat edge. size_t_of (edges ! k) \<noteq> closest)) \<and>
     (closest = to \<longrightarrow>
        (edge = -1 \<and> (\<forall>e\<in>set edges. size_t_of e \<noteq> from + 1)) \<or>
        (0 \<le> edge \<and> nat edge < length edges \<and> size_t_of (edges ! nat edge) = from + 1 \<and>
         (\<forall>k<nat edge. size_t_of (edges ! k) \<noteq> from + 1)))"
proof -
  note P = scan_edges_props [OF assms]
  have lo: "to \<le> closest" using P by simp
  have sel: "0 \<le> edge \<and> nat edge < length edges \<and> size_t_of (edges ! nat edge) = closest \<and>
        implicit_edge from to (to + i + 1) (edges ! nat edge) \<and>
        (\<forall>e\<in>set edges. implicit_edge from to (to + i + 1) e \<longrightarrow> size_t_of e \<le> closest) \<and>
        (\<forall>k<nat edge. size_t_of (edges ! k) \<noteq> closest)" if ne: "closest \<noteq> to"
  proof -
    from P ne obtain k where k: "k < length edges" "edge = int (0 + k)" "size_t_of (edges ! k) = closest"
      "size_t_of (edges ! k) \<noteq> from + 1" "closest < to + i + 1" "\<forall>k'<k. size_t_of (edges ! k') \<noteq> closest"
      by blast
    have "implicit_edge from to (to + i + 1) (edges ! k)"
      using k lo ne by (simp add: implicit_edge_def)
    with k P show ?thesis by simp
  qed
  have hi: "closest \<le> to + i"
  proof (cases "closest = to")
    case True then show ?thesis by simp
  next
    case False
    with sel have "implicit_edge from to (to + i + 1) (edges ! nat edge)" "size_t_of (edges ! nat edge) = closest"
      by simp_all
    then show ?thesis by (simp add: implicit_edge_def)
  qed
  have none: "(closest = to) = (\<forall>e\<in>set edges. \<not> implicit_edge from to (to + i + 1) e)"
  proof
    assume eq: "closest = to"
    show "\<forall>e\<in>set edges. \<not> implicit_edge from to (to + i + 1) e"
    proof
      fix e assume m: "e \<in> set edges"
      show "\<not> implicit_edge from to (to + i + 1) e"
      proof
        assume imp: "implicit_edge from to (to + i + 1) e"
        with P m have "size_t_of e \<le> closest" by blast
        with imp eq show False by (simp add: implicit_edge_def)
      qed
    qed
  next
    assume no: "\<forall>e\<in>set edges. \<not> implicit_edge from to (to + i + 1) e"
    show "closest = to"
    proof (rule ccontr)
      assume "closest \<noteq> to"
      from sel [OF this] have "implicit_edge from to (to + i + 1) (edges ! nat edge)" "nat edge < length edges"
        by simp_all
      with no show False using nth_mem by blast
    qed
  qed
  have expl: "(edge = -1 \<and> (\<forall>e\<in>set edges. size_t_of e \<noteq> from + 1)) \<or>
        (0 \<le> edge \<and> nat edge < length edges \<and> size_t_of (edges ! nat edge) = from + 1 \<and>
         (\<forall>k<nat edge. size_t_of (edges ! k) \<noteq> from + 1))" if eq: "closest = to"
  proof -
    from P eq have e: "edge = first_explicit from edges 0" by simp
    show ?thesis
    proof (cases "first_explicit from edges 0 = -1")
      case True
      with e show ?thesis by (simp add: first_explicit_none)
    next
      case False
      from first_explicit_some [OF this] e show ?thesis by auto
    qed
  qed
  show ?thesis
    using lo hi none sel expl by blast
qed

lemma phi_run_props:
  "phi_run stmts ns p n = Inr (ip', nphi) \<Longrightarrow>
   (\<exists>m. ip' = p + m \<and> nphi = n + m \<and>
        (\<forall>k<m. p + k < ns \<and> p + k < length stmts \<and> jl_is_phinode (stmts ! (p + k)))) \<and>
   (ip' < ns \<longrightarrow> ip' < length stmts \<and> \<not> jl_is_phinode (stmts ! ip'))"
proof (induction stmts ns p n rule: phi_run.induct)
  case (1 stmts ns p n)
  show ?case
  proof (cases "p < ns \<and> p < length stmts \<and> jl_is_phinode (stmts ! p)")
    case True
    with "1.prems" have rec: "phi_run stmts ns (Suc p) (Suc n) = Inr (ip', nphi)"
      by (simp add: array_ref_def)
    from True have "array_ref stmts p = Inr (stmts ! p)" by (simp add: array_ref_def)
    from "1.IH" [OF _ this _ rec] True
    obtain m where m: "ip' = Suc p + m" "nphi = Suc n + m"
      "\<forall>k<m. Suc p + k < ns \<and> Suc p + k < length stmts \<and> jl_is_phinode (stmts ! (Suc p + k))"
      and last: "ip' < ns \<longrightarrow> ip' < length stmts \<and> \<not> jl_is_phinode (stmts ! ip')"
      by auto
    have "\<forall>k<Suc m. p + k < ns \<and> p + k < length stmts \<and> jl_is_phinode (stmts ! (p + k))"
    proof (intro allI impI)
      fix k assume "k < Suc m"
      then show "p + k < ns \<and> p + k < length stmts \<and> jl_is_phinode (stmts ! (p + k))"
        using True m(3) by (cases k) auto
    qed
    with m last show ?thesis
      by (intro conjI exI [where x = "Suc m"]) simp_all
  next
    case False
    with "1.prems" have "ip' = p \<and> nphi = n \<and> (p < ns \<longrightarrow> p < length stmts \<and> \<not> jl_is_phinode (stmts ! p))"
      by (auto simp: array_ref_def split: if_splits)
    then show ?thesis by simp
  qed
qed

lemma jl_is_phinode_iff: "jl_is_phinode e = (\<exists>edges vals. e = PhiNode edges vals)"
  by (cases e) (simp_all add: jl_is_phinode_def)

lemma scan_edges_no_implicit:
  assumes "\<forall>e\<in>set edges. \<not> implicit_edge from to (to + i + 1) e"
  shows "scan_edges from (to + i + 1) edges 0 (-1, to) = (first_explicit from edges 0, to)"
proof -
  obtain edge closest where sc: "scan_edges from (to + i + 1) edges 0 (-1, to) = (edge, closest)"
    by (cases "scan_edges from (to + i + 1) edges 0 (-1, to)") auto
  from scan_edges_select [OF sc] assms have c: "closest = to" by blast
  with scan_edges_props [OF sc] have "edge = first_explicit from edges 0" by simp
  with sc c show ?thesis by simp
qed

lemma store_cells_update:
  "locals s = Some ls \<Longrightarrow> dest + length vs \<le> length ls \<Longrightarrow>
   store_cells s dest vs = Inr (s\<lparr>locals := Some (take dest ls @ vs @ drop (dest + length vs) ls)\<rparr>)"
proof (induction vs arbitrary: s ls dest)
  case Nil
  then show ?case by simp
next
  case (Cons v vs)
  from Cons.prems have lt: "dest < length ls" by simp
  let ?s = "s\<lparr>locals := Some (ls[dest := v])\<rparr>"
  have set: "local_set s dest v = Inr ?s"
    using Cons.prems lt by (simp add: local_set_def)
  have loc: "locals ?s = Some (ls[dest := v])" by simp
  have len: "Suc dest + length vs \<le> length (ls[dest := v])"
    using Cons.prems by simp
  have tk: "take (Suc dest) (ls[dest := v]) = take dest ls @ [v]"
    using lt by (simp add: take_Suc_conv_app_nth)
  from Cons.IH [OF loc len] set tk show ?case
    by simp
qed

lemma scan_edges_implicit:
  assumes k: "k < length edges" and imp: "implicit_edge from to (to + i + 1) (edges ! k)"
    and largest: "\<forall>e\<in>set edges. implicit_edge from to (to + i + 1) e \<longrightarrow> size_t_of e \<le> size_t_of (edges ! k)"
    and first: "\<forall>j<k. size_t_of (edges ! j) \<noteq> size_t_of (edges ! k)"
  shows "scan_edges from (to + i + 1) edges 0 (-1, to) = (int k, size_t_of (edges ! k))"
proof -
  obtain edge closest where sc: "scan_edges from (to + i + 1) edges 0 (-1, to) = (edge, closest)"
    by (cases "scan_edges from (to + i + 1) edges 0 (-1, to)") auto
  note S = scan_edges_select [OF sc]
  from k have mem: "edges ! k \<in> set edges" by simp
  from S mem imp have ne: "closest \<noteq> to" by blast
  with S have e: "0 \<le> edge" "nat edge < length edges" "size_t_of (edges ! nat edge) = closest"
      "implicit_edge from to (to + i + 1) (edges ! nat edge)"
      "\<forall>e\<in>set edges. implicit_edge from to (to + i + 1) e \<longrightarrow> size_t_of e \<le> closest"
      "\<forall>j<nat edge. size_t_of (edges ! j) \<noteq> closest"
    by simp_all
  from e(5) mem imp have "size_t_of (edges ! k) \<le> closest" by blast
  moreover from largest e(2,4) have "size_t_of (edges ! nat edge) \<le> size_t_of (edges ! k)"
    using nth_mem by blast
  ultimately have c: "closest = size_t_of (edges ! k)" using e(3) by simp
  have "nat edge = k"
  proof (rule ccontr)
    assume "nat edge \<noteq> k"
    then consider "nat edge < k" | "k < nat edge" by linarith
    then show False
    proof cases
      case 1
      with first e(3) c show False by auto
    next
      case 2
      with e(6) c show False by auto
    qed
  qed
  with e(1) have "edge = int k" by simp
  with sc c show ?thesis by simp
qed

lemma shift_phis_props:
  assumes "0 < n" and "i \<le> length phis"
  shows "length (shift_phis n i phis) = length phis \<and>
         (\<forall>j. j + n < i \<longrightarrow> shift_phis n i phis ! j = phis ! (j + n)) \<and>
         (\<forall>j. i \<le> j \<longrightarrow> shift_phis n i phis ! j = phis ! j)"
  using assms(2)
proof (induction i)
  case 0
  then show ?case by (simp add: shift_phis_def)
next
  case (Suc i)
  then have IH: "length (shift_phis n i phis) = length phis"
      "\<forall>j. j + n < i \<longrightarrow> shift_phis n i phis ! j = phis ! (j + n)"
      "\<forall>j. i \<le> j \<longrightarrow> shift_phis n i phis ! j = phis ! j"
    by simp_all
  show ?case
  proof (cases "n \<le> i")
    case False
    then have "shift_phis n (Suc i) phis = phis"
      by (simp add: shift_phis_def)
    with False show ?thesis by auto
  next
    case True
    let ?r = "shift_phis n i phis"
    have unfold: "shift_phis n (Suc i) phis = (?r[i - n := ?r ! i])[i := None]"
      using True by (simp add: shift_phis_def)
    have ri: "?r ! i = phis ! i" using IH(3) by simp
    have ilt: "i < length phis" using Suc.prems by simp
    have g2: "shift_phis n (Suc i) phis ! j = phis ! (j + n)" if "j + n < Suc i" for j
    proof (cases "j = i - n")
      case True
      with \<open>n \<le> i\<close> assms(1) ilt IH(1) ri show ?thesis
        by (simp add: unfold)
    next
      case False
      with that \<open>n \<le> i\<close> have "j + n < i" by linarith
      with IH(2) False that show ?thesis
        by (simp add: unfold)
    qed
    have g3: "shift_phis n (Suc i) phis ! j = phis ! j" if "Suc i \<le> j" for j
      using that IH(3) assms(1) by (simp add: unfold)
    from g2 g3 IH(1) show ?thesis
      by (simp add: unfold)
  qed
qed

lemma phi_step_explicit:
  assumes "i < nphi" and "to + i < length stmts" and "stmts ! (to + i) = PhiNode edges vals"
    and "\<forall>e\<in>set edges. \<not> implicit_edge from to (to + i + 1) e"
  shows "phi_loop R stmts s from to nphi i dest phis w =
    (case phi_value R s vals (first_explicit from edges 0) w of
       (Inl f, w') \<Rightarrow> (Inl f, w')
     | (Inr val, w') \<Rightarrow> phi_loop R stmts s from to nphi (Suc i) dest (phis[i := val]) w')"
  using assms(1-3) scan_edges_no_implicit [OF assms(4)]
  by (subst phi_loop.simps) (simp add: array_ref_def phi_promote_def)

lemma phi_step_implicit:
  assumes node: "i < nphi" "to + i < length stmts" "stmts ! (to + i) = PhiNode edges vals"
    and k: "k < length edges" and imp: "implicit_edge from to (to + i + 1) (edges ! k)"
    and largest: "\<forall>e\<in>set edges. implicit_edge from to (to + i + 1) e \<longrightarrow> size_t_of e \<le> size_t_of (edges ! k)"
    and first: "\<forall>j<k. size_t_of (edges ! j) \<noteq> size_t_of (edges ! k)"
    and closest: "closest = size_t_of (edges ! k)"
    and cells: "locals s = Some ls" "dest + (closest - to) \<le> length ls" "closest - to \<le> length phis"
  shows "phi_loop R stmts s from to nphi i dest phis w =
    (case phi_value R (s\<lparr>locals := Some (take dest ls @ take (closest - to) phis @ drop (dest + (closest - to)) ls)\<rparr>)
            vals (int k) w of
       (Inl f, w') \<Rightarrow> (Inl f, w')
     | (Inr val, w') \<Rightarrow>
         phi_loop R stmts (s\<lparr>locals := Some (take dest ls @ take (closest - to) phis @ drop (dest + (closest - to)) ls)\<rparr>)
           (closest - 1) closest (nphi - (closest - to)) (Suc (i - (closest - to))) (dest + (closest - to))
           ((shift_phis (closest - to) i phis)[i - (closest - to) := val]) w')"
proof -
  have sc: "scan_edges from (to + i + 1) edges 0 (-1, to) = (int k, closest)"
    unfolding closest by (rule scan_edges_implicit [OF k imp largest first])
  from imp closest have lt: "to < closest" by (simp add: implicit_edge_def)
  have len: "length (take (closest - to) phis) = closest - to"
    using cells(3) by simp
  have st: "store_cells s dest (take (closest - to) phis) =
      Inr (s\<lparr>locals := Some (take dest ls @ take (closest - to) phis @ drop (dest + (closest - to)) ls)\<rparr>)"
    using store_cells_update [OF cells(1), of dest "take (closest - to) phis"] cells(2) len by simp
  have pr: "phi_promote s from to nphi i dest phis closest =
      Inr (s\<lparr>locals := Some (take dest ls @ take (closest - to) phis @ drop (dest + (closest - to)) ls)\<rparr>,
           closest - 1, closest, nphi - (closest - to), i - (closest - to), dest + (closest - to),
           shift_phis (closest - to) i phis)"
    using lt st by (simp add: phi_promote_def Let_def)
  show ?thesis
    using node sc pr
    by (subst phi_loop.simps) (simp add: array_ref_def del: One_nat_def)
qed

lemma phi_loop_end:
  assumes "\<not> i < nphi" and "locals s = Some ls" and "nphi \<le> length phis" and "dest + nphi \<le> length ls"
  shows "phi_loop R stmts s from to nphi i dest phis w =
    (Inr (s\<lparr>locals := Some (take dest ls @ take nphi phis @ drop (dest + nphi) ls)\<rparr>), w)"
proof -
  have len: "length (take nphi phis) = nphi" using assms(3) by simp
  from store_cells_update [OF assms(2), of dest "take nphi phis"] assms(4) len
  have "store_cells s dest (take nphi phis) =
      Inr (s\<lparr>locals := Some (take dest ls @ take nphi phis @ drop (dest + nphi) ls)\<rparr>)"
    by simp
  with assms(1) show ?thesis
    by (subst phi_loop.simps) simp
qed

lemma explicit_values_length:
  "explicit_values R s from nodes w = (Inr vs, w') \<Longrightarrow> length vs = length nodes"
proof (induction nodes arbitrary: w vs)
  case Nil
  then show ?case by simp
next
  case (Cons node nodes)
  then show ?case
    by (auto split: jl_value.splits prod.splits sum.splits)
qed

lemma phi_loop_no_implicit:
  assumes "to + nphi \<le> length stmts" and "length phis = nphi" and "i \<le> nphi"
    and "\<forall>k<nphi. jl_is_phinode (stmts ! (to + k))"
    and "no_implicit_edges stmts from to nphi"
  shows "phi_loop R stmts s from to nphi i dest phis w =
    (case explicit_values R s from (take (nphi - i) (drop (to + i) stmts)) w of
       (Inl f, w') \<Rightarrow> (Inl f, w')
     | (Inr vs, w') \<Rightarrow> (store_cells s dest (take i phis @ vs), w'))"
  using assms(2,3)
proof (induction "nphi - i" arbitrary: i phis w)
  case 0
  then have "i = nphi" by simp
  with 0 show ?case by simp
next
  case (Suc n)
  then have lt: "i < nphi" by simp
  with assms(4) obtain edges vals where node: "stmts ! (to + i) = PhiNode edges vals"
    using jl_is_phinode_iff by blast
  from lt assms(1) have inb: "to + i < length stmts" by simp
  from assms(5) lt node have noimp: "\<forall>e\<in>set edges. \<not> implicit_edge from to (to + i + 1) e"
    by (simp add: no_implicit_edges_def)
  note sc = scan_edges_no_implicit [OF noimp]
  have nodes: "take (nphi - i) (drop (to + i) stmts) =
      PhiNode edges vals # take (nphi - Suc i) (drop (to + Suc i) stmts)"
  proof -
    have "drop (to + i) stmts = stmts ! (to + i) # drop (Suc (to + i)) stmts"
      using inb by (simp add: Cons_nth_drop_Suc)
    moreover have "nphi - i = Suc (nphi - Suc i)" using lt by simp
    ultimately show ?thesis using node by simp
  qed
  have step: "phi_loop R stmts s from to nphi i dest phis w =
    (case phi_value R s vals (first_explicit from edges 0) w of
       (Inl f, w') \<Rightarrow> (Inl f, w')
     | (Inr val, w') \<Rightarrow> phi_loop R stmts s from to nphi (Suc i) dest (phis[i := val]) w')"
    using lt inb node sc
    by (subst phi_loop.simps) (simp add: array_ref_def phi_promote_def)
  show ?case
  proof (cases "phi_value R s vals (first_explicit from edges 0) w")
    case (Pair r w')
    show ?thesis
    proof (cases r)
      case (Inl f)
      with Pair step nodes show ?thesis by simp
    next
      case (Inr val)
      have n: "n = nphi - Suc i" using Suc.hyps(2) by simp
      have len: "length (phis[i := val]) = nphi" using Suc.prems by simp
      have le: "Suc i \<le> nphi" using lt by simp
      have tk: "take (Suc i) (phis[i := val]) = take i phis @ [val]"
        using lt Suc.prems by (simp add: take_Suc_conv_app_nth)
      from Suc.hyps(1) [OF n len le] Pair Inr step nodes tk show ?thesis
        by (simp split: prod.splits sum.splits)
    qed
  qed
qed


lemma eval_phi_entry:
  assumes run: "phi_run stmts ns start 0 = Inr (next_ip, len)"
  shows "next_ip = start + len \<and> (\<forall>k<len. jl_is_phinode (stmts ! (start + k))) \<and>
         (next_ip < ns \<longrightarrow> \<not> jl_is_phinode (stmts ! next_ip)) \<and>
         (len = 0 \<longrightarrow> eval_phi R stmts s ns start w = (Inr (start, s), w)) \<and>
         (len \<noteq> 0 \<and> src s = Some c \<longrightarrow>
            eval_phi R stmts s ns start w =
              (case phi_loop R stmts s (ip s) start len 0 (locals_index c (int start)) (replicate len None) w of
                 (Inl f, w') \<Rightarrow> (Inl f, w')
               | (Inr s', w') \<Rightarrow> (Inr (start + len, s'), w')))"
proof -
  from phi_run_props [OF run] have p: "next_ip = start + len"
      "\<forall>k<len. jl_is_phinode (stmts ! (start + k))" "next_ip < ns \<longrightarrow> \<not> jl_is_phinode (stmts ! next_ip)"
    by auto
  have z: "eval_phi R stmts s ns start w = (Inr (start, s), w)" if "len = 0"
    using that run p(1) by (simp add: eval_phi_def del: phi_run.simps)
  have nz: "eval_phi R stmts s ns start w =
              (case phi_loop R stmts s (ip s) start len 0 (locals_index c (int start)) (replicate len None) w of
                 (Inl f, w') \<Rightarrow> (Inl f, w')
               | (Inr s', w') \<Rightarrow> (Inr (start + len, s'), w'))" if "len \<noteq> 0" "src s = Some c"
    using that run p(1) by (simp add: eval_phi_def del: phi_run.simps)
  from p z nz show ?thesis by blast
qed

lemma eval_phi_no_implicit:
  assumes run: "phi_run stmts ns start 0 = Inr (next_ip, len)" and c: "src s = Some c"
    and ls: "locals s = Some ls"
    and no: "no_implicit_edges stmts (ip s) start len"
    and room: "locals_index c (int start) + len \<le> length ls"
  shows "eval_phi R stmts s ns start w =
    (case explicit_values R s (ip s) (take len (drop start stmts)) w of
       (Inl f, w') \<Rightarrow> (Inl f, w')
     | (Inr vs, w') \<Rightarrow>
        (Inr (next_ip, s\<lparr>locals := Some (take (locals_index c (int start)) ls @ vs @
                                         drop (locals_index c (int start) + len) ls)\<rparr>), w'))"
proof (cases "len = 0")
  case True
  have "s\<lparr>locals := Some ls\<rparr> = s" using ls by simp
  with True run show ?thesis by (simp add: eval_phi_def del: phi_run.simps)
next
  case False
  let ?d = "locals_index c (int start)"
  from phi_run_props [OF run] have nodes: "\<forall>k<len. start + k < length stmts \<and> jl_is_phinode (stmts ! (start + k))"
    and nip: "next_ip = start + len"
    by auto
  have le: "start + len \<le> length stmts"
  proof -
    from False have "len - 1 < len" by simp
    with nodes have "start + (len - 1) < length stmts" by blast
    with False show ?thesis by simp
  qed
  have loop: "phi_loop R stmts s (ip s) start len 0 ?d (replicate len None) w =
    (case explicit_values R s (ip s) (take (len - 0) (drop (start + 0) stmts)) w of
       (Inl f, w') \<Rightarrow> (Inl f, w')
     | (Inr vs, w') \<Rightarrow> (store_cells s ?d (take 0 (replicate len None) @ vs), w'))"
    by (rule phi_loop_no_implicit [OF le _ _ _ no]) (use nodes in simp_all)
  show ?thesis
  proof (cases "explicit_values R s (ip s) (take len (drop start stmts)) w")
    case (Pair r w')
    show ?thesis
    proof (cases r)
      case (Inl f)
      with Pair loop run c False show ?thesis
        by (simp add: eval_phi_def del: phi_run.simps)
    next
      case (Inr vs)
      from explicit_values_length [OF Pair [unfolded Inr]] le have lv: "length vs = len" by simp
      from store_cells_update [OF ls, of ?d vs] room lv
      have "store_cells s ?d vs = Inr (s\<lparr>locals := Some (take ?d ls @ vs @ drop (?d + len) ls)\<rparr>)"
        by simp
      with Pair Inr loop run c False nip show ?thesis
        by (simp add: eval_phi_def del: phi_run.simps)
    qed
  qed
qed

lemma eval_phi_returns:
  assumes "eval_phi R stmts s ns to w = (Inr (ip', s'), w')"
  shows "to \<le> ip' \<and> (\<forall>k. to \<le> k \<and> k < ip' \<longrightarrow> k < ns \<and> jl_is_phinode (stmts ! k)) \<and>
         (ip' < ns \<longrightarrow> \<not> jl_is_phinode (stmts ! ip'))"
proof -
  from assms obtain nphi where run: "phi_run stmts ns to 0 = Inr (ip', nphi)"
    by (auto simp: eval_phi_def simp del: phi_run.simps split: sum.splits prod.splits if_splits option.splits)
  from phi_run_props [OF run] obtain m where m: "ip' = to + m"
    "\<forall>k<m. to + k < ns \<and> to + k < length stmts \<and> jl_is_phinode (stmts ! (to + k))"
    and last: "ip' < ns \<longrightarrow> ip' < length stmts \<and> \<not> jl_is_phinode (stmts ! ip')"
    by auto
  have "k < ns \<and> jl_is_phinode (stmts ! k)" if "to \<le> k" "k < ip'" for k
  proof -
    from that m(1) have "k - to < m" "to + (k - to) = k" by simp_all
    with m(2) show ?thesis by metis
  qed
  with m(1) last show ?thesis by simp
qed

lemma phi_part_entry:
  "phi_run stmts ns start 0 = Inr (next_ip, len) \<longrightarrow>
      next_ip = start + len \<and> (\<forall>k<len. jl_is_phinode (stmts ! (start + k))) \<and>
      (next_ip < ns \<longrightarrow> \<not> jl_is_phinode (stmts ! next_ip)) \<and>
      (len = 0 \<longrightarrow> eval_phi R stmts s ns start w = (Inr (start, s), w)) \<and>
      (len \<noteq> 0 \<and> src s = Some c \<longrightarrow>
         eval_phi R stmts s ns start w =
           (case phi_loop R stmts s (ip s) start len 0 (locals_index c (int start)) (replicate len None) w of
              (Inl f, w') \<Rightarrow> (Inl f, w')
            | (Inr s', w') \<Rightarrow> (Inr (start + len, s'), w')))"
  by (rule impI) (rule eval_phi_entry)

lemma phi_part_explicit:
  "i < nphi \<and> to + i < length stmts \<and> stmts ! (to + i) = PhiNode edges vals \<and>
   (\<forall>e\<in>set edges. \<not> implicit_edge prev to (to + i + 1) e) \<longrightarrow>
      phi_loop R stmts s prev to nphi i dest phis w =
        (case phi_value R s vals (first_explicit prev edges 0) w of
           (Inl f, w') \<Rightarrow> (Inl f, w')
         | (Inr val, w') \<Rightarrow> phi_loop R stmts s prev to nphi (Suc i) dest (phis[i := val]) w')"
  by (intro impI, elim conjE, rule phi_step_explicit; assumption)

lemma phi_part_implicit:
  "i < nphi \<and> to + i < length stmts \<and> stmts ! (to + i) = PhiNode edges vals \<and>
   k < length edges \<and> implicit_edge prev to (to + i + 1) (edges ! k) \<and>
   (\<forall>e\<in>set edges. implicit_edge prev to (to + i + 1) e \<longrightarrow> size_t_of e \<le> size_t_of (edges ! k)) \<and>
   (\<forall>j<k. size_t_of (edges ! j) \<noteq> size_t_of (edges ! k)) \<and>
   closest = size_t_of (edges ! k) \<and>
   locals s = Some ls \<and> dest + (closest - to) \<le> length ls \<and> closest - to \<le> length phis \<longrightarrow>
      phi_loop R stmts s prev to nphi i dest phis w =
        (case phi_value R (s\<lparr>locals := Some (take dest ls @ take (closest - to) phis @ drop (dest + (closest - to)) ls)\<rparr>)
                vals (int k) w of
           (Inl f, w') \<Rightarrow> (Inl f, w')
         | (Inr val, w') \<Rightarrow>
             phi_loop R stmts (s\<lparr>locals := Some (take dest ls @ take (closest - to) phis @ drop (dest + (closest - to)) ls)\<rparr>)
               (closest - 1) closest (nphi - (closest - to)) (Suc (i - (closest - to))) (dest + (closest - to))
               ((shift_phis (closest - to) i phis)[i - (closest - to) := val]) w')"
  by (intro impI, elim conjE, rule phi_step_implicit; assumption)

lemma phi_part_end:
  "\<not> i < nphi \<and> locals s = Some ls \<and> nphi \<le> length phis \<and> dest + nphi \<le> length ls \<longrightarrow>
      phi_loop R stmts s prev to nphi i dest phis w =
        (Inr (s\<lparr>locals := Some (take dest ls @ take nphi phis @ drop (dest + nphi) ls)\<rparr>), w)"
  by (intro impI, elim conjE, rule phi_loop_end; assumption)

lemma phi_part_shift:
  "0 < n \<and> i \<le> length phis \<longrightarrow>
      length (shift_phis n i phis) = length phis \<and>
      (\<forall>j. j + n < i \<longrightarrow> shift_phis n i phis ! j = phis ! (j + n))"
  using shift_phis_props [of n i phis] by blast

lemma phi_part_first:
  "(first_explicit prev edges 0 = -1) = (\<forall>e\<in>set edges. size_t_of e \<noteq> prev + 1) \<and>
   (first_explicit prev edges 0 \<noteq> -1 \<longrightarrow>
      (\<exists>k<length edges. first_explicit prev edges 0 = int k \<and> size_t_of (edges ! k) = prev + 1 \<and>
         (\<forall>j<k. size_t_of (edges ! j) \<noteq> prev + 1)))"
  using first_explicit_none [of prev edges 0] first_explicit_some [of prev edges 0] by auto

lemma phi_part_values:
  "phi_run stmts ns start 0 = Inr (next_ip, len) \<and> src s = Some c \<and> locals s = Some ls \<and>
   no_implicit_edges stmts (ip s) start len \<and> locals_index c (int start) + len \<le> length ls \<longrightarrow>
      eval_phi R stmts s ns start w =
        (case explicit_values R s (ip s) (take len (drop start stmts)) w of
           (Inl f, w') \<Rightarrow> (Inl f, w')
         | (Inr vs, w') \<Rightarrow>
            (Inr (next_ip, s\<lparr>locals := Some (take (locals_index c (int start)) ls @ vs @
                                             drop (locals_index c (int start) + len) ls)\<rparr>), w'))"
  by (intro impI, elim conjE, rule eval_phi_no_implicit; assumption)

lemma phi_part_return:
  "eval_phi R stmts s ns start w = (Inr (new_ip, new_s), new_w) \<longrightarrow>
      start \<le> new_ip \<and> (\<forall>k. start \<le> k \<and> k < new_ip \<longrightarrow> k < ns \<and> jl_is_phinode (stmts ! k)) \<and>
      (new_ip < ns \<longrightarrow> \<not> jl_is_phinode (stmts ! new_ip))"
  by (rule impI) (rule eval_phi_returns)

lemma phi_part_value:
  "phi_value R s vals (-1) w = (Inr None, w) \<and>
   (j < length vals \<longrightarrow>
      phi_value R s vals (int j) w =
        (case vals ! j of None \<Rightarrow> (Inr None, w) | Some val \<Rightarrow> eval_value R s val w))"
  by (simp add: phi_value_def array_ref_def split: option.splits)

text \<open>
  C1, as amended. The resolver counts the run of phi nodes from the block
  start and returns the index of the first statement past it; an empty run
  changes nothing. It goes through the phi nodes of the run keeping a block
  start \<open>to\<close> and a predecessor \<open>prev\<close>, at first the given block start and the
  statement last executed, and a list \<open>phis\<close> of the values not yet stored. An
  edge of the phi node at offset \<open>i\<close> is implicit when its entry is not
  \<open>prev + 1\<close> and lies strictly between \<open>to\<close> and the phi node's position.
  When the phi node has no implicit edge, its value is that of the first edge
  whose entry is \<open>prev + 1\<close>, or none, and the resolver goes on to the next phi
  node. When it has one, the edge taken is the first with the largest implicit
  entry, \<open>closest\<close>, whether or not an explicit edge exists: the values of the
  phi nodes before \<open>closest\<close> are written to their cells, the edge's value is
  evaluated in the record so written, and the resolver goes on with the block
  start \<open>closest\<close>, the predecessor \<open>closest - 1\<close>, and the values not yet
  stored moved to the front. After the last phi node the values not yet
  stored are written to the cells from the block start on. When no phi node
  of the run has an implicit edge, the cells of the run receive the values of
  the first \<open>prev + 1\<close> edges, all evaluated before any is stored.
\<close>

theorem phi_resolution:
  "(phi_run stmts ns start 0 = Inr (next_ip, len) \<longrightarrow>
      next_ip = start + len \<and> (\<forall>k<len. jl_is_phinode (stmts ! (start + k))) \<and>
      (next_ip < ns \<longrightarrow> \<not> jl_is_phinode (stmts ! next_ip)) \<and>
      (len = 0 \<longrightarrow> eval_phi R stmts s ns start w = (Inr (start, s), w)) \<and>
      (len \<noteq> 0 \<and> src s = Some c \<longrightarrow>
         eval_phi R stmts s ns start w =
           (case phi_loop R stmts s (ip s) start len 0 (locals_index c (int start)) (replicate len None) w of
              (Inl f, w') \<Rightarrow> (Inl f, w')
            | (Inr s', w') \<Rightarrow> (Inr (start + len, s'), w')))) \<and>
   (i < nphi \<and> to + i < length stmts \<and> stmts ! (to + i) = PhiNode edges vals \<and>
    (\<forall>e\<in>set edges. \<not> implicit_edge prev to (to + i + 1) e) \<longrightarrow>
      phi_loop R stmts s prev to nphi i dest phis w =
        (case phi_value R s vals (first_explicit prev edges 0) w of
           (Inl f, w') \<Rightarrow> (Inl f, w')
         | (Inr val, w') \<Rightarrow> phi_loop R stmts s prev to nphi (Suc i) dest (phis[i := val]) w')) \<and>
   (i < nphi \<and> to + i < length stmts \<and> stmts ! (to + i) = PhiNode edges vals \<and>
    k < length edges \<and> implicit_edge prev to (to + i + 1) (edges ! k) \<and>
    (\<forall>e\<in>set edges. implicit_edge prev to (to + i + 1) e \<longrightarrow> size_t_of e \<le> size_t_of (edges ! k)) \<and>
    (\<forall>j<k. size_t_of (edges ! j) \<noteq> size_t_of (edges ! k)) \<and>
    closest = size_t_of (edges ! k) \<and>
    locals s = Some ls \<and> dest + (closest - to) \<le> length ls \<and> closest - to \<le> length phis \<longrightarrow>
      phi_loop R stmts s prev to nphi i dest phis w =
        (case phi_value R (s\<lparr>locals := Some (take dest ls @ take (closest - to) phis @ drop (dest + (closest - to)) ls)\<rparr>)
                vals (int k) w of
           (Inl f, w') \<Rightarrow> (Inl f, w')
         | (Inr val, w') \<Rightarrow>
             phi_loop R stmts (s\<lparr>locals := Some (take dest ls @ take (closest - to) phis @ drop (dest + (closest - to)) ls)\<rparr>)
               (closest - 1) closest (nphi - (closest - to)) (Suc (i - (closest - to))) (dest + (closest - to))
               ((shift_phis (closest - to) i phis)[i - (closest - to) := val]) w')) \<and>
   (\<not> i < nphi \<and> locals s = Some ls \<and> nphi \<le> length phis \<and> dest + nphi \<le> length ls \<longrightarrow>
      phi_loop R stmts s prev to nphi i dest phis w =
        (Inr (s\<lparr>locals := Some (take dest ls @ take nphi phis @ drop (dest + nphi) ls)\<rparr>), w)) \<and>
   (0 < n \<and> i \<le> length phis \<longrightarrow>
      length (shift_phis n i phis) = length phis \<and>
      (\<forall>j. j + n < i \<longrightarrow> shift_phis n i phis ! j = phis ! (j + n))) \<and>
   ((first_explicit prev edges 0 = -1) = (\<forall>e\<in>set edges. size_t_of e \<noteq> prev + 1) \<and>
    (first_explicit prev edges 0 \<noteq> -1 \<longrightarrow>
       (\<exists>k<length edges. first_explicit prev edges 0 = int k \<and> size_t_of (edges ! k) = prev + 1 \<and>
          (\<forall>j<k. size_t_of (edges ! j) \<noteq> prev + 1)))) \<and>
   (phi_run stmts ns start 0 = Inr (next_ip, len) \<and> src s = Some c \<and> locals s = Some ls \<and>
    no_implicit_edges stmts (ip s) start len \<and> locals_index c (int start) + len \<le> length ls \<longrightarrow>
      eval_phi R stmts s ns start w =
        (case explicit_values R s (ip s) (take len (drop start stmts)) w of
           (Inl f, w') \<Rightarrow> (Inl f, w')
         | (Inr vs, w') \<Rightarrow>
            (Inr (next_ip, s\<lparr>locals := Some (take (locals_index c (int start)) ls @ vs @
                                             drop (locals_index c (int start) + len) ls)\<rparr>), w'))) \<and>
   (eval_phi R stmts s ns start w = (Inr (new_ip, new_s), new_w) \<longrightarrow>
      start \<le> new_ip \<and> (\<forall>k. start \<le> k \<and> k < new_ip \<longrightarrow> k < ns \<and> jl_is_phinode (stmts ! k)) \<and>
      (new_ip < ns \<longrightarrow> \<not> jl_is_phinode (stmts ! new_ip))) \<and>
   (phi_value R s vals (-1) w = (Inr None, w) \<and>
    (j < length vals \<longrightarrow>
       phi_value R s vals (int j) w =
         (case vals ! j of None \<Rightarrow> (Inr None, w) | Some val \<Rightarrow> eval_value R s val w)))"
  by (rule conjI, rule phi_part_entry, rule conjI, rule phi_part_explicit, rule conjI,
      rule phi_part_implicit, rule conjI, rule phi_part_end, rule conjI, rule phi_part_shift,
      rule conjI, rule phi_part_first, rule conjI, rule phi_part_values, rule conjI,
      rule phi_part_return, rule phi_part_value)

theorem phi_resolution_witness:
  "phi_loop example_runtime telescoping_code phi_state 0 1 3 0 3 [None, None, None] 0 =
     phi_loop example_runtime telescoping_code phi_state 0 1 3 1 3 [Some (Bits jl_int64_type 10), None, None] 0 \<and>
   phi_loop example_runtime telescoping_code phi_state 0 1 3 1 3 [Some (Bits jl_int64_type 10), None, None] 0 =
     phi_loop example_runtime telescoping_code
       (phi_state\<lparr>locals := Some [None, None, None, Some (Bits jl_int64_type 10), None, None, None]\<rparr>)
       1 2 2 1 4 [Some (Bits jl_int64_type 21), None, None] 0 \<and>
   phi_loop example_runtime telescoping_code
       (phi_state\<lparr>locals := Some [None, None, None, Some (Bits jl_int64_type 10), None, None, None]\<rparr>)
       1 2 2 1 4 [Some (Bits jl_int64_type 21), None, None] 0 =
     phi_loop example_runtime telescoping_code
       (phi_state\<lparr>locals := Some [None, None, None, Some (Bits jl_int64_type 10), None, None, None]\<rparr>)
       1 2 2 2 4 [Some (Bits jl_int64_type 21), None, None] 0 \<and>
   phi_loop example_runtime telescoping_code
       (phi_state\<lparr>locals := Some [None, None, None, Some (Bits jl_int64_type 10), None, None, None]\<rparr>)
       1 2 2 2 4 [Some (Bits jl_int64_type 21), None, None] 0 =
     (Inr (phi_state\<lparr>locals := Some [None, None, None, Some (Bits jl_int64_type 10),
                                       Some (Bits jl_int64_type 21), None, None]\<rparr>), 0) \<and>
   eval_phi example_runtime telescoping_code phi_state 5 1 0 =
     (Inr (4, phi_state\<lparr>locals := Some [None, None, None, Some (Bits jl_int64_type 10),
                                          Some (Bits jl_int64_type 21), None, None]\<rparr>), 0) \<and>
   eval_phi example_runtime merge_code phi_state 4 2 0 =
     (Inr (3, phi_state\<lparr>locals := Some [None, None, None, None, Some (Bits jl_int64_type 10), None, None]\<rparr>), 0) \<and>
   \<not> jl_is_phinode (merge_code ! 3) \<and>
   shift_phis 1 2 [Some (Bits jl_int64_type 10), Some (Bits jl_int64_type 20), None] ! 0 = Some (Bits jl_int64_type 20) \<and>
   first_explicit 0 [1, 2] 0 = 0 \<and>
   phi_value example_runtime phi_state [None, Some (QuoteNode (Bits jl_int64_type 21))] 1 0 =
     (Inr (Some (Bits jl_int64_type 21)), 0)"
proof -
  let ?c = "\<lparr> code = [], slots = [(''x'', 0), (''y'', 0)], ssavaluetypes = SSA_count 5 \<rparr>"
  let ?ls = "[None, None, None, None, None, None, None] :: jl_value option list"
  let ?s1 = "phi_state\<lparr>locals := Some [None, None, None, Some (Bits jl_int64_type 10), None, None, None]\<rparr>"
  let ?s2 = "phi_state\<lparr>locals := Some [None, None, None, Some (Bits jl_int64_type 10),
                                       Some (Bits jl_int64_type 21), None, None]\<rparr>"
  have idx: "locals_index ?c (int 1) = 3" "locals_index ?c (int 2) = 4"
    by (simp_all add: locals_index_def jl_source_nslots_def c_int_def)
  have idx_lit: "locals_index ?c 2 = 4"
    by (simp add: locals_index_def jl_source_nslots_def c_int_def)
  have run: "phi_run telescoping_code 5 1 0 = Inr (4, 3)"
    by (simp add: telescoping_code_def array_ref_def jl_is_phinode_def)
  have run_merge: "phi_run merge_code 4 2 0 = Inr (3, 1)"
    by (simp add: merge_code_def array_ref_def jl_is_phinode_def)
  have src: "src phi_state = Some ?c" and loc: "locals phi_state = Some ?ls" and ip: "ip phi_state = 0"
    by (simp_all add: phi_state_def)
  have step_a: "phi_loop example_runtime telescoping_code phi_state 0 1 3 0 3 [None, None, None] 0 =
     phi_loop example_runtime telescoping_code phi_state 0 1 3 1 3 [Some (Bits jl_int64_type 10), None, None] 0"
  proof -
    have hyp: "(0::nat) < 3 \<and> 1 + 0 < length telescoping_code \<and>
        telescoping_code ! (1 + 0) = PhiNode [1] [Some (QuoteNode (Bits jl_int64_type 10))] \<and>
        (\<forall>e\<in>set [1]. \<not> implicit_edge 0 1 (1 + 0 + 1) e)"
      by (simp add: telescoping_code_def implicit_edge_def size_t_of_def)
    from phi_resolution [where i = 0 and nphi = 3 and to = 1 and stmts = telescoping_code and edges = "[1]"
        and vals = "[Some (QuoteNode (Bits jl_int64_type 10))]" and prev = 0 and R = example_runtime
        and s = phi_state and dest = 3 and phis = "[None, None, None]" and w = 0,
        THEN conjunct2, THEN conjunct1, rule_format, OF hyp]
    show ?thesis
      by (simp add: phi_value_def array_ref_def size_t_of_def del: phi_loop.simps)
  qed
  have step_b: "phi_loop example_runtime telescoping_code phi_state 0 1 3 1 3 [Some (Bits jl_int64_type 10), None, None] 0 =
     phi_loop example_runtime telescoping_code ?s1 1 2 2 1 4 [Some (Bits jl_int64_type 21), None, None] 0"
  proof -
    have hyp: "(1::nat) < 3 \<and> 1 + 1 < length telescoping_code \<and>
        telescoping_code ! (1 + 1) =
          PhiNode [1, 2] [Some (QuoteNode (Bits jl_int64_type 20)), Some (QuoteNode (Bits jl_int64_type 21))] \<and>
        (1::nat) < length [1, 2 :: int] \<and> implicit_edge 0 1 (1 + 1 + 1) ([1, 2] ! 1) \<and>
        (\<forall>e\<in>set [1, 2]. implicit_edge 0 1 (1 + 1 + 1) e \<longrightarrow> size_t_of e \<le> size_t_of ([1, 2] ! 1)) \<and>
        (\<forall>j<1. size_t_of ([1, 2] ! j) \<noteq> size_t_of ([1, 2] ! 1)) \<and>
        2 = size_t_of ([1, 2] ! 1) \<and>
        locals phi_state = Some ?ls \<and> 3 + (2 - 1) \<le> length ?ls \<and>
        2 - 1 \<le> length [Some (Bits jl_int64_type 10), None, None]"
      by (simp add: telescoping_code_def implicit_edge_def size_t_of_def phi_state_def)
    from phi_resolution [where i = 1 and nphi = 3 and to = 1 and stmts = telescoping_code and edges = "[1, 2]"
        and vals = "[Some (QuoteNode (Bits jl_int64_type 20)), Some (QuoteNode (Bits jl_int64_type 21))]"
        and prev = 0 and R = example_runtime and k = 1 and closest = 2 and ls = ?ls
        and s = phi_state and dest = 3 and phis = "[Some (Bits jl_int64_type 10), None, None]" and w = 0,
        THEN conjunct2, THEN conjunct2, THEN conjunct1, rule_format, OF hyp]
    show ?thesis
      by (simp add: phi_value_def array_ref_def shift_phis_def del: phi_loop.simps)
  qed
  have step_c: "phi_loop example_runtime telescoping_code ?s1 1 2 2 1 4 [Some (Bits jl_int64_type 21), None, None] 0 =
     phi_loop example_runtime telescoping_code ?s1 1 2 2 2 4 [Some (Bits jl_int64_type 21), None, None] 0"
  proof -
    have hyp: "(1::nat) < 2 \<and> 2 + 1 < length telescoping_code \<and>
        telescoping_code ! (2 + 1) = PhiNode [1] [Some (QuoteNode (Bits jl_int64_type 30))] \<and>
        (\<forall>e\<in>set [1]. \<not> implicit_edge 1 2 (2 + 1 + 1) e)"
      by (simp add: telescoping_code_def implicit_edge_def size_t_of_def)
    from phi_resolution [where i = 1 and nphi = 2 and to = 2 and stmts = telescoping_code and edges = "[1]"
        and vals = "[Some (QuoteNode (Bits jl_int64_type 30))]" and prev = 1 and R = example_runtime
        and s = ?s1 and dest = 4 and phis = "[Some (Bits jl_int64_type 21), None, None]" and w = 0,
        THEN conjunct2, THEN conjunct1, rule_format, OF hyp]
    show ?thesis
      by (simp add: phi_value_def array_ref_def size_t_of_def eval_nat_numeral del: phi_loop.simps)
  qed
  have step_d: "phi_loop example_runtime telescoping_code ?s1 1 2 2 2 4 [Some (Bits jl_int64_type 21), None, None] 0 =
     (Inr ?s2, 0)"
  proof -
    have hyp: "\<not> (2::nat) < 2 \<and>
        locals ?s1 = Some [None, None, None, Some (Bits jl_int64_type 10), None, None, None] \<and>
        2 \<le> length [Some (Bits jl_int64_type 21), None, None] \<and>
        4 + 2 \<le> length [None, None, None, Some (Bits jl_int64_type 10), None, None, None :: jl_value option]"
      by simp
    from phi_resolution [where i = 2 and nphi = 2 and s = ?s1
        and ls = "[None, None, None, Some (Bits jl_int64_type 10), None, None, None]"
        and phis = "[Some (Bits jl_int64_type 21), None, None]" and dest = 4 and R = example_runtime
        and stmts = telescoping_code and prev = 1 and to = 2 and w = 0,
        THEN conjunct2, THEN conjunct2, THEN conjunct2, THEN conjunct1, rule_format, OF hyp]
    show ?thesis
      by (simp del: phi_loop.simps)
  qed
  have whole: "eval_phi example_runtime telescoping_code phi_state 5 1 0 = (Inr (4, ?s2), 0)"
  proof -
    have hyp: "(3::nat) \<noteq> 0 \<and> src phi_state = Some ?c"
      by (simp add: src)
    have chain: "phi_loop example_runtime telescoping_code phi_state 0 1 3 0 3 [None, None, None] 0 = (Inr ?s2, 0)"
      using step_a step_b step_c step_d by (simp only:)
    have rep: "replicate 3 None = [None, None, None :: jl_value option]"
      by (simp add: numeral_3_eq_3)
    note phi_resolution [where stmts = telescoping_code and ns = 5 and start = 1 and next_ip = 4 and len = 3
        and R = example_runtime and s = phi_state and w = 0 and c = ?c,
        THEN conjunct1, rule_format, OF run, THEN conjunct2, THEN conjunct2, THEN conjunct2, THEN conjunct2,
        rule_format, OF hyp]
    then show ?thesis
      unfolding ip idx rep chain by simp
  qed
  have merge: "eval_phi example_runtime merge_code phi_state 4 2 0 =
     (Inr (3, phi_state\<lparr>locals := Some [None, None, None, None, Some (Bits jl_int64_type 10), None, None]\<rparr>), 0)"
  proof -
    have hyp: "phi_run merge_code 4 2 0 = Inr (3, 1) \<and> src phi_state = Some ?c \<and> locals phi_state = Some ?ls \<and>
        no_implicit_edges merge_code (ip phi_state) 2 1 \<and> locals_index ?c (int 2) + 1 \<le> length ?ls"
      using run_merge src loc idx
      by (simp add: no_implicit_edges_def merge_code_def implicit_edge_def size_t_of_def ip
          del: phi_run.simps)
    from phi_resolution [where stmts = merge_code and ns = 4 and start = 2 and next_ip = 3 and len = 1
        and R = example_runtime and s = phi_state and w = 0 and c = ?c and ls = ?ls,
        THEN conjunct2, THEN conjunct2, THEN conjunct2, THEN conjunct2, THEN conjunct2, THEN conjunct2,
        THEN conjunct1, rule_format, OF hyp]
    show ?thesis
      by (simp add: idx_lit ip merge_code_def phi_value_def array_ref_def size_t_of_def)
  qed
  have past: "\<not> jl_is_phinode (merge_code ! 3)"
    using phi_resolution [where stmts = merge_code and ns = 4 and start = 2 and R = example_runtime
        and s = phi_state and w = 0 and new_ip = 3 and new_w = 0
        and new_s = "phi_state\<lparr>locals := Some [None, None, None, None, Some (Bits jl_int64_type 10), None, None]\<rparr>",
        THEN conjunct2, THEN conjunct2, THEN conjunct2, THEN conjunct2, THEN conjunct2, THEN conjunct2,
        THEN conjunct2, THEN conjunct1, rule_format, OF merge]
    by simp
  have chosen: "phi_value example_runtime phi_state [None, Some (QuoteNode (Bits jl_int64_type 21))] 1 0 =
      (Inr (Some (Bits jl_int64_type 21)), 0)"
    using phi_resolution [where R = example_runtime and s = phi_state and w = 0 and j = 1
        and vals = "[None, Some (QuoteNode (Bits jl_int64_type 21))]",
        THEN conjunct2, THEN conjunct2, THEN conjunct2, THEN conjunct2, THEN conjunct2, THEN conjunct2,
        THEN conjunct2, THEN conjunct2, THEN conjunct2]
    by simp
  have shift: "shift_phis 1 2 [Some (Bits jl_int64_type 10), Some (Bits jl_int64_type 20), None] ! 0 =
      Some (Bits jl_int64_type 20)"
  proof -
    have hyp: "(0::nat) < 1 \<and> 2 \<le> length [Some (Bits jl_int64_type 10), Some (Bits jl_int64_type 20), None]"
      by simp
    from phi_resolution [where n = 1 and i = 2
        and phis = "[Some (Bits jl_int64_type 10), Some (Bits jl_int64_type 20), None]",
        THEN conjunct2, THEN conjunct2, THEN conjunct2, THEN conjunct2, THEN conjunct1, rule_format, OF hyp,
        THEN conjunct2, rule_format, of 0]
    show ?thesis by simp
  qed
  have first: "first_explicit 0 [1, 2] 0 = 0"
  proof -
    from phi_resolution [where prev = 0 and edges = "[1, 2]",
        THEN conjunct2, THEN conjunct2, THEN conjunct2, THEN conjunct2, THEN conjunct2, THEN conjunct1,
        THEN conjunct2]
    show ?thesis by (simp add: size_t_of_def)
  qed
  show ?thesis
    by (intro conjI step_a step_b step_c step_d whole merge past shift first chosen)
qed

text \<open>
  C1 as stated fails once the block start has moved: the third phi node has an
  edge from the statement last executed and no implicit edge, and its cell
  (index 5 of the storage array) receives no value.
\<close>

theorem phi_rebased_predecessor:
  "eval_phi example_runtime telescoping_code phi_state 5 1 0 =
     (Inr (4, phi_state\<lparr>locals := Some [None, None, None, Some (Bits jl_int64_type 10),
                                          Some (Bits jl_int64_type 21), None, None]\<rparr>), 0) \<and>
   telescoping_code ! 3 = PhiNode [1] [Some (QuoteNode (Bits jl_int64_type 30))] \<and>
   size_t_of 1 = ip phi_state + 1 \<and>
   \<not> implicit_edge (ip phi_state) 1 (3 + 1) 1"
  by code_simp

subsection \<open>Foreign-call bridge\<close>

lemma eval_value_foreigncall:
  "eval_value R s (Expr jl_foreigncall_sym args) w =
     bindr (eval_args R s args w) (\<lambda>argv w'. eval_foreigncall R s argv w')"
  by (simp add: eval_value_Expr jl_sym_defs)

lemma foreigncall_variadic:
  assumes "3 < length argv" and "jl_unbox_long (argv ! 3) = Inr nreq" and "nreq \<noteq> 0"
  shows "eval_foreigncall R s argv w = (Inl UnsupportedCallingConvention, w)"
  using assms
  by (simp add: eval_foreigncall_def array_ref_def UnsupportedCallingConvention_def jl_error_def)

lemma call_target_null:
  assumes "jl_is_cpointer_type t \<or> t = jl_uint64_type \<or> t = jl_int64_type"
  shows "call_target (Some (Bits t 0)) = Inl NullFunctionPointer"
  using assms by (simp add: call_target_def NullFunctionPointer_def jl_error_def)

lemma foreigncall_null:
  assumes "3 < length argv" and "jl_unbox_long (argv ! 3) = Inr 0"
    and "argv ! 0 = Some (Bits t 0)"
    and "jl_is_cpointer_type t \<or> t = jl_uint64_type \<or> t = jl_int64_type"
  shows "eval_foreigncall R s argv w = (Inl NullFunctionPointer, w)"
  using assms(1-3) call_target_null [OF assms(4)]
  by (simp add: eval_foreigncall_def array_ref_def)

lemma call_target_symbol: "call_target (Some (Symbol name)) = Inr (Some name, None, 0)"
  by (simp add: call_target_def)

lemma call_target_string: "call_target (Some (String_val name)) = Inr (Some name, None, 0)"
  by (simp add: call_target_def)

lemma call_target_pair:
  "call_target (Some (Tuple [Symbol name, Symbol lib])) = Inr (Some name, Some lib, 0)"
  by (simp add: call_target_def jl_is_cpointer_type_def jl_type_defs)

lemma instantiate_signature_argv:
  assumes "instantiate_signature R s argv at0 w = (Inr (rt, at, argv1), w1)"
  shows "length argv1 = length argv \<and> argv1 ! 4 = argv ! 4"
  using assms
  by (auto simp: instantiate_signature_def bindr_def split: if_splits prod.splits sum.splits)

lemma instantiate_signature_plain:
  "\<not> unionall s \<Longrightarrow> instantiate_signature R s argv at0 w = (Inr (argv ! 1, at0, argv), w)"
  by (simp add: instantiate_signature_def)

lemma foreigncall_named:
  assumes len: "4 < length argv" and nreq: "jl_unbox_long (argv ! 3) = Inr 0"
    and target: "call_target (argv ! 0) = Inr (Some fname, flib, 0)"
    and svec: "argv ! 2 = Some (SimpleVector at0)"
    and inst: "instantiate_signature R s argv at0 w = (Inr (rt, at, argv1), w1)"
    and cc: "argv ! 4 = Some (Symbol cc_sym)"
    and conv: "convert_inputs R at 0 argv1 w1 = (Inr argv2, w2)"
  shows "eval_foreigncall R s argv w =
    (if fname \<in> set intrinsic_names then host R (Intrinsic fname argv2) w2
     else bindr (resolve_symbol R fname flib w2)
       (\<lambda>fptr w3. bindr (push_inputs R at 0 argv2 [] w3)
          (\<lambda>vm w4. case rt of None \<Rightarrow> (Inl (Undefined ''read through NULL''), w4)
                    | Some rtv \<Rightarrow> decode_return R rtv fptr vm w4)))"
proof -
  from instantiate_signature_argv [OF inst] len cc
  have a4: "4 < length argv1" "argv1 ! 4 = Some (Symbol cc_sym)"
    by simp_all
  have inv: "foreigncall_invoke R rt at argv1 (Some fname) flib 0 w1 =
    (if fname \<in> set intrinsic_names then host R (Intrinsic fname argv2) w2
     else bindr (resolve_symbol R fname flib w2)
       (\<lambda>fptr w3. bindr (push_inputs R at 0 argv2 [] w3)
          (\<lambda>vm w4. case rt of None \<Rightarrow> (Inl (Undefined ''read through NULL''), w4)
                    | Some rtv \<Rightarrow> decode_return R rtv fptr vm w4)))"
    by (simp add: foreigncall_invoke_def conv bindr_def)
  show ?thesis
    using len nreq
    by (simp add: eval_foreigncall_def array_ref_def target svec inst bindr_def a4 inv)
qed

lemma resolve_symbol_order:
  assumes "(case flib of None \<Rightarrow> (Inr Jl_libjulia_internal_handle, w)
            | Some lib \<Rightarrow> jl_get_library R lib w) = (Inr h, w')"
  shows "resolve_symbol R fname flib w =
    (case find (\<lambda>p. p \<noteq> 0)
            [dlsym R w' h (CHR ''i'' # fname), dlsym R w' h fname,
             dlsym R w' Jl_RTLD_DEFAULT_handle fname] of
       None \<Rightarrow> (Inl (Throw (UnresolvedSymbol fname)), w')
     | Some p \<Rightarrow> (Inr p, w'))"
  using assms by (simp add: resolve_symbol_def jl_dlsym_def bindr_def Let_def)

lemma foreigncall_part_null:
  "eval_args R s args w = (Inr argv, wa) \<Longrightarrow> 4 < length argv \<Longrightarrow>
   jl_unbox_long (argv ! 3) = Inr 0 \<Longrightarrow>
   argv ! 0 = Some (Bits t 0) \<and> (jl_is_cpointer_type t \<or> t = jl_uint64_type \<or> t = jl_int64_type) \<longrightarrow>
     eval_value R s (Expr jl_foreigncall_sym args) w = (Inl NullFunctionPointer, wa)"
  using foreigncall_null [of argv t R s wa]
  by (auto simp: eval_value_foreigncall bindr_def)

lemma foreigncall_part_named:
  "eval_args R s args w = (Inr argv, wa) \<Longrightarrow> 4 < length argv \<Longrightarrow>
   jl_unbox_long (argv ! 3) = Inr 0 \<Longrightarrow>
   call_target (argv ! 0) = Inr (Some fname, flib, 0) \<and> fname \<notin> set intrinsic_names \<and>
   argv ! 2 = Some (SimpleVector ats) \<and>
   instantiate_signature R s argv ats wa = (Inr (rt, at, argvi), wi) \<and>
   argv ! 4 = Some (Symbol cc_sym) \<and> convert_inputs R at 0 argvi wi = (Inr argvc, wc) \<longrightarrow>
     eval_value R s (Expr jl_foreigncall_sym args) w =
       bindr (resolve_symbol R fname flib wc)
         (\<lambda>fptr wl. bindr (push_inputs R at 0 argvc [] wl)
            (\<lambda>vm wv. case rt of None \<Rightarrow> (Inl (Undefined ''read through NULL''), wv)
                      | Some rtv \<Rightarrow> decode_return R rtv fptr vm wv))"
  using foreigncall_named [of argv fname flib ats R s wa rt at argvi wi cc_sym argvc wc]
  by (simp add: eval_value_foreigncall bindr_def)

lemma foreigncall_part_order:
  "(case flib of None \<Rightarrow> (Inr Jl_libjulia_internal_handle, wc)
    | Some lib \<Rightarrow> jl_get_library R lib wc) = (Inr h, wl) \<longrightarrow>
   resolve_symbol R fname flib wc =
    (case find (\<lambda>p. p \<noteq> 0)
            [dlsym R wl h (CHR ''i'' # fname), dlsym R wl h fname,
             dlsym R wl Jl_RTLD_DEFAULT_handle fname] of
       None \<Rightarrow> (Inl (Throw (UnresolvedSymbol fname)), wl)
     | Some p \<Rightarrow> (Inr p, wl))"
  by (rule impI, erule resolve_symbol_order)

text \<open>
  C3, as amended. Take a foreign call that is not variadic and whose operands
  evaluate. When its target is a literal address (a \<open>Ptr\<close>, \<open>UInt64\<close> or
  \<open>Int64\<close> value) that is zero, the call raises the null-pointer error. When its
  target names a function (a symbol or a string, or a pair of a function name
  and a library name) that is none of the intrinsic names, and the types
  instantiate and the arguments convert without raising, the address called is
  the one resolution gives. Resolution looks up, in the library named (the
  runtime's internal library when none is), the name prefixed with \<open>i\<close>, then
  the name itself, then the name in the default handle; it gives the first
  address found, and raises the unresolved-symbol error exactly when all three
  lookups find nothing.
\<close>

theorem foreigncall_target:
  assumes "eval_args R s args w = (Inr argv, wa)"
    and "4 < length argv"
    and "jl_unbox_long (argv ! 3) = Inr 0"
  shows
    "(argv ! 0 = Some (Bits t 0) \<and> (jl_is_cpointer_type t \<or> t = jl_uint64_type \<or> t = jl_int64_type) \<longrightarrow>
        eval_value R s (Expr jl_foreigncall_sym args) w = (Inl NullFunctionPointer, wa)) \<and>
     (call_target (argv ! 0) = Inr (Some fname, flib, 0) \<and> fname \<notin> set intrinsic_names \<and>
      argv ! 2 = Some (SimpleVector ats) \<and>
      instantiate_signature R s argv ats wa = (Inr (rt, at, argvi), wi) \<and>
      argv ! 4 = Some (Symbol cc_sym) \<and> convert_inputs R at 0 argvi wi = (Inr argvc, wc) \<longrightarrow>
        eval_value R s (Expr jl_foreigncall_sym args) w =
          bindr (resolve_symbol R fname flib wc)
            (\<lambda>fptr wl. bindr (push_inputs R at 0 argvc [] wl)
               (\<lambda>vm wv. case rt of None \<Rightarrow> (Inl (Undefined ''read through NULL''), wv)
                         | Some rtv \<Rightarrow> decode_return R rtv fptr vm wv))) \<and>
     ((case flib of None \<Rightarrow> (Inr Jl_libjulia_internal_handle, wc)
       | Some lib \<Rightarrow> jl_get_library R lib wc) = (Inr h, wl) \<longrightarrow>
        resolve_symbol R fname flib wc =
          (case find (\<lambda>p. p \<noteq> 0)
                  [dlsym R wl h (CHR ''i'' # fname), dlsym R wl h fname,
                   dlsym R wl Jl_RTLD_DEFAULT_handle fname] of
             None \<Rightarrow> (Inl (Throw (UnresolvedSymbol fname)), wl)
           | Some p \<Rightarrow> (Inr p, wl)))"
  by (rule conjI, rule foreigncall_part_null [OF assms], rule conjI,
      rule foreigncall_part_named [OF assms], rule foreigncall_part_order)

theorem foreigncall_target_witness:
  "eval_value example_runtime example_state
      (example_ccall (Bits (Ptr_type Any_type) 0) jl_nothing_type [] 0 []) 0 =
     (Inl NullFunctionPointer, 0) \<and>
   eval_value example_runtime example_state
      (example_ccall (QuoteNode (Symbol ''jl_getpid'')) jl_int32_type [] 0 []) 0 =
     (Inr (Some (Bits jl_int32_type 77)), 0) \<and>
   resolve_symbol example_runtime ''jl_getpid'' None 0 = (Inr 4096, 0) \<and>
   resolve_symbol example_runtime ''identity'' (Some ''libid'') 0 = (Inr 12288, 0) \<and>
   resolve_symbol example_runtime ''identity'' None 0 = (Inr 8192, 0) \<and>
   resolve_symbol example_runtime ''nowhere'' None 0 = (Inl (Throw (UnresolvedSymbol ''nowhere'')), 0)"
proof -
  let ?null = "[Bits (Ptr_type Any_type) 0, Type_val jl_nothing_type, SimpleVector [],
                Bits jl_int64_type 0, QuoteNode (Symbol ''ccall'')]"
  let ?getpid = "[QuoteNode (Symbol ''jl_getpid''), Type_val jl_int32_type, SimpleVector [],
                  Bits jl_int64_type 0, QuoteNode (Symbol ''ccall'')]"
  let ?argv = "[Some (Symbol ''jl_getpid''), Some (Type_val jl_int32_type), Some (SimpleVector []),
                Some (Bits jl_int64_type 0), Some (Symbol ''ccall'')]"
  have unbox: "jl_unbox_long (Some (Bits jl_int64_type 0)) = Inr 0"
    by (simp add: jl_unbox_long_def jl_unbox_def jl_is_primitivetype_def jl_datatype_size_def jl_type_defs)
  have args_null: "eval_args example_runtime example_state ?null 0 =
      (Inr [Some (Bits (Ptr_type Any_type) 0), Some (Type_val jl_nothing_type), Some (SimpleVector []),
            Some (Bits jl_int64_type 0), Some (Symbol ''ccall'')], 0)"
    by simp
  have args_getpid: "eval_args example_runtime example_state ?getpid 0 = (Inr ?argv, 0)"
    by simp
  have null: "eval_value example_runtime example_state (Expr jl_foreigncall_sym ?null) 0 =
      (Inl NullFunctionPointer, 0)"
    using foreigncall_target [where t = "Ptr_type Any_type", OF args_null, THEN conjunct1] unbox
    by (simp add: jl_is_cpointer_type_def)
  have internal: "resolve_symbol example_runtime ''jl_getpid'' None 0 = (Inr 4096, 0)"
    using foreigncall_target [where flib = None and wc = 0 and fname = "''jl_getpid''"
        and h = Jl_libjulia_internal_handle and wl = 0,
        OF args_null, THEN conjunct2, THEN conjunct2] unbox
    by (simp add: example_runtime_def)
  have library: "resolve_symbol example_runtime ''identity'' (Some ''libid'') 0 = (Inr 12288, 0)"
    using foreigncall_target [where flib = "Some ''libid''" and wc = 0 and fname = "''identity''"
        and h = "Library 0" and wl = 0 and R = example_runtime,
        OF args_null, THEN conjunct2, THEN conjunct2] unbox
    by (simp add: example_runtime_def)
  have fallback: "resolve_symbol example_runtime ''identity'' None 0 = (Inr 8192, 0)"
    using foreigncall_target [where flib = None and wc = 0 and fname = "''identity''"
        and h = Jl_libjulia_internal_handle and wl = 0,
        OF args_null, THEN conjunct2, THEN conjunct2] unbox
    by (simp add: example_runtime_def)
  have nowhere: "resolve_symbol example_runtime ''nowhere'' None 0 =
      (Inl (Throw (UnresolvedSymbol ''nowhere'')), 0)"
    using foreigncall_target [where flib = None and wc = 0 and fname = "''nowhere''"
        and h = Jl_libjulia_internal_handle and wl = 0,
        OF args_null, THEN conjunct2, THEN conjunct2] unbox
    by (simp add: example_runtime_def)
  have native: "native example_runtime 4096 [] 0 = (Inr \<lparr> int_reg = 77, float_reg = 0 \<rparr>, 0)"
    by (simp add: example_runtime_def)
  have getpid: "eval_value example_runtime example_state (Expr jl_foreigncall_sym ?getpid) 0 =
      (Inr (Some (Bits jl_int32_type 77)), 0)"
    using foreigncall_target [where fname = "''jl_getpid''" and flib = None and ats = "[]"
        and rt = "Some (Type_val jl_int32_type)" and at = "[]" and argvi = ?argv and wi = 0
        and cc_sym = "''ccall''" and argvc = ?argv and wc = 0,
        OF args_getpid, THEN conjunct2, THEN conjunct1] unbox
    by (simp add: call_target_def intrinsic_names_def instantiate_signature_def unionall_def
        example_state_def internal bindr_def decode_return_def jl_type_defs type_is_def
        jl_is_array_type_def native)
  show ?thesis
    unfolding example_ccall_def
    by (intro conjI) (simp_all add: null getpid internal library fallback nowhere)
qed

text \<open>
  C3 as stated fails: a variadic foreign call to the literal address zero is
  rejected for being variadic before its target is looked at.
\<close>

theorem variadic_null_pointer:
  "eval_value example_runtime example_state
      (example_ccall (Bits (Ptr_type Any_type) 0) jl_nothing_type [] 1 []) 0 =
     (Inl UnsupportedCallingConvention, 0) \<and>
   eval_value example_runtime example_state
      (example_ccall (Bits (Ptr_type Any_type) 0) jl_nothing_type [] 1 []) 0 \<noteq>
     (Inl NullFunctionPointer, 0)"
proof -
  have unbox: "jl_unbox_long (Some (Bits jl_int64_type 1)) = Inr 1"
    by (simp add: jl_unbox_long_def jl_unbox_def jl_is_primitivetype_def jl_datatype_size_def jl_type_defs)
  have "eval_foreigncall example_runtime example_state
      [Some (Bits (Ptr_type Any_type) 0), Some (Type_val jl_nothing_type), Some (SimpleVector []),
       Some (Bits jl_int64_type 1), Some (Symbol ''ccall'')] 0 = (Inl UnsupportedCallingConvention, 0)"
    using unbox
    by (intro foreigncall_variadic [where nreq = 1]) simp_all
  then show ?thesis
    by (simp add: example_ccall_def eval_value_foreigncall bindr_def
        UnsupportedCallingConvention_def NullFunctionPointer_def)
qed

lemma of_nat_mod_64: "(of_nat (n mod 2 ^ 64) :: 64 word) = of_nat n"
  by (simp add: word_of_nat_eq_iff take_bit_eq_mod)

text \<open>
  The conversion of a long to a double at some numbers: 1, -1, the bit pattern
  of 1.5 read as a number, and two numbers above \<open>2 ^ 53\<close>, which are rounded.
\<close>

lemma double_of_long_examples:
  "double_of_long 0 = 0"
  "double_of_long 1 = 0x3FF0000000000000"
  "double_of_long (-1) = 0xBFF0000000000000"
  "double_of_long 0x3FF8000000000000 = 0x43CFFC0000000000"
  "double_of_long 9007199254740993 = 0x4340000000000000"
  "double_of_long 9007199254740995 = 0x4340000000000002"
  by (simp_all add: double_of_long_def Let_def round_to_even_def)

lemma decode_float64:
  "decode_return R (Type_val jl_float64_type) fptr vm w =
     bindr (native R fptr vm w)
       (\<lambda>res w'. (Inr (Some (Bits jl_float64_type (unat (double_of_long (int_reg res))))), w'))"
  by (simp add: decode_return_def jl_type_defs type_is_def jl_is_array_type_def)

lemma marshal_float64:
  "setInputParameter R vm (Type_val jl_float64_type) (Some (Bits jl_float64_type n)) w =
     (Inr (vm @ [DCdouble (of_nat n)]), w)"
  using of_nat_mod_64 [of n]
  by (simp add: setInputParameter_def jl_type_defs jl_unbox_def jl_is_primitivetype_def
      jl_datatype_size_def)

lemma marshal_16:
  "setInputParameter R vm (Type_val (Primitive_type name 16)) (Some (Bits (Primitive_type name 16) n)) w =
     (Inr (vm @ [DClonglong (of_nat n)]), w)"
  by (simp add: setInputParameter_def setInputParameter_nonfloat_def jl_type_defs type_is_def
      jl_is_primitivetype_def jl_is_abstract_ref_type_def jl_is_cpointer_type_def
      size_of_type_def jl_datatype_size_def load_word_def)

lemma decode_16:
  "decode_return R (Type_val (Primitive_type name 16)) fptr vm w =
     bindr (native R fptr vm w)
       (\<lambda>res w'. (Inr (Some (Bits (Primitive_type name 16)
           (dead_local R w' 16 (unat (int_reg res)) mod 2 ^ 128))), w'))"
  by (simp add: decode_return_def jl_type_defs type_is_def jl_is_array_type_def
      jl_is_primitivetype_def jl_is_abstract_ref_type_def jl_is_cpointer_type_def
      jl_datatype_size_def jl_new_bits_def)

lemma identity_call:
  assumes "jl_is_primitivetype t"
  shows "eval_value example_runtime example_state
      (example_ccall (QuoteNode (Symbol ''identity'')) t [t] 0 [Bits t n]) 0 =
    bindr (setInputParameter example_runtime [] (Type_val t) (Some (Bits t n)) 0)
      (\<lambda>vm w. decode_return example_runtime (Type_val t) 8192 vm w)"
proof -
  let ?args = "[QuoteNode (Symbol ''identity''), Type_val t, SimpleVector [Type_val t],
                Bits jl_int64_type 0, QuoteNode (Symbol ''ccall''), Bits t n]"
  let ?argv = "[Some (Symbol ''identity''), Some (Type_val t), Some (SimpleVector [Type_val t]),
                Some (Bits jl_int64_type 0), Some (Symbol ''ccall''), Some (Bits t n)]"
  have args: "eval_args example_runtime example_state ?args 0 = (Inr ?argv, 0)"
    by simp
  have unbox: "jl_unbox_long (Some (Bits jl_int64_type 0)) = Inr 0"
    by (simp add: jl_unbox_long_def jl_unbox_def jl_is_primitivetype_def jl_datatype_size_def jl_type_defs)
  have resolve: "resolve_symbol example_runtime ''identity'' None 0 = (Inr 8192, 0)"
    by (simp add: resolve_symbol_def jl_dlsym_def example_runtime_def bindr_def)
  have "eval_foreigncall example_runtime example_state ?argv 0 =
      bindr (resolve_symbol example_runtime ''identity'' None 0)
        (\<lambda>fptr w3. bindr (push_inputs example_runtime [Type_val t] 0 ?argv [] w3)
           (\<lambda>vm w4. case Some (Type_val t) of None \<Rightarrow> (Inl (Undefined ''read through NULL''), w4)
                     | Some rtv \<Rightarrow> decode_return example_runtime rtv fptr vm w4))"
    using foreigncall_named [where argv = ?argv and fname = "''identity''" and flib = None
        and ?at0.0 = "[Type_val t]" and R = example_runtime and s = example_state and w = 0
        and rt = "Some (Type_val t)" and at = "[Type_val t]" and ?argv1.0 = ?argv and ?w1.0 = 0
        and cc_sym = "''ccall''" and ?argv2.0 = ?argv and ?w2.0 = 0] unbox
    by (simp add: call_target_def instantiate_signature_def unionall_def example_state_def
        array_ref_def jl_types_equal_def intrinsic_names_def)
  then show ?thesis
    by (simp add: example_ccall_def eval_value_foreigncall args resolve bindr_def array_ref_def
        split: prod.splits sum.splits)
qed

text \<open>
  Against the identity function, and where a local read after its block has
  ended still holds what was stored, the bridge hands a primitive of 1, 2, 4
  or 8 bytes back unchanged, a \<open>Bool\<close> being 0 or 1 and the float types aside.
\<close>

lemma ucast_8: "n < 2 ^ 8 \<Longrightarrow> unat (ucast (ucast (of_nat n :: 8 word) :: 64 word) :: 8 word) = n"
  by (simp add: unsigned_ucast_eq unsigned_of_nat take_bit_eq_mod)

lemma ucast_16: "n < 2 ^ 16 \<Longrightarrow> unat (ucast (ucast (of_nat n :: 16 word) :: 64 word) :: 16 word) = n"
  by (simp add: unsigned_ucast_eq unsigned_of_nat take_bit_eq_mod)

lemma ucast_32: "n < 2 ^ 32 \<Longrightarrow> unat (ucast (ucast (of_nat n :: 32 word) :: 64 word) :: 32 word) = n"
  by (simp add: unsigned_ucast_eq unsigned_of_nat take_bit_eq_mod)

lemma unat_64: "n < 2 ^ 64 \<Longrightarrow> unat (of_nat n :: 64 word) = n"
  by (simp add: unat_of_nat take_bit_eq_mod)

lemma marshal_small:
  assumes "n < 2 ^ (8 * sz)"
    and "Primitive_type name sz \<noteq> jl_float32_type" and "Primitive_type name sz \<noteq> jl_float64_type"
  shows "sz = 1 \<Longrightarrow> setInputParameter R vm (Type_val (Primitive_type name sz)) (Some (Bits (Primitive_type name sz) n)) w = (Inr (vm @ [DCchar (of_nat n)]), w)"
    and "sz = 2 \<Longrightarrow> setInputParameter R vm (Type_val (Primitive_type name sz)) (Some (Bits (Primitive_type name sz) n)) w = (Inr (vm @ [DCshort (of_nat n)]), w)"
    and "sz = 4 \<Longrightarrow> setInputParameter R vm (Type_val (Primitive_type name sz)) (Some (Bits (Primitive_type name sz) n)) w = (Inr (vm @ [DCint (of_nat n)]), w)"
    and "sz = 8 \<Longrightarrow> setInputParameter R vm (Type_val (Primitive_type name sz)) (Some (Bits (Primitive_type name sz) n)) w = (Inr (vm @ [DClong (of_nat n)]), w)"
  using assms
  by (simp_all add: setInputParameter_def setInputParameter_nonfloat_def jl_type_defs type_is_def
      jl_is_primitivetype_def jl_is_abstract_ref_type_def jl_is_cpointer_type_def
      size_of_type_def jl_datatype_size_def jl_unbox_def)

lemma dead_local_example: "dead_local example_runtime w sz v = v"
  by (simp add: example_runtime_def)

lemma native_identity:
  "native example_runtime 8192 [DCchar a] w = (Inr \<lparr> int_reg = ucast a, float_reg = 0 \<rparr>, w)"
  "native example_runtime 8192 [DCshort b] w = (Inr \<lparr> int_reg = ucast b, float_reg = 0 \<rparr>, w)"
  "native example_runtime 8192 [DCint c] w = (Inr \<lparr> int_reg = ucast c, float_reg = 0 \<rparr>, w)"
  "native example_runtime 8192 [DClong d] w = (Inr \<lparr> int_reg = d, float_reg = 0 \<rparr>, w)"
  by (simp_all add: example_runtime_def loopback_def)

lemma box_bool_round:
  assumes "n < 2"
  shows "jl_box_bool (ucast (ucast (of_nat n :: 8 word) :: 64 word)) = Bits jl_bool_type n"
proof -
  from assms have "n = 0 \<or> n = 1" by auto
  then show ?thesis
    by (auto simp: jl_box_bool_def jl_true_def jl_false_def)
qed

lemma round_trip_1:
  assumes "n < 2 ^ 8" and "Primitive_type name 1 = jl_bool_type \<longrightarrow> n < 2"
  shows "eval_value example_runtime example_state
      (example_ccall (QuoteNode (Symbol ''identity'')) (Primitive_type name 1) [Primitive_type name 1] 0
         [Bits (Primitive_type name 1) n]) 0 =
     (Inr (Some (Bits (Primitive_type name 1) n)), 0)"
proof -
  have prim: "jl_is_primitivetype (Primitive_type name 1)"
    by (simp add: jl_is_primitivetype_def)
  have m: "setInputParameter example_runtime [] (Type_val (Primitive_type name 1))
      (Some (Bits (Primitive_type name 1) n)) 0 = (Inr [DCchar (of_nat n)], 0)"
    using marshal_small(1) [of n 1 name example_runtime "[]" 0] assms(1)
    by (simp add: jl_type_defs)
  show ?thesis
  proof (cases "Primitive_type name 1 = jl_bool_type")
    case True
    with assms(2) have "n < 2" by simp
    from box_bool_round [OF this] True show ?thesis
      by (subst identity_call [OF prim], subst m)
         (simp add: bindr_def decode_return_def native_identity dead_local_example
          jl_type_defs type_is_def jl_is_array_type_def)
  next
    case False
    with assms(1) ucast_8 [of n] show ?thesis
      by (subst identity_call [OF prim], subst m)
         (simp add: bindr_def decode_return_def native_identity dead_local_example
          jl_type_defs type_is_def jl_is_array_type_def jl_is_cpointer_type_def
          jl_is_abstract_ref_type_def jl_is_primitivetype_def jl_datatype_size_def jl_new_bits_def)
  qed
qed

lemma round_trip_2:
  assumes "n < 2 ^ 16"
  shows "eval_value example_runtime example_state
      (example_ccall (QuoteNode (Symbol ''identity'')) (Primitive_type name 2) [Primitive_type name 2] 0
         [Bits (Primitive_type name 2) n]) 0 =
     (Inr (Some (Bits (Primitive_type name 2) n)), 0)"
proof -
  have prim: "jl_is_primitivetype (Primitive_type name 2)"
    by (simp add: jl_is_primitivetype_def)
  have m: "setInputParameter example_runtime [] (Type_val (Primitive_type name 2))
      (Some (Bits (Primitive_type name 2) n)) 0 = (Inr [DCshort (of_nat n)], 0)"
    using marshal_small(2) [of n 2 name example_runtime "[]" 0] assms(1)
    by (simp add: jl_type_defs)
  from assms ucast_16 [of n] show ?thesis
    by (subst identity_call [OF prim], subst m)
         (simp add: bindr_def decode_return_def native_identity dead_local_example
        jl_type_defs type_is_def jl_is_array_type_def jl_is_cpointer_type_def
        jl_is_abstract_ref_type_def jl_is_primitivetype_def jl_datatype_size_def jl_new_bits_def)
qed

lemma round_trip_4:
  assumes "n < 2 ^ 32" and "Primitive_type name 4 \<noteq> jl_float32_type"
  shows "eval_value example_runtime example_state
      (example_ccall (QuoteNode (Symbol ''identity'')) (Primitive_type name 4) [Primitive_type name 4] 0
         [Bits (Primitive_type name 4) n]) 0 =
     (Inr (Some (Bits (Primitive_type name 4) n)), 0)"
proof -
  have prim: "jl_is_primitivetype (Primitive_type name 4)"
    by (simp add: jl_is_primitivetype_def)
  have m: "setInputParameter example_runtime [] (Type_val (Primitive_type name 4))
      (Some (Bits (Primitive_type name 4) n)) 0 = (Inr [DCint (of_nat n)], 0)"
    using marshal_small(3) [of n 4 name example_runtime "[]" 0] assms
    by (simp add: jl_type_defs)
  from assms ucast_32 [of n] show ?thesis
    by (subst identity_call [OF prim], subst m)
         (simp add: bindr_def decode_return_def native_identity dead_local_example
        jl_type_defs type_is_def jl_is_array_type_def jl_is_cpointer_type_def
        jl_is_abstract_ref_type_def jl_is_primitivetype_def jl_datatype_size_def jl_new_bits_def)
qed

lemma round_trip_8:
  assumes "n < 2 ^ 64" and "Primitive_type name 8 \<noteq> jl_float64_type"
  shows "eval_value example_runtime example_state
      (example_ccall (QuoteNode (Symbol ''identity'')) (Primitive_type name 8) [Primitive_type name 8] 0
         [Bits (Primitive_type name 8) n]) 0 =
     (Inr (Some (Bits (Primitive_type name 8) n)), 0)"
proof -
  have prim: "jl_is_primitivetype (Primitive_type name 8)"
    by (simp add: jl_is_primitivetype_def)
  have m: "setInputParameter example_runtime [] (Type_val (Primitive_type name 8))
      (Some (Bits (Primitive_type name 8) n)) 0 = (Inr [DClong (of_nat n)], 0)"
    using marshal_small(4) [of n 8 name example_runtime "[]" 0] assms
    by (simp add: jl_type_defs)
  from assms unat_64 [of n] show ?thesis
    by (subst identity_call [OF prim], subst m)
         (simp add: bindr_def decode_return_def native_identity dead_local_example
        jl_type_defs type_is_def jl_is_array_type_def jl_is_cpointer_type_def
        jl_is_abstract_ref_type_def jl_is_primitivetype_def jl_datatype_size_def jl_new_bits_def)
qed

text \<open>
  C5. A foreign call declared to return \<open>Float64\<close> reads the integer return
  register and converts the number there to a double; the floating-point
  register, where the native function left its result, is not read. The
  identity function on doubles, called with 1.5 (the bits
  \<open>0x3FF8000000000000\<close>), returns 1.5 in the floating-point register and
  leaves 0 in the integer one: the call gives 0.0.
\<close>

theorem float64_return_example:
  "eval_value example_runtime example_state
      (example_ccall (QuoteNode (Symbol ''identity'')) jl_float64_type [jl_float64_type] 0
         [Bits jl_float64_type 0x3FF8000000000000]) 0 =
     (Inr (Some (Bits jl_float64_type 0)), 0)"
proof -
  have prim: "jl_is_primitivetype jl_float64_type"
    by (simp add: jl_is_primitivetype_def jl_type_defs)
  have native: "native example_runtime 8192 [DCdouble x] w =
      (Inr \<lparr> int_reg = 0, float_reg = x \<rparr>, w)" for x w
    by (simp add: example_runtime_def loopback_def)
  have conv: "double_of_long 0 = 0"
    by (simp add: double_of_long_def)
  show ?thesis
    by (simp add: identity_call [OF prim] marshal_float64 decode_float64 native conv bindr_def)
qed

text \<open>
  C2. A 16-byte argument is pushed as a \<^verbatim>\<open>long long\<close>, its low eight bytes, and a
  16-byte return is copied from an eight-byte local. The identity function
  called with the \<open>UInt128\<close> value \<open>2 ^ 64\<close>, whose low eight bytes are zero,
  gives 0 when the local still holds what was stored and the eight bytes above
  it are zero.
\<close>

theorem sixteen_byte_round_trip_example:
  "eval_value example_runtime example_state
      (example_ccall (QuoteNode (Symbol ''identity'')) (Primitive_type ''UInt128'' 16)
         [Primitive_type ''UInt128'' 16] 0 [Bits (Primitive_type ''UInt128'' 16) (2 ^ 64)]) 0 =
     (Inr (Some (Bits (Primitive_type ''UInt128'' 16) 0)), 0)"
proof -
  have prim: "jl_is_primitivetype (Primitive_type ''UInt128'' 16)"
    by (simp add: jl_is_primitivetype_def)
  have native: "native example_runtime 8192 [DClonglong x] w =
      (Inr \<lparr> int_reg = x, float_reg = 0 \<rparr>, w)" for x w
    by (simp add: example_runtime_def loopback_def)
  have above: "dead_local example_runtime w sz v = v" for w sz v
    by (simp add: example_runtime_def)
  show ?thesis
    by (simp add: identity_call [OF prim] marshal_16 decode_16 native above bindr_def)
qed

end
